theory Spec2Isabelle
  imports Complex_Main
begin

section \<open>JavaScript numbers\<close>

text \<open>
  The JavaScript sources compute with numbers that are modelled here as reals: arithmetic
  is exact. The non-finite values of JavaScript (Infinity, NaN) have no counterpart, so a
  division whose divisor is zero is a failure of the model (the value \<open>None\<close>), never the
  value that HOL's total division would give.
\<close>

definition js_div :: "real \<Rightarrow> real \<Rightarrow> real option" where
  "js_div a b = (if b = 0 then None else Some (a / b))"

text \<open>\<open>Math.round\<close> rounds to the nearest integer, halves towards plus infinity.\<close>

definition js_round :: "real \<Rightarrow> real" where
  "js_round x = of_int \<lfloor>x + 1 / 2\<rfloor>"

text \<open>\<open>Math.floor\<close>.\<close>

definition js_floor :: "real \<Rightarrow> int" where
  "js_floor x = \<lfloor>x\<rfloor>"

text \<open>A touch of a \<open>TouchList\<close>: only \<open>clientX\<close> and \<open>clientY\<close> are ever read.\<close>

record touch =
  clientX :: real
  clientY :: real

record pos =
  pos_x :: real
  pos_y :: real

section \<open>ZoomController (zoom.js)\<close>

definition PINCH_THRESHOLD :: real where
  "PINCH_THRESHOLD = 15"

record zoom_state =
  zoomed :: bool
  scale :: real
  translateX :: real
  translateY :: real
  isPanning :: bool
  panStartMidX :: real
  panStartMidY :: real
  panStartTX :: real
  panStartTY :: real
  pinchStartDist :: real
  pinchStartScale :: real
  pinchStartTX :: real
  pinchStartTY :: real
  pinchFocalX :: real
  pinchFocalY :: real
  isPinching :: bool
  gestureUndecided :: bool
  isScroll :: bool
  undecidedMidX :: real
  undecidedMidY :: real

text \<open>The state the constructor builds.\<close>

definition zoom_init :: zoom_state where
  "zoom_init = \<lparr> zoomed = False, scale = 1, translateX = 0, translateY = 0,
     isPanning = False, panStartMidX = 0, panStartMidY = 0, panStartTX = 0, panStartTY = 0,
     pinchStartDist = 0, pinchStartScale = 1, pinchStartTX = 0, pinchStartTY = 0,
     pinchFocalX = 0, pinchFocalY = 0, isPinching = False, gestureUndecided = False,
     isScroll = False, undecidedMidX = 0, undecidedMidY = 0 \<rparr>"

text \<open>
  What a handler reads from the page when it runs: the container's \<open>offsetWidth\<close> and
  \<open>offsetHeight\<close>, the origin of its bounding client rectangle, and the result of
  \<open>getResolution()\<close> (\<open>None\<close> for a null result).
\<close>

record resolution =
  realWidth :: real
  realHeight :: real

record zoom_env =
  offsetWidth :: real
  offsetHeight :: real
  rectLeft :: real
  rectTop :: real
  getResolution :: "resolution option"

text \<open>
  What a handler does besides updating the fields: the calls on the event, the transform
  written to the container's style and the \<open>onZoomChange\<close> callback.
\<close>

datatype zoom_effect =
    PreventDefault
  | StopPropagation
  | ClearTransform
  | SetTransform real real real
  | NotifyChange bool real

definition dist :: "touch \<Rightarrow> touch \<Rightarrow> real" where
  "dist t0 t1 =
     (let dx = clientX t0 - clientX t1; dy = clientY t0 - clientY t1
      in sqrt (dx * dx + dy * dy))"

definition midpoint :: "touch \<Rightarrow> touch \<Rightarrow> pos" where
  "midpoint t0 t1 =
     \<lparr> pos_x = (clientX t0 + clientX t1) / 2, pos_y = (clientY t0 + clientY t1) / 2 \<rparr>"

definition clampTranslation :: "zoom_env \<Rightarrow> zoom_state \<Rightarrow> zoom_state" where
  "clampTranslation e s =
     (let viewW = offsetWidth e; viewH = offsetHeight e;
          maxTX = (viewW * (scale s - 1)) / 2;
          maxTY = (viewH * (scale s - 1)) / 2
      in s\<lparr> translateX := max (- maxTX) (min maxTX (translateX s)),
             translateY := max (- maxTY) (min maxTY (translateY s)) \<rparr>)"

text \<open>
  \<open>_applyTransform\<close>: the translation written to the style is divided by the scale; the
  effect records the three fields it is computed from.
\<close>

definition applyTransform :: "zoom_state \<Rightarrow> zoom_effect" where
  "applyTransform s =
     (if scale s = 1 \<and> translateX s = 0 \<and> translateY s = 0 then ClearTransform
      else SetTransform (scale s) (translateX s) (translateY s))"

definition notifyChange :: "zoom_state \<Rightarrow> zoom_effect" where
  "notifyChange s = NotifyChange (zoomed s) (scale s)"

definition resetZoom :: "zoom_state \<Rightarrow> zoom_state \<times> zoom_effect list" where
  "resetZoom s =
     (let s' = s\<lparr> scale := 1, translateX := 0, translateY := 0, zoomed := False \<rparr>
      in (s', [applyTransform s', notifyChange s']))"

definition zoomToNative :: "zoom_env \<Rightarrow> zoom_state \<Rightarrow> (zoom_state \<times> zoom_effect list) option" where
  "zoomToNative e s =
     (case getResolution e of
        None \<Rightarrow> Some (s, [])
      | Some res \<Rightarrow>
          if realWidth res = 0 \<or> realHeight res = 0 then Some (s, [])
          else
            let viewW = offsetWidth e; viewH = offsetHeight e;
                fitScale = min (viewW / realWidth res) (viewH / realHeight res)
            in (case js_div 1 fitScale of
                  None \<Rightarrow> None
                | Some nativeScale \<Rightarrow>
                    if nativeScale \<le> 105 / 100 then Some (s, [])
                    else
                      let s' = s\<lparr> scale := nativeScale, translateX := 0, translateY := 0,
                                   zoomed := True \<rparr>
                      in Some (s', [applyTransform s', notifyChange s'])))"

definition toggle :: "zoom_env \<Rightarrow> zoom_state \<Rightarrow> (zoom_state \<times> zoom_effect list) option" where
  "toggle e s = (if zoomed s then Some (resetZoom s) else zoomToNative e s)"

definition zoom_handleTouchStart :: "touch list \<Rightarrow> zoom_state \<Rightarrow> zoom_state \<times> zoom_effect list" where
  "zoom_handleTouchStart ts s =
     (case ts of
        [t0, t1] \<Rightarrow>
          let mid = midpoint t0 t1
          in (s\<lparr> pinchStartDist := dist t0 t1,
                  pinchStartScale := scale s,
                  pinchStartTX := translateX s,
                  pinchStartTY := translateY s,
                  gestureUndecided := True,
                  isScroll := False,
                  isPinching := False,
                  isPanning := False,
                  undecidedMidX := pos_x mid,
                  undecidedMidY := pos_y mid \<rparr>, [PreventDefault])
      | _ \<Rightarrow> (s, []))"

text \<open>
  The block of \<open>_handleTouchMove\<close> that runs while the gesture is undecided. The focal
  point divides by the scale recorded at touch start.
\<close>

definition classify :: "zoom_env \<Rightarrow> touch \<Rightarrow> touch \<Rightarrow> real \<Rightarrow> zoom_state \<Rightarrow> zoom_state option" where
  "classify e t0 t1 distChange s =
     (if distChange > PINCH_THRESHOLD then
        let focalMid = midpoint t0 t1
        in (case (js_div (pos_x focalMid - rectLeft e) (pinchStartScale s),
                  js_div (pos_y focalMid - rectTop e) (pinchStartScale s)) of
              (Some fx, Some fy) \<Rightarrow>
                Some (s\<lparr> gestureUndecided := False, isPinching := True, isScroll := False,
                         pinchFocalX := fx, pinchFocalY := fy \<rparr>)
            | _ \<Rightarrow> None)
      else
        let mid = midpoint t0 t1;
            midDx = \<bar>pos_x mid - undecidedMidX s\<bar>;
            midDy = \<bar>pos_y mid - undecidedMidY s\<bar>
        in if midDx > 10 \<or> midDy > 10 then
             (if zoomed s then
                Some (s\<lparr> gestureUndecided := False, isPinching := False,
                         isPanning := True, isScroll := False,
                         panStartMidX := pos_x mid, panStartMidY := pos_y mid,
                         panStartTX := translateX s, panStartTY := translateY s \<rparr>)
              else
                Some (s\<lparr> gestureUndecided := False, isPinching := False, isScroll := True \<rparr>))
           else Some s)"

text \<open>The pan branch: the translation follows the midpoint, then is clamped.\<close>

definition pan_update :: "zoom_env \<Rightarrow> touch \<Rightarrow> touch \<Rightarrow> zoom_state \<Rightarrow> zoom_state" where
  "pan_update e t0 t1 s =
     (let mid = midpoint t0 t1
      in clampTranslation e
           (s\<lparr> translateX := panStartTX s + (pos_x mid - panStartMidX s),
                translateY := panStartTY s + (pos_y mid - panStartMidY s) \<rparr>))"

text \<open>The pinch branch: the scale follows the ratio of the distances, clamped to 1..4.\<close>

definition pinch_update :: "zoom_env \<Rightarrow> real \<Rightarrow> zoom_state \<Rightarrow> zoom_state option" where
  "pinch_update e currentDist s =
     (case js_div currentDist (pinchStartDist s) of
        None \<Rightarrow> None
      | Some ratio \<Rightarrow>
          let newScale0 = pinchStartScale s * ratio;
              newScale = max 1 (min newScale0 4);
              cx = offsetWidth e / 2;
              cy = offsetHeight e / 2
          in Some (clampTranslation e
               (s\<lparr> translateX := pinchStartTX s + (pinchFocalX s - cx) * (pinchStartScale s - newScale),
                    translateY := pinchStartTY s + (pinchFocalY s - cy) * (pinchStartScale s - newScale),
                    scale := newScale,
                    zoomed := (newScale > 105 / 100) \<rparr>)))"

definition zoom_handleTouchMove ::
  "zoom_env \<Rightarrow> touch list \<Rightarrow> zoom_state \<Rightarrow> (zoom_state \<times> zoom_effect list) option" where
  "zoom_handleTouchMove e ts s =
     (case ts of
        [t0, t1] \<Rightarrow>
          if \<not> gestureUndecided s \<and> \<not> isPinching s \<and> \<not> isScroll s \<and> \<not> isPanning s
          then Some (s, [])
          else
            let currentDist = dist t0 t1;
                distChange = \<bar>currentDist - pinchStartDist s\<bar>
            in (case (if gestureUndecided s then classify e t0 t1 distChange s else Some s) of
                  None \<Rightarrow> None
                | Some s1 \<Rightarrow>
                    if gestureUndecided s1 then Some (s1, [PreventDefault])
                    else if isScroll s1 then Some (s1, [])
                    else if isPanning s1 then
                      (let s2 = pan_update e t0 t1 s1
                       in Some (s2, [PreventDefault, StopPropagation, applyTransform s2]))
                    else if isPinching s1 then
                      (case pinch_update e currentDist s1 of
                         None \<Rightarrow> None
                       | Some s2 \<Rightarrow>
                           Some (s2, [PreventDefault, StopPropagation, applyTransform s2]))
                    else Some (s1, []))
      | _ \<Rightarrow> Some (s, []))"

definition zoom_handleTouchEnd ::
  "zoom_env \<Rightarrow> touch list \<Rightarrow> zoom_state \<Rightarrow> zoom_state \<times> zoom_effect list" where
  "zoom_handleTouchEnd e ts s =
     (if length ts < 2 then
        let wasPinching = isPinching s;
            wasPanning = isPanning s;
            s1 = s\<lparr> isPinching := False, isPanning := False,
                     gestureUndecided := False, isScroll := False \<rparr>;
            (s2, fx2) =
              (if wasPinching then
                 (if scale s1 < 105 / 100 then
                    (let (r, fx) = resetZoom s1
                     in (r, fx @ [notifyChange r, PreventDefault, StopPropagation]))
                  else
                    (let c = clampTranslation e s1
                     in (c, [applyTransform c, notifyChange c, PreventDefault, StopPropagation])))
               else (s1, []));
            (s3, fx3) =
              (if wasPanning then
                 (let c = clampTranslation e s2
                  in (c, [applyTransform c, PreventDefault, StopPropagation]))
               else (s2, []))
        in (s3, fx2 @ fx3)
      else (s, []))"

text \<open>
  Everything that can happen to a ZoomController: the three touch listeners and the public
  methods, each with what the page shows when it runs.
\<close>

datatype zoom_event =
    ZTouchStart "touch list"
  | ZTouchMove "touch list"
  | ZTouchEnd "touch list"
  | ZToggle
  | ZZoomToNative
  | ZResetZoom

fun zoom_step :: "zoom_env \<Rightarrow> zoom_event \<Rightarrow> zoom_state \<Rightarrow> (zoom_state \<times> zoom_effect list) option" where
  "zoom_step e (ZTouchStart ts) s = Some (zoom_handleTouchStart ts s)"
| "zoom_step e (ZTouchMove ts) s = zoom_handleTouchMove e ts s"
| "zoom_step e (ZTouchEnd ts) s = Some (zoom_handleTouchEnd e ts s)"
| "zoom_step e ZToggle s = toggle e s"
| "zoom_step e ZZoomToNative s = zoomToNative e s"
| "zoom_step e ZResetZoom s = Some (resetZoom s)"

text \<open>
  The element's \<open>offsetWidth\<close> and \<open>offsetHeight\<close> are never negative.
\<close>

definition wf_zoom_env :: "zoom_env \<Rightarrow> bool" where
  "wf_zoom_env e \<longleftrightarrow> 0 \<le> offsetWidth e \<and> 0 \<le> offsetHeight e"

inductive zoom_reachable :: "zoom_state \<Rightarrow> bool" where
  zr_init: "zoom_reachable zoom_init"
| zr_step: "zoom_reachable s \<Longrightarrow> wf_zoom_env e \<Longrightarrow> zoom_step e ev s = Some (s', fx)
            \<Longrightarrow> zoom_reachable s'"

section \<open>MouseHandler (input/mouse.js)\<close>

definition TAP_MAX_DURATION :: int where
  "TAP_MAX_DURATION = 200"

definition TAP_MAX_DISTANCE :: real where
  "TAP_MAX_DISTANCE = 10"

definition DOUBLE_TAP_WINDOW :: int where
  "DOUBLE_TAP_WINDOW = 300"

definition LONG_PRESS_DELAY :: int where
  "LONG_PRESS_DELAY = 500"

definition DRAG_HOLD_DELAY :: int where
  "DRAG_HOLD_DELAY = 200"

datatype mouse_mode = Absolute | Relative

datatype button = LeftButton | RightButton

text \<open>The calls on the websocket: the HID events the handler emits.\<close>

datatype hid_event =
    MouseButton button bool
  | MouseMoveAbs real real
  | MouseRelative int int
  | MouseWheel real real

text \<open>What a pending \<open>setTimeout\<close> of the handler runs when it fires.\<close>

datatype callback = CbDragHold | CbLongPress | CbSingleTap | CbButtonUp button

text \<open>
  A pending timer: its id, the time it is due and its callback. Timer ids are positive,
  so a field that holds one is truthy.
\<close>

type_synonym timer = "nat \<times> int \<times> callback"

record geometry =
  geo_x :: real
  geo_y :: real
  geo_width :: real
  geo_height :: real

record mouse_state =
  mode :: mouse_mode
  absPos :: "pos option"
  relTouchStart :: "pos option"
  enabled :: bool
  sensitivity :: real
  scrollSensitivity :: real
  touchStartTime :: int
  touchStartPos :: "pos option"
  touchMoved :: bool
  lastTapTime :: int
  lastTapPos :: "pos option"
  singleTapTimer :: "nat option"
  longPressTimer :: "nat option"
  longPressFired :: bool
  isDragging :: bool
  dragHoldTimer :: "nat option"
  isSecondTapDown :: bool
  twoFingerTapDetected :: bool
  twoFingerStartTime :: int
  twoFingerMoved :: bool
  scrollAnchor :: "pos option"
  timers :: "timer list"
  nextTimerId :: nat

definition mouse_init :: mouse_state where
  "mouse_init = \<lparr> mode = Absolute, absPos = None, relTouchStart = None, enabled = True,
     sensitivity = 1, scrollSensitivity = 2, touchStartTime = 0, touchStartPos = None,
     touchMoved = False, lastTapTime = 0, lastTapPos = None, singleTapTimer = None,
     longPressTimer = None, longPressFired = False, isDragging = False,
     dragHoldTimer = None, isSecondTapDown = False, twoFingerTapDetected = False,
     twoFingerStartTime = 0, twoFingerMoved = False, scrollAnchor = None,
     timers = [], nextTimerId = 1 \<rparr>"

text \<open>
  What a handler reads from outside the object when it runs: \<open>Date.now()\<close>, the origin of
  the container's bounding client rectangle, the ZoomController (\<open>None\<close> while none is
  set) and the stream geometry: \<open>None\<close> while no \<open>getStreamGeometry\<close> function is set,
  \<open>Some None\<close> when the function returns null.
\<close>

record mouse_env =
  now :: int
  boundLeft :: real
  boundTop :: real
  zoomController :: "zoom_state option"
  getStreamGeometry :: "geometry option option"

definition setTimeout :: "callback \<Rightarrow> int \<Rightarrow> mouse_env \<Rightarrow> mouse_state \<Rightarrow> nat \<times> mouse_state" where
  "setTimeout cb delay e s =
     (nextTimerId s,
      s\<lparr> timers := timers s @ [(nextTimerId s, now e + delay, cb)],
         nextTimerId := Suc (nextTimerId s) \<rparr>)"

definition clearTimeout :: "nat \<Rightarrow> mouse_state \<Rightarrow> mouse_state" where
  "clearTimeout i s = s\<lparr> timers := filter (\<lambda>t. fst t \<noteq> i) (timers s) \<rparr>"

definition isZoomGesture :: "mouse_env \<Rightarrow> bool" where
  "isZoomGesture e =
     (case zoomController e of None \<Rightarrow> False | Some z \<Rightarrow> isPanning z \<or> isPinching z)"

text \<open>Adapted from desktop tools.remap; \<open>(inMax - inMin) || 1\<close> is the divisor.\<close>

definition remap_divisor :: "real \<Rightarrow> real \<Rightarrow> real" where
  "remap_divisor inMin inMax = (if inMax - inMin = 0 then 1 else inMax - inMin)"

definition remap :: "real \<Rightarrow> real \<Rightarrow> real \<Rightarrow> real \<Rightarrow> real \<Rightarrow> real" where
  "remap v inMin inMax outMin outMax =
     (let result = js_round ((v - inMin) * (outMax - outMin) / remap_divisor inMin inMax + outMin)
      in min (max result outMin) outMax)"

definition sendPlannedMove :: "mouse_env \<Rightarrow> mouse_state \<Rightarrow> mouse_state \<times> hid_event list" where
  "sendPlannedMove e s =
     (if mode s = Absolute then
        (case absPos s of
           None \<Rightarrow> (s, [])
         | Some p \<Rightarrow>
             (case getStreamGeometry e of
                None \<Rightarrow> (s, [])
              | Some None \<Rightarrow> (s, [])
              | Some (Some geo) \<Rightarrow>
                  let x = remap (pos_x p - geo_x geo) 0 (geo_width geo - 1) (- 32768) 32767;
                      y = remap (pos_y p - geo_y geo) 0 (geo_height geo - 1) (- 32768) 32767
                  in (s\<lparr> absPos := None \<rparr>, [MouseMoveAbs x y])))
      else (s, []))"

text \<open>
  \<open>_screenToContainerPos\<close>: with a zoomed ZoomController the offset in the transformed
  rectangle is divided by the scale.
\<close>

definition screenToContainerPos :: "mouse_env \<Rightarrow> real \<Rightarrow> real \<Rightarrow> pos option" where
  "screenToContainerPos e screenX screenY =
     (case zoomController e of
        None \<Rightarrow>
          Some \<lparr> pos_x = js_round (screenX - boundLeft e), pos_y = js_round (screenY - boundTop e) \<rparr>
      | Some z \<Rightarrow>
          if zoomed z then
            (case (js_div (screenX - boundLeft e) (scale z), js_div (screenY - boundTop e) (scale z)) of
               (Some ux, Some uy) \<Rightarrow> Some \<lparr> pos_x = js_round ux, pos_y = js_round uy \<rparr>
             | _ \<Rightarrow> None)
          else
            Some \<lparr> pos_x = js_round (screenX - boundLeft e), pos_y = js_round (screenY - boundTop e) \<rparr>)"

definition getTouchPos :: "mouse_env \<Rightarrow> touch \<Rightarrow> pos option" where
  "getTouchPos e t = screenToContainerPos e (clientX t) (clientY t)"

definition getMidpoint :: "touch \<Rightarrow> touch \<Rightarrow> pos" where
  "getMidpoint t0 t1 =
     \<lparr> pos_x = (clientX t0 + clientX t1) / 2, pos_y = (clientY t0 + clientY t1) / 2 \<rparr>"

definition pos_distance :: "pos \<Rightarrow> pos \<Rightarrow> real" where
  "pos_distance p q =
     (let dx = pos_x p - pos_x q; dy = pos_y p - pos_y q in sqrt (dx * dx + dy * dy))"

text \<open>\<open>clearTimeout\<close> of a timer field that holds an id, and the field set to null.\<close>

definition cancelLongPress :: "mouse_state \<Rightarrow> mouse_state" where
  "cancelLongPress s =
     (case longPressTimer s of
        None \<Rightarrow> s
      | Some i \<Rightarrow> (clearTimeout i s)\<lparr> longPressTimer := None \<rparr>)"

definition cancelDragHold :: "mouse_state \<Rightarrow> mouse_state" where
  "cancelDragHold s =
     (case dragHoldTimer s of
        None \<Rightarrow> s
      | Some i \<Rightarrow> (clearTimeout i s)\<lparr> dragHoldTimer := None \<rparr>)"

definition cancelSingleTap :: "mouse_state \<Rightarrow> mouse_state" where
  "cancelSingleTap s =
     (case singleTapTimer s of
        None \<Rightarrow> s
      | Some i \<Rightarrow> (clearTimeout i s)\<lparr> singleTapTimer := None \<rparr>)"

text \<open>The last lines of both single-finger branches of \<open>_handleTouchStart\<close>.\<close>

definition placeTouch :: "mouse_env \<Rightarrow> pos \<Rightarrow> mouse_state \<Rightarrow> mouse_state \<times> hid_event list" where
  "placeTouch e p s =
     (if mode s = Absolute then sendPlannedMove e (s\<lparr> absPos := Some p \<rparr>)
      else (s\<lparr> relTouchStart := Some p \<rparr>, []))"

text \<open>The test for the second tap of a double tap; a zero \<open>_lastTapTime\<close> is falsy.\<close>

definition isSecondTap :: "mouse_env \<Rightarrow> pos \<Rightarrow> mouse_state \<Rightarrow> bool" where
  "isSecondTap e p s =
     (lastTapTime s \<noteq> 0 \<and> now e - lastTapTime s < DOUBLE_TAP_WINDOW \<and>
      (case lastTapPos s of
         None \<Rightarrow> False
       | Some lp \<Rightarrow> pos_distance p lp < TAP_MAX_DISTANCE * 2))"

definition mouse_handleTouchStart ::
  "mouse_env \<Rightarrow> touch list \<Rightarrow> mouse_state \<Rightarrow> (mouse_state \<times> hid_event list) option" where
  "mouse_handleTouchStart e ts s =
     (if \<not> enabled s then Some (s, [])
      else if isZoomGesture e then Some (s, [])
      else
        (case ts of
           [t] \<Rightarrow>
             (case getTouchPos e t of
                None \<Rightarrow> None
              | Some p \<Rightarrow>
                  let s1 = s\<lparr> touchStartTime := now e, touchStartPos := Some p,
                              touchMoved := False, longPressFired := False \<rparr>
                  in if isSecondTap e p s1 then
                       (let s2 = cancelSingleTap s1;
                            s3 = s2\<lparr> isSecondTapDown := True \<rparr>;
                            s4 = (case dragHoldTimer s3 of None \<Rightarrow> s3 | Some i \<Rightarrow> clearTimeout i s3);
                            (i, s5) = setTimeout CbDragHold DRAG_HOLD_DELAY e s4
                        in Some (placeTouch e p (s5\<lparr> dragHoldTimer := Some i \<rparr>)))
                     else
                       (let s2 = (case longPressTimer s1 of None \<Rightarrow> s1 | Some i \<Rightarrow> clearTimeout i s1);
                            (i, s3) = setTimeout CbLongPress LONG_PRESS_DELAY e s2
                        in Some (placeTouch e p (s3\<lparr> longPressTimer := Some i \<rparr>))))
         | [t0, t1] \<Rightarrow>
             (let s1 = cancelDragHold (cancelLongPress s);
                  mid = getMidpoint t0 t1;
                  s2 = s1\<lparr> isSecondTapDown := False, twoFingerStartTime := now e,
                           twoFingerMoved := False, twoFingerTapDetected := True,
                           scrollAnchor := Some mid \<rparr>
              in if mode s2 = Absolute then
                   (case screenToContainerPos e (pos_x mid) (pos_y mid) of
                      None \<Rightarrow> None
                    | Some midPos \<Rightarrow> Some (sendPlannedMove e (s2\<lparr> absPos := Some midPos \<rparr>)))
                 else Some (s2, []))
         | _ \<Rightarrow> Some (s, [])))"

text \<open>
  The relative-mode block of \<open>_handleTouchMove\<close>, which the source has twice (dragging or
  not): the delta from the anchor is scaled, floored and clamped to -127..127, sent when
  one of the two is not zero, and the anchor moves to the current position.
\<close>

definition relDelta :: "real \<Rightarrow> real \<Rightarrow> real \<Rightarrow> int" where
  "relDelta sens cur anchor = min (max (- 127) (js_floor ((cur - anchor) * sens))) 127"

definition relativeMove :: "pos \<Rightarrow> mouse_state \<Rightarrow> mouse_state \<times> hid_event list" where
  "relativeMove p s =
     (case relTouchStart s of
        None \<Rightarrow> (s, [])
      | Some a \<Rightarrow>
          let dx = relDelta (sensitivity s) (pos_x p) (pos_x a);
              dy = relDelta (sensitivity s) (pos_y p) (pos_y a)
          in (s\<lparr> relTouchStart := Some p \<rparr>,
              if dx \<noteq> 0 \<or> dy \<noteq> 0 then [MouseRelative dx dy] else []))"

text \<open>The check of \<open>_handleTouchMove\<close> that the finger left the tap radius.\<close>

definition checkMoved :: "pos \<Rightarrow> mouse_state \<Rightarrow> mouse_state \<times> hid_event list" where
  "checkMoved p s =
     (case touchStartPos s of
        None \<Rightarrow> (s, [])
      | Some sp \<Rightarrow>
          if pos_distance p sp > TAP_MAX_DISTANCE then
            (let s1 = s\<lparr> touchMoved := True \<rparr>;
                 (s2, out) =
                   (if isSecondTapDown s1 \<and> \<not> isDragging s1
                    then (cancelDragHold (s1\<lparr> isDragging := True \<rparr>), [MouseButton LeftButton True])
                    else (s1, []))
             in (cancelLongPress s2, out))
          else (s, []))"

definition wheelStep :: "real \<Rightarrow> real \<Rightarrow> real" where
  "wheelStep sens d = (if \<bar>d\<bar> > 5 then (if d > 0 then sens else - sens) else 0)"

definition mouse_handleTouchMove ::
  "mouse_env \<Rightarrow> touch list \<Rightarrow> mouse_state \<Rightarrow> (mouse_state \<times> hid_event list) option" where
  "mouse_handleTouchMove e ts s =
     (if \<not> enabled s then Some (s, [])
      else if isZoomGesture e then Some (s, [])
      else
        (case ts of
           [t] \<Rightarrow>
             (case getTouchPos e t of
                None \<Rightarrow> None
              | Some p \<Rightarrow>
                  let (s1, out1) = checkMoved p s;
                      (s2, out2) =
                        (if isDragging s1 then
                           (if mode s1 = Absolute then (s1\<lparr> absPos := Some p \<rparr>, [])
                            else relativeMove p s1)
                         else if mode s1 = Absolute then (s1\<lparr> absPos := Some p \<rparr>, [])
                         else relativeMove p s1)
                  in Some (s2, out1 @ out2))
         | [t0, t1] \<Rightarrow>
             (let mid = getMidpoint t0 t1;
                  (s1, out) =
                    (case scrollAnchor s of
                       None \<Rightarrow> (s, [])
                     | Some a \<Rightarrow>
                         let dx = pos_x mid - pos_x a; dy = pos_y mid - pos_y a
                         in if \<bar>dy\<bar> > 5 \<or> \<bar>dx\<bar> > 5 then
                              (s\<lparr> twoFingerMoved := True, twoFingerTapDetected := False,
                                  scrollAnchor := Some mid \<rparr>,
                               [MouseWheel (wheelStep (scrollSensitivity s) dx)
                                           (wheelStep (scrollSensitivity s) dy)])
                            else (s, []))
              in Some (s1\<lparr> absPos := None \<rparr>, out))
         | _ \<Rightarrow> Some (s, [])))"

definition resetState :: "mouse_state \<Rightarrow> mouse_state" where
  "resetState s =
     s\<lparr> relTouchStart := None, touchStartPos := None,
        twoFingerTapDetected := False, scrollAnchor := None \<rparr>"

text \<open>A press now and the release 50 ms later, by an anonymous timer.\<close>

definition clickPulse :: "button \<Rightarrow> mouse_env \<Rightarrow> mouse_state \<Rightarrow> mouse_state \<times> hid_event list" where
  "clickPulse b e s = (snd (setTimeout (CbButtonUp b) 50 e s), [MouseButton b True])"

text \<open>
  \<open>_processTap\<close>, called only under the guard that \<open>_touchStartPos\<close> is set; \<open>p\<close> is that
  position.
\<close>

definition processTap :: "mouse_env \<Rightarrow> pos \<Rightarrow> mouse_state \<Rightarrow> mouse_state" where
  "processTap e p s =
     (let s1 = s\<lparr> lastTapTime := now e,
                 lastTapPos := Some \<lparr> pos_x = pos_x p, pos_y = pos_y p \<rparr> \<rparr>
      in if mode s1 = Relative then
           (let s2 = (case singleTapTimer s1 of None \<Rightarrow> s1 | Some i \<Rightarrow> clearTimeout i s1);
                (i, s3) = setTimeout CbSingleTap DOUBLE_TAP_WINDOW e s2
            in s3\<lparr> singleTapTimer := Some i \<rparr>)
         else s1)"

definition tapIfAny :: "mouse_env \<Rightarrow> bool \<Rightarrow> touch list \<Rightarrow> mouse_state \<Rightarrow> mouse_state" where
  "tapIfAny e wasTap changed s =
     (case touchStartPos s of
        None \<Rightarrow> s
      | Some p \<Rightarrow> if wasTap \<and> length changed \<ge> 1 then processTap e p s else s)"

definition mouse_handleTouchEnd ::
  "mouse_env \<Rightarrow> touch list \<Rightarrow> touch list \<Rightarrow> mouse_state \<Rightarrow> mouse_state \<times> hid_event list" where
  "mouse_handleTouchEnd e ts changed s =
     (if \<not> enabled s then (s, [])
      else if isZoomGesture e then (s, [])
      else
        let s1 = cancelLongPress s
        in (case ts of
              [] \<Rightarrow>
                (let (s2, out) = sendPlannedMove e s1
                 in if isDragging s2 then
                      (resetState ((cancelDragHold (s2\<lparr> isDragging := False, isSecondTapDown := False \<rparr>))
                                     \<lparr> lastTapTime := 0, lastTapPos := None \<rparr>),
                       out @ [MouseButton LeftButton False])
                    else if isSecondTapDown s2 then
                      (let (s3, out3) =
                             clickPulse LeftButton e (cancelDragHold (s2\<lparr> isSecondTapDown := False \<rparr>))
                       in (resetState (s3\<lparr> lastTapTime := 0, lastTapPos := None \<rparr>), out @ out3))
                    else if longPressFired s2 then (resetState s2, out)
                    else
                      (let wasTap = (\<not> touchMoved s2 \<and> now e - touchStartTime s2 < TAP_MAX_DURATION);
                           (s3, out3) =
                             (if mode s2 = Relative then
                                (if twoFingerTapDetected s2 \<and> \<not> twoFingerMoved s2 then
                                   (if now e - twoFingerStartTime s2 < TAP_MAX_DURATION
                                    then clickPulse RightButton e s2
                                    else (s2, []))
                                 else (tapIfAny e wasTap changed s2, []))
                              else (tapIfAny e wasTap changed s2, []))
                       in (s3\<lparr> relTouchStart := None, touchStartPos := None,
                               twoFingerTapDetected := False, scrollAnchor := None \<rparr>,
                           out @ out3)))
            | [t] \<Rightarrow> (s1\<lparr> twoFingerTapDetected := False, scrollAnchor := None \<rparr>, [])
            | _ \<Rightarrow> (s1, [])))"

text \<open>The bodies of the four timer callbacks.\<close>

fun runCallback :: "callback \<Rightarrow> mouse_env \<Rightarrow> mouse_state \<Rightarrow> mouse_state \<times> hid_event list" where
  "runCallback CbDragHold e s =
     (if isSecondTapDown s \<and> \<not> touchMoved s
      then (cancelLongPress (s\<lparr> isDragging := True \<rparr>), [MouseButton LeftButton True])
      else (s, []))"
| "runCallback CbLongPress e s =
     (if \<not> touchMoved s \<and> \<not> longPressFired s \<and> \<not> isDragging s
      then clickPulse RightButton e (s\<lparr> longPressFired := True \<rparr>)
      else (s, []))"
| "runCallback CbSingleTap e s =
     (let (s1, out) = clickPulse LeftButton e (s\<lparr> singleTapTimer := None \<rparr>)
      in (s1\<lparr> lastTapTime := 0, lastTapPos := None \<rparr>, out))"
| "runCallback (CbButtonUp b) e s = (s, [MouseButton b False])"

text \<open>
  The browser fires the pending timer with the given id: it leaves the pending list and
  its callback runs. Nothing happens for an id that is not pending.
\<close>

definition fireTimer :: "mouse_env \<Rightarrow> nat \<Rightarrow> mouse_state \<Rightarrow> mouse_state \<times> hid_event list" where
  "fireTimer e i s =
     (case find (\<lambda>t. fst t = i) (timers s) of
        None \<Rightarrow> (s, [])
      | Some (_, _, cb) \<Rightarrow> runCallback cb e (clearTimeout i s))"

text \<open>\<open>sendButton\<close>, called from the floating mouse panel.\<close>

definition sendButton :: "mouse_env \<Rightarrow> button \<Rightarrow> bool \<Rightarrow> mouse_state \<Rightarrow> mouse_state \<times> hid_event list" where
  "sendButton e b st s = (let (s1, out) = sendPlannedMove e s in (s1, out @ [MouseButton b st]))"

datatype mouse_event =
    MTouchStart "touch list"
  | MTouchMove "touch list"
  | MTouchEnd "touch list" "touch list"
  | MTimer nat
  | MSendTick

fun mouse_step :: "mouse_env \<Rightarrow> mouse_event \<Rightarrow> mouse_state \<Rightarrow> (mouse_state \<times> hid_event list) option" where
  "mouse_step e (MTouchStart ts) s = mouse_handleTouchStart e ts s"
| "mouse_step e (MTouchMove ts) s = mouse_handleTouchMove e ts s"
| "mouse_step e (MTouchEnd ts changed) s = Some (mouse_handleTouchEnd e ts changed s)"
| "mouse_step e (MTimer i) s = Some (fireTimer e i s)"
| "mouse_step e MSendTick s = Some (sendPlannedMove e s)"

text \<open>A sequence of events, each with what the handler reads when it runs.\<close>

fun mouse_run :: "(mouse_env \<times> mouse_event) list \<Rightarrow> mouse_state \<Rightarrow> (mouse_state \<times> hid_event list) option" where
  "mouse_run [] s = Some (s, [])"
| "mouse_run ((e, ev) # rest) s =
     (case mouse_step e ev s of
        None \<Rightarrow> None
      | Some (s1, out1) \<Rightarrow>
          (case mouse_run rest s1 of
             None \<Rightarrow> None
           | Some (s2, out2) \<Rightarrow> Some (s2, out1 @ out2)))"

section \<open>ScrollWidget (ui/scroll-widget.js)\<close>

record preset =
  deadZone :: real
  firstTick :: real
  minInterval :: real
  units :: real

definition PRESETS :: "string \<Rightarrow> preset option" where
  "PRESETS name =
     (if name = ''fine'' then Some \<lparr> deadZone = 18, firstTick = 35, minInterval = 200, units = 1 \<rparr>
      else if name = ''normal'' then Some \<lparr> deadZone = 12, firstTick = 25, minInterval = 150, units = 2 \<rparr>
      else if name = ''fast'' then Some \<lparr> deadZone = 8, firstTick = 18, minInterval = 100, units = 4 \<rparr>
      else None)"

definition MAX_INTERVAL :: real where
  "MAX_INTERVAL = 300"

definition RAMP_DURATION :: real where
  "RAMP_DURATION = 1000"

definition MAC_UNIT_MULTIPLIER :: real where
  "MAC_UNIT_MULTIPLIER = 3"

definition MAC_BURST_COUNT :: nat where
  "MAC_BURST_COUNT = 3"

definition MAC_BURST_DELAY :: real where
  "MAC_BURST_DELAY = 10"

text \<open>What a pending \<open>setTimeout\<close> of the widget runs: the repeat or one event of a burst.\<close>

datatype scroll_callback = CbRepeat | CbBurst real

record scroll_state =
  presetName :: string
  macMode :: bool
  centerY :: real
  trackHalf :: real
  displacement :: real
  direction :: real
  active :: bool
  repeatTimer :: "nat option"
  repeatStartTime :: real
  tickCount :: nat
  scrollTimers :: "(nat \<times> real \<times> scroll_callback) list"
  scrollNextId :: nat

definition scroll_init :: "string \<Rightarrow> bool \<Rightarrow> scroll_state" where
  "scroll_init name mac = \<lparr> presetName = name, macMode = mac, centerY = 0, trackHalf = 0,
     displacement = 0, direction = 0, active = False, repeatTimer = None,
     repeatStartTime = 0, tickCount = 0, scrollTimers = [], scrollNextId = 1 \<rparr>"

definition getPreset :: "scroll_state \<Rightarrow> preset" where
  "getPreset s =
     (case PRESETS (presetName s) of
        Some p \<Rightarrow> p
      | None \<Rightarrow> \<lparr> deadZone = 12, firstTick = 25, minInterval = 150, units = 2 \<rparr>)"

definition scroll_setTimeout ::
  "scroll_callback \<Rightarrow> real \<Rightarrow> real \<Rightarrow> scroll_state \<Rightarrow> nat \<times> scroll_state" where
  "scroll_setTimeout cb delay t s =
     (scrollNextId s,
      s\<lparr> scrollTimers := scrollTimers s @ [(scrollNextId s, t + delay, cb)],
         scrollNextId := Suc (scrollNextId s) \<rparr>)"

definition stopRepeat :: "scroll_state \<Rightarrow> scroll_state" where
  "stopRepeat s =
     (case repeatTimer s of
        None \<Rightarrow> s
      | Some i \<Rightarrow> s\<lparr> scrollTimers := filter (\<lambda>t. fst t \<noteq> i) (scrollTimers s),
                     repeatTimer := None \<rparr>)"

text \<open>
  \<open>_computeInterval\<close> at the time \<open>t\<close> that \<open>Date.now()\<close> returns; its two factors are
  the locals \<open>distInterval\<close> and \<open>timeInterval\<close> of the source.
\<close>

definition distInterval :: "scroll_state \<Rightarrow> real" where
  "distInterval s =
     (let p = getPreset s;
          absDist = \<bar>displacement s\<bar>;
          range = trackHalf s - firstTick p;
          distRatio0 = (if range > 0 then min 1 ((absDist - firstTick p) / range) else 0);
          distRatio = distRatio0 * distRatio0
      in MAX_INTERVAL - distRatio * (MAX_INTERVAL - minInterval p))"

definition timeInterval :: "real \<Rightarrow> scroll_state \<Rightarrow> real" where
  "timeInterval t s =
     (let p = getPreset s;
          elapsed = t - repeatStartTime s;
          timeRatio0 = min 1 (elapsed / RAMP_DURATION);
          timeRatio = timeRatio0 * timeRatio0
      in MAX_INTERVAL - timeRatio * (MAX_INTERVAL - minInterval p))"

definition computeInterval :: "real \<Rightarrow> scroll_state \<Rightarrow> real" where
  "computeInterval t s =
     max (minInterval (getPreset s)) (min (distInterval s) (timeInterval t s))"

text \<open>The delays of the extra events of a macOS burst: \<open>i * MAC_BURST_DELAY\<close> for \<open>i\<close> from 1.\<close>

fun burst :: "nat \<Rightarrow> nat \<Rightarrow> real \<Rightarrow> real \<Rightarrow> scroll_state \<Rightarrow> scroll_state" where
  "burst 0 i boosted t s = s"
| "burst (Suc n) i boosted t s =
     burst n (Suc i) boosted t (snd (scroll_setTimeout (CbBurst boosted) (real i * MAC_BURST_DELAY) t s))"

definition fireTick :: "real \<Rightarrow> scroll_state \<Rightarrow> scroll_state \<times> hid_event list" where
  "fireTick t s =
     (let p = getPreset s;
          u = direction s * units p
      in if macMode s then
           (let boosted = u * MAC_UNIT_MULTIPLIER;
                s1 = burst (MAC_BURST_COUNT - 1) 1 boosted t s
            in (s1\<lparr> tickCount := Suc (tickCount s1) \<rparr>, [MouseWheel 0 boosted]))
         else (s\<lparr> tickCount := Suc (tickCount s) \<rparr>, [MouseWheel 0 u]))"

definition scheduleNextTick :: "real \<Rightarrow> scroll_state \<Rightarrow> scroll_state" where
  "scheduleNextTick t s =
     (let interval = computeInterval t s;
          (i, s1) = scroll_setTimeout CbRepeat interval t s
      in s1\<lparr> repeatTimer := Some i \<rparr>)"

text \<open>The block of \<open>_updateFromTouch\<close> for a reversal of the direction.\<close>

definition reverseDirection :: "real \<Rightarrow> scroll_state \<Rightarrow> scroll_state" where
  "reverseDirection newDir s =
     (if newDir \<noteq> direction s
      then stopRepeat (s\<lparr> direction := newDir, tickCount := 0 \<rparr>)
      else s)"

definition updateFromTouch :: "real \<Rightarrow> real \<Rightarrow> scroll_state \<Rightarrow> scroll_state \<times> hid_event list" where
  "updateFromTouch t y s =
     (let raw = y - centerY s;
          clamped = max (- trackHalf s) (min (trackHalf s) raw);
          s1 = s\<lparr> displacement := clamped \<rparr>;
          p = getPreset s1;
          absDist = \<bar>clamped\<bar>
      in if absDist < deadZone p then ((stopRepeat s1)\<lparr> direction := 0 \<rparr>, [])
         else
           let newDir = (if clamped > 0 then 1 else - 1);
               s2 = reverseDirection newDir s1
           in if absDist \<ge> firstTick p \<and> repeatTimer s2 = None then
                (let (s3, out) = fireTick t s2
                 in (scheduleNextTick t (s3\<lparr> repeatStartTime := t \<rparr>), out))
              else (s2, []))"

text \<open>
  The touch listeners. \<open>rtop\<close> and \<open>rheight\<close> are the top and the height of the
  widget's bounding client rectangle; of the touches only the first one's \<open>clientY\<close> is read.
\<close>

definition scroll_handleTouchStart ::
  "real \<Rightarrow> real \<Rightarrow> real \<Rightarrow> touch list \<Rightarrow> scroll_state \<Rightarrow> scroll_state \<times> hid_event list" where
  "scroll_handleTouchStart t rtop rheight ts s =
     (case ts of
        [t0] \<Rightarrow>
          updateFromTouch t (clientY t0)
            (s\<lparr> centerY := rtop + rheight / 2, trackHalf := rheight / 2 - 16,
                active := True, tickCount := 0 \<rparr>)
      | _ \<Rightarrow> (s, []))"

definition scroll_handleTouchMove ::
  "real \<Rightarrow> touch list \<Rightarrow> scroll_state \<Rightarrow> scroll_state \<times> hid_event list" where
  "scroll_handleTouchMove t ts s =
     (case ts of
        [] \<Rightarrow> (s, [])
      | t0 # _ \<Rightarrow> if \<not> active s then (s, []) else updateFromTouch t (clientY t0) s)"

definition scroll_handleTouchEnd :: "scroll_state \<Rightarrow> scroll_state" where
  "scroll_handleTouchEnd s = stopRepeat (s\<lparr> active := False, displacement := 0, direction := 0 \<rparr>)"

fun scroll_runCallback :: "scroll_callback \<Rightarrow> real \<Rightarrow> scroll_state \<Rightarrow> scroll_state \<times> hid_event list" where
  "scroll_runCallback CbRepeat t s =
     (let s1 = s\<lparr> repeatTimer := None \<rparr>
      in if \<not> active s1 \<or> direction s1 = 0 then (s1, [])
         else (let (s2, out) = fireTick t s1 in (scheduleNextTick t s2, out)))"
| "scroll_runCallback (CbBurst boosted) t s = (s, [MouseWheel 0 boosted])"

definition scroll_fireTimer :: "real \<Rightarrow> nat \<Rightarrow> scroll_state \<Rightarrow> scroll_state \<times> hid_event list" where
  "scroll_fireTimer t i s =
     (case find (\<lambda>x. fst x = i) (scrollTimers s) of
        None \<Rightarrow> (s, [])
      | Some (_, _, cb) \<Rightarrow>
          scroll_runCallback cb t (s\<lparr> scrollTimers := filter (\<lambda>x. fst x \<noteq> i) (scrollTimers s) \<rparr>))"

section \<open>Definitions for the statements\<close>

text \<open>
  The absolute coordinate of one axis as the specification words it: the position relative
  to the origin of the displayed rectangle, mapped linearly from the span 0 .. extent - 1
  onto -32768 .. 32767, rounded, then clamped to that range.
\<close>

definition abs_coord_spec :: "real \<Rightarrow> real \<Rightarrow> real \<Rightarrow> real" where
  "abs_coord_spec p origin extent =
     min (max (js_round (- 32768 + (p - origin) * (32767 - (- 32768)) / ((extent - 1) - 0)))
              (- 32768)) 32767"

text \<open>Inputs for the examples: what a handler reads at a time, and a touch at a point.\<close>

definition env_at :: "int \<Rightarrow> mouse_env" where
  "env_at t = \<lparr> now = t, boundLeft = 0, boundTop = 0, zoomController = None,
               getStreamGeometry = None \<rparr>"

definition touch_at :: "real \<Rightarrow> real \<Rightarrow> touch" where
  "touch_at x y = \<lparr> clientX = x, clientY = y \<rparr>"

text \<open>
  A widget for the examples: the normal preset, a track from 40 to 160 (centre 100, half
  length 60) and a finger on it.
\<close>

definition shuttle_at_rest :: scroll_state where
  "shuttle_at_rest =
     (scroll_init ''normal'' False)\<lparr> centerY := 100, trackHalf := 60, active := True \<rparr>"

text \<open>
  The classification of a two-finger contact that the four flags of the ZoomController
  encode, read in the order in which \<open>_handleTouchMove\<close> tests them.
\<close>

datatype gesture_class = Undecided | Pinch | Pan | Scroll | NoGesture

definition classification :: "zoom_state \<Rightarrow> gesture_class" where
  "classification s =
     (if gestureUndecided s then Undecided
      else if isPinching s then Pinch
      else if isPanning s then Pan
      else if isScroll s then Scroll
      else NoGesture)"

text \<open>At most one of the four flags is set.\<close>

definition exclusive :: "zoom_state \<Rightarrow> bool" where
  "exclusive s \<longleftrightarrow>
     (gestureUndecided s \<longrightarrow> \<not> isPinching s \<and> \<not> isPanning s \<and> \<not> isScroll s) \<and>
     (isPinching s \<longrightarrow> \<not> isPanning s \<and> \<not> isScroll s) \<and>
     (isPanning s \<longrightarrow> \<not> isScroll s)"

text \<open>
  A run of two-finger touch moves, each with what the page shows when it arrives; the
  effects are collected in order.
\<close>

fun zoom_moves ::
  "(zoom_env \<times> touch \<times> touch) list \<Rightarrow> zoom_state \<Rightarrow> (zoom_state \<times> zoom_effect list) option" where
  "zoom_moves [] s = Some (s, [])"
| "zoom_moves ((e, t0, t1) # ms) s =
     (case zoom_handleTouchMove e [t0, t1] s of
        None \<Rightarrow> None
      | Some (s1, fx1) \<Rightarrow>
          (case zoom_moves ms s1 of
             None \<Rightarrow> None
           | Some (s2, fx2) \<Rightarrow> Some (s2, fx1 @ fx2)))"

text \<open>
  The two tests of the specification on one move of a contact that started in \<open>s0\<close>: the
  distance between the fingers has changed by more than 15 px, the midpoint has moved by
  more than 10 px on an axis.
\<close>

definition distExceeded :: "zoom_state \<Rightarrow> zoom_env \<times> touch \<times> touch \<Rightarrow> bool" where
  "distExceeded s0 m = (case m of (e, t0, t1) \<Rightarrow> \<bar>dist t0 t1 - pinchStartDist s0\<bar> > 15)"

definition midExceeded :: "zoom_state \<Rightarrow> zoom_env \<times> touch \<times> touch \<Rightarrow> bool" where
  "midExceeded s0 m =
     (case m of (e, t0, t1) \<Rightarrow>
        \<bar>(clientX t0 + clientX t1) / 2 - undecidedMidX s0\<bar> > 10 \<or>
        \<bar>(clientY t0 + clientY t1) / 2 - undecidedMidY s0\<bar> > 10)"

text \<open>
  The events during which two fingers or more stay on the surface: a touch start that
  reports a third finger or more, a touch end that leaves two or more, every touch move and
  every call of a public method. A touch start that reports exactly two touches begins a
  new two-finger contact: the count was below two before it.
\<close>

fun keepsTwoFingers :: "zoom_event \<Rightarrow> bool" where
  "keepsTwoFingers (ZTouchStart ts) = (length ts \<ge> 3)"
| "keepsTwoFingers (ZTouchEnd ts) = (length ts \<ge> 2)"
| "keepsTwoFingers _ = True"

text \<open>
  A page for the examples: a container of 800 by 600 at the origin that shows a stream of
  3840 by 2160.
\<close>

definition page_4k :: zoom_env where
  "page_4k = \<lparr> offsetWidth = 800, offsetHeight = 600, rectLeft = 0, rectTop = 0,
               getResolution = Some \<lparr> realWidth = 3840, realHeight = 2160 \<rparr> \<rparr>"

text \<open>What every reachable state of the ZoomController satisfies.\<close>

definition zoom_inv :: "zoom_state \<Rightarrow> bool" where
  "zoom_inv s \<longleftrightarrow> 1 \<le> scale s \<and> exclusive s"

text \<open>
  Two fingers land on the fresh controller 100 px apart, at (0, 0) and (100, 0).
\<close>

definition two_fingers_100 :: zoom_state where
  "two_fingers_100 = fst (zoom_handleTouchStart [touch_at 0 0, touch_at 100 0] zoom_init)"

text \<open>
  What the mouse handler reads at a time when the ZoomController, whose capture-phase
  listener ran first, is in the given state.
\<close>

definition env_zoom :: "int \<Rightarrow> zoom_state \<Rightarrow> mouse_env" where
  "env_zoom t z = \<lparr> now = t, boundLeft = 0, boundTop = 0, zoomController = Some z,
                   getStreamGeometry = None \<rparr>"

text \<open>The state a two-finger touch start leaves in relative mode.\<close>

definition twoFingerDown :: "mouse_env \<Rightarrow> touch \<Rightarrow> touch \<Rightarrow> mouse_state \<Rightarrow> mouse_state" where
  "twoFingerDown e a b s =
     (cancelDragHold (cancelLongPress s))
       \<lparr> isSecondTapDown := False, twoFingerStartTime := now e, twoFingerMoved := False,
         twoFingerTapDetected := True, scrollAnchor := Some (getMidpoint a b) \<rparr>"

text \<open>A two-finger move whose midpoint stays within 5 px of the anchor on both axes.\<close>

definition withinDeadZone :: "pos \<Rightarrow> touch \<Rightarrow> touch \<Rightarrow> bool" where
  "withinDeadZone anchor t0 t1 \<longleftrightarrow>
     \<bar>pos_x (getMidpoint t0 t1) - pos_x anchor\<bar> \<le> 5 \<and>
     \<bar>pos_y (getMidpoint t0 t1) - pos_y anchor\<bar> \<le> 5"

text \<open>A run of two-finger touch moves as events of the mouse handler.\<close>

fun twoFingerMoves :: "(mouse_env \<times> touch \<times> touch) list \<Rightarrow> (mouse_env \<times> mouse_event) list" where
  "twoFingerMoves [] = []"
| "twoFingerMoves ((e, t0, t1) # ms) = (e, MTouchMove [t0, t1]) # twoFingerMoves ms"

text \<open>The state a first contact leaves before the position is placed.\<close>

definition oneFingerDown :: "mouse_env \<Rightarrow> pos \<Rightarrow> mouse_state \<Rightarrow> mouse_state" where
  "oneFingerDown e p s =
     s\<lparr> touchStartTime := now e, touchStartPos := Some p, touchMoved := False,
        longPressFired := False,
        timers := (case longPressTimer s of None \<Rightarrow> timers s
                   | Some i \<Rightarrow> filter (\<lambda>t. fst t \<noteq> i) (timers s))
                  @ [(nextTimerId s, now e + LONG_PRESS_DELAY, CbLongPress)],
        nextTimerId := Suc (nextTimerId s),
        longPressTimer := Some (nextTimerId s) \<rparr>"

text \<open>Two states that differ in the planned position and the movement anchor only.\<close>

definition pointerOnly :: "mouse_state \<Rightarrow> mouse_state \<Rightarrow> bool" where
  "pointerOnly d x \<longleftrightarrow> (\<exists>a r. x = d\<lparr> absPos := a, relTouchStart := r \<rparr>)"

text \<open>A run of single-finger touch moves as events of the mouse handler.\<close>

fun oneFingerMoves :: "(mouse_env \<times> touch) list \<Rightarrow> (mouse_env \<times> mouse_event) list" where
  "oneFingerMoves [] = []"
| "oneFingerMoves ((e, t) # ms) = (e, MTouchMove [t]) # oneFingerMoves ms"

section \<open>Absolute coordinates\<close>

lemma remap_bounds:
  "outMin \<le> outMax \<Longrightarrow>
     outMin \<le> remap v inMin inMax outMin outMax \<and> remap v inMin inMax outMin outMax \<le> outMax"
  by (simp add: remap_def Let_def)

lemma remap_divisor_nonzero: "remap_divisor inMin inMax \<noteq> 0"
  by (simp add: remap_divisor_def)

text \<open>
  C3. A flush of a planned position in absolute mode emits one absolute move whose two
  coordinates are, each on its own axis, the linear remap of the position relative to the
  geometry's origin from 0 .. extent - 1 onto -32768 .. 32767, rounded and then clamped.
  The extent 1, whose input span is the single point 0, is left to C9.
\<close>

theorem sendPlannedMove_linear:
  assumes "mode s = Absolute" and "absPos s = Some p" and "getStreamGeometry e = Some (Some g)"
    and "geo_width g \<noteq> 1" and "geo_height g \<noteq> 1"
  shows "sendPlannedMove e s =
    (s\<lparr> absPos := None \<rparr>,
     [MouseMoveAbs (abs_coord_spec (pos_x p) (geo_x g) (geo_width g))
                   (abs_coord_spec (pos_y p) (geo_y g) (geo_height g))])"
  using assms
  by (simp add: sendPlannedMove_def remap_def remap_divisor_def abs_coord_spec_def Let_def
      algebra_simps)

text \<open>
  The scenario of the specification: the position (100, 100), a letterbox of 50 on the left
  and a displayed width of 400 give the x coordinate \<open>remap 50 0 399 (-32768) 32767\<close>,
  which is -24556.
\<close>

theorem sendPlannedMove_linear_witness:
  "sendPlannedMove
     \<lparr> now = 0, boundLeft = 0, boundTop = 0, zoomController = None,
       getStreamGeometry = Some (Some \<lparr> geo_x = 50, geo_y = 0, geo_width = 400, geo_height = 300 \<rparr>) \<rparr>
     (mouse_init\<lparr> absPos := Some \<lparr> pos_x = 100, pos_y = 100 \<rparr> \<rparr>)
   = (mouse_init\<lparr> absPos := None \<rparr>, [MouseMoveAbs (- 24556) (- 10850)])
   \<and> remap 50 0 399 (- 32768) 32767 = - 24556"
  using sendPlannedMove_linear
    [of "mouse_init\<lparr> absPos := Some \<lparr> pos_x = 100, pos_y = 100 \<rparr> \<rparr>"
        "\<lparr> pos_x = 100, pos_y = 100 \<rparr>"
        "\<lparr> now = 0, boundLeft = 0, boundTop = 0, zoomController = None,
           getStreamGeometry = Some (Some \<lparr> geo_x = 50, geo_y = 0, geo_width = 400, geo_height = 300 \<rparr>) \<rparr>"
        "\<lparr> geo_x = 50, geo_y = 0, geo_width = 400, geo_height = 300 \<rparr>"]
  by (simp add: mouse_init_def abs_coord_spec_def js_round_def remap_def remap_divisor_def)

text \<open>
  C9. The divisor of the remap is never zero (a zero span is replaced by 1); for every
  input with \<open>outMin \<le> outMax\<close> the result lies in outMin .. outMax; and every absolute
  move that a flush emits has both coordinates in -32768 .. 32767, whatever the geometry.
\<close>

theorem remap_total_in_range:
  "remap_divisor inMin inMax \<noteq> 0 \<and>
   (outMin \<le> outMax \<longrightarrow>
      outMin \<le> remap v inMin inMax outMin outMax \<and> remap v inMin inMax outMin outMax \<le> outMax) \<and>
   (\<forall>x y. MouseMoveAbs x y \<in> set (snd (sendPlannedMove e s)) \<longrightarrow>
      - 32768 \<le> x \<and> x \<le> 32767 \<and> - 32768 \<le> y \<and> y \<le> 32767)"
proof (intro conjI impI allI)
  show "remap_divisor inMin inMax \<noteq> 0" by (rule remap_divisor_nonzero)
next
  assume "outMin \<le> outMax"
  then show "outMin \<le> remap v inMin inMax outMin outMax" using remap_bounds by blast
next
  assume "outMin \<le> outMax"
  then show "remap v inMin inMax outMin outMax \<le> outMax" using remap_bounds by blast
next
  fix x y assume "MouseMoveAbs x y \<in> set (snd (sendPlannedMove e s))"
  then obtain p :: pos and g :: geometry where
    x: "x = remap (pos_x p - geo_x g) 0 (geo_width g - 1) (- 32768) 32767" and
    y: "y = remap (pos_y p - geo_y g) 0 (geo_height g - 1) (- 32768) 32767"
    by (auto simp: sendPlannedMove_def Let_def split: if_splits option.splits)
  have b: "(- 32768 :: real) \<le> 32767" by simp
  show "- 32768 \<le> x" using remap_bounds [OF b] x by blast
  show "x \<le> 32767" using remap_bounds [OF b] x by blast
  show "- 32768 \<le> y" using remap_bounds [OF b] y by blast
  show "y \<le> 32767" using remap_bounds [OF b] y by blast
qed

text \<open>
  A zero span (\<open>inMax = inMin = 3\<close>) and a geometry of width 1 and height 0: the flush
  emits the two ends of the range.
\<close>

theorem remap_total_in_range_witness:
  "remap_divisor 3 3 = 1 \<and> (- 32768 :: real) \<le> 32767 \<and>
   - 32768 \<le> remap 7 3 3 (- 32768) 32767 \<and> remap 7 3 3 (- 32768) 32767 \<le> 32767 \<and>
   snd (sendPlannedMove
     \<lparr> now = 0, boundLeft = 0, boundTop = 0, zoomController = None,
       getStreamGeometry = Some (Some \<lparr> geo_x = 0, geo_y = 0, geo_width = 1, geo_height = 0 \<rparr>) \<rparr>
     (mouse_init\<lparr> absPos := Some \<lparr> pos_x = 7, pos_y = 7 \<rparr> \<rparr>)) = [MouseMoveAbs 32767 (- 32768)] \<and>
   - 32768 \<le> (32767 :: real)"
  using remap_total_in_range
    [of 3 3 "- 32768" 32767 7
        "\<lparr> now = 0, boundLeft = 0, boundTop = 0, zoomController = None,
           getStreamGeometry = Some (Some \<lparr> geo_x = 0, geo_y = 0, geo_width = 1, geo_height = 0 \<rparr>) \<rparr>"
        "mouse_init\<lparr> absPos := Some \<lparr> pos_x = 7, pos_y = 7 \<rparr> \<rparr>"]
  by (simp add: mouse_init_def sendPlannedMove_def js_round_def remap_def remap_divisor_def)

section \<open>Relative movement\<close>

lemma cancelLongPress_fields [simp]:
  "mode (cancelLongPress s) = mode s" "relTouchStart (cancelLongPress s) = relTouchStart s"
  "sensitivity (cancelLongPress s) = sensitivity s" "isDragging (cancelLongPress s) = isDragging s"
  by (simp_all add: cancelLongPress_def clearTimeout_def split: option.splits)

lemma cancelDragHold_fields [simp]:
  "mode (cancelDragHold s) = mode s" "relTouchStart (cancelDragHold s) = relTouchStart s"
  "sensitivity (cancelDragHold s) = sensitivity s" "isDragging (cancelDragHold s) = isDragging s"
  by (simp_all add: cancelDragHold_def clearTimeout_def split: option.splits)

lemma checkMoved_keeps:
  "checkMoved p s = (s1, out) \<Longrightarrow>
     mode s1 = mode s \<and> relTouchStart s1 = relTouchStart s \<and> sensitivity s1 = sensitivity s \<and>
     (\<forall>dx dy. MouseRelative dx dy \<notin> set out)"
  by (auto simp: checkMoved_def Let_def split: option.splits if_splits)

text \<open>
  C10. In relative mode, dragging or not, a single-finger touch move whose scaled, floored
  and clamped deltas from the anchor are both zero sends no relative move, and the anchor
  becomes the current position all the same.
\<close>

theorem relative_zero_delta_discarded:
  assumes "enabled s" and "\<not> isZoomGesture e" and "mode s = Relative"
    and "relTouchStart s = Some a" and "getTouchPos e t = Some p"
    and "relDelta (sensitivity s) (pos_x p) (pos_x a) = 0"
    and "relDelta (sensitivity s) (pos_y p) (pos_y a) = 0"
  shows "\<exists>s' out. mouse_handleTouchMove e [t] s = Some (s', out) \<and>
           (\<forall>dx dy. MouseRelative dx dy \<notin> set out) \<and> relTouchStart s' = Some p"
proof -
  obtain s1 out1 where c: "checkMoved p s = (s1, out1)" by (cases "checkMoved p s")
  note k = checkMoved_keeps [OF c]
  have r: "relativeMove p s1 = (s1\<lparr> relTouchStart := Some p \<rparr>, [])"
    using k assms by (simp add: relativeMove_def Let_def)
  have "mouse_handleTouchMove e [t] s = Some (s1\<lparr> relTouchStart := Some p \<rparr>, out1)"
    using assms c k r by (simp add: mouse_handleTouchMove_def Let_def)
  then show ?thesis using k by simp
qed

text \<open>
  With the sensitivity 1/2 a move of one pixel from the anchor (10, 10) is floored to zero:
  nothing is sent and the anchor becomes (11, 10).
\<close>

theorem relative_zero_delta_discarded_witness:
  "\<exists>s' out.
     mouse_handleTouchMove (env_at 1000) [touch_at 11 10]
       (mouse_init\<lparr> mode := Relative, sensitivity := 1 / 2,
                    relTouchStart := Some \<lparr> pos_x = 10, pos_y = 10 \<rparr> \<rparr>) = Some (s', out) \<and>
     (\<forall>dx dy. MouseRelative dx dy \<notin> set out) \<and>
     relTouchStart s' = Some \<lparr> pos_x = 11, pos_y = 10 \<rparr>"
proof -
  let ?s = "mouse_init\<lparr> mode := Relative, sensitivity := 1 / 2,
                        relTouchStart := Some \<lparr> pos_x = 10, pos_y = 10 \<rparr> \<rparr>"
  have 1: "enabled ?s" by (simp add: mouse_init_def)
  have 2: "\<not> isZoomGesture (env_at 1000)" by (simp add: isZoomGesture_def env_at_def)
  have 3: "mode ?s = Relative" by simp
  have 4: "relTouchStart ?s = Some \<lparr> pos_x = 10, pos_y = 10 \<rparr>" by simp
  have 5: "getTouchPos (env_at 1000) (touch_at 11 10) = Some \<lparr> pos_x = 11, pos_y = 10 \<rparr>"
    by (simp add: getTouchPos_def screenToContainerPos_def env_at_def touch_at_def js_round_def)
  have 6: "relDelta (sensitivity ?s) (pos_x \<lparr> pos_x = 11, pos_y = 10 \<rparr>)
             (pos_x \<lparr> pos_x = 10, pos_y = 10 \<rparr>) = 0"
    by (simp add: relDelta_def js_floor_def)
  have 7: "relDelta (sensitivity ?s) (pos_y \<lparr> pos_x = 11, pos_y = 10 \<rparr>)
             (pos_y \<lparr> pos_x = 10, pos_y = 10 \<rparr>) = 0"
    by (simp add: relDelta_def js_floor_def)
  show ?thesis by (rule relative_zero_delta_discarded [OF 1 2 3 4 5 6 7])
qed

text \<open>
  Two such moves in a row, from 10 to 11 and from 11 to 12, send nothing at all, although
  the two pixels together scale to a whole one: the movement is discarded, not accumulated.
\<close>

lemma relative_sub_pixel_not_accumulated:
  "mouse_run [(env_at 1000, MTouchMove [touch_at 11 10]), (env_at 1010, MTouchMove [touch_at 12 10])]
     (mouse_init\<lparr> mode := Relative, sensitivity := 1 / 2,
                  relTouchStart := Some \<lparr> pos_x = 10, pos_y = 10 \<rparr> \<rparr>)
   = Some (mouse_init\<lparr> mode := Relative, sensitivity := 1 / 2,
                        relTouchStart := Some \<lparr> pos_x = 12, pos_y = 10 \<rparr> \<rparr>, [])"
  by (simp add: env_at_def touch_at_def mouse_init_def mouse_handleTouchMove_def isZoomGesture_def
      getTouchPos_def screenToContainerPos_def js_round_def checkMoved_def relativeMove_def
      relDelta_def js_floor_def Let_def)

section \<open>The scroll shuttle\<close>

lemmas scroll_defs = updateFromTouch_def getPreset_def PRESETS_def reverseDirection_def
  stopRepeat_def fireTick_def scheduleNextTick_def computeInterval_def distInterval_def
  timeInterval_def scroll_setTimeout_def scroll_fireTimer_def MAX_INTERVAL_def RAMP_DURATION_def
  MAC_UNIT_MULTIPLIER_def scroll_init_def shuttle_at_rest_def Let_def

lemma getPreset_cases:
  "getPreset s = \<lparr> deadZone = 18, firstTick = 35, minInterval = 200, units = 1 \<rparr> \<or>
   getPreset s = \<lparr> deadZone = 12, firstTick = 25, minInterval = 150, units = 2 \<rparr> \<or>
   getPreset s = \<lparr> deadZone = 8, firstTick = 18, minInterval = 100, units = 4 \<rparr>"
  by (simp add: getPreset_def PRESETS_def)

lemma getPreset_facts:
  "0 < deadZone (getPreset s)" "deadZone (getPreset s) < firstTick (getPreset s)"
  "minInterval (getPreset s) \<le> MAX_INTERVAL" "0 < minInterval (getPreset s)"
  using getPreset_cases [of s] by (auto simp: MAX_INTERVAL_def)

lemma getPreset_cong: "presetName s' = presetName s \<Longrightarrow> getPreset s' = getPreset s"
  by (simp add: getPreset_def)

lemma stopRepeat_fields [simp]:
  "repeatTimer (stopRepeat s) = None" "presetName (stopRepeat s) = presetName s"
  "displacement (stopRepeat s) = displacement s" "direction (stopRepeat s) = direction s"
  "macMode (stopRepeat s) = macMode s" "tickCount (stopRepeat s) = tickCount s"
  by (simp_all add: stopRepeat_def split: option.splits)

lemma burst_fields [simp]:
  "repeatTimer (burst n i b t s) = repeatTimer s" "presetName (burst n i b t s) = presetName s"
  "displacement (burst n i b t s) = displacement s" "direction (burst n i b t s) = direction s"
  "macMode (burst n i b t s) = macMode s" "tickCount (burst n i b t s) = tickCount s"
  by (induction n arbitrary: i s; simp add: scroll_setTimeout_def)+

lemma fireTick_out:
  "snd (fireTick t s) =
     [MouseWheel 0 (direction s * units (getPreset s) * (if macMode s then MAC_UNIT_MULTIPLIER else 1))]"
  by (simp add: fireTick_def Let_def)

lemma fireTick_fields [simp]:
  "tickCount (fst (fireTick t s)) = Suc (tickCount s)" "repeatTimer (fst (fireTick t s)) = repeatTimer s"
  "presetName (fst (fireTick t s)) = presetName s" "displacement (fst (fireTick t s)) = displacement s"
  "direction (fst (fireTick t s)) = direction s"
  by (simp_all add: fireTick_def Let_def)

lemma scheduleNextTick_armed:
  "\<exists>i. repeatTimer (scheduleNextTick t s) = Some i \<and>
       (i, t + computeInterval t s, CbRepeat) \<in> set (scrollTimers (scheduleNextTick t s))"
  by (simp add: scheduleNextTick_def scroll_setTimeout_def Let_def)

lemma scheduleNextTick_fields [simp]:
  "presetName (scheduleNextTick t s) = presetName s"
  "displacement (scheduleNextTick t s) = displacement s" "direction (scheduleNextTick t s) = direction s"
  "tickCount (scheduleNextTick t s) = tickCount s"
  by (simp_all add: scheduleNextTick_def scroll_setTimeout_def Let_def)

lemma reverseDirection_fields [simp]:
  "presetName (reverseDirection d s) = presetName s" "displacement (reverseDirection d s) = displacement s"
  "direction (reverseDirection d s) = d" "macMode (reverseDirection d s) = macMode s"
  by (simp_all add: reverseDirection_def)

lemma reverseDirection_timer:
  "repeatTimer (reverseDirection d s) = None \<or> repeatTimer (reverseDirection d s) = repeatTimer s"
  by (simp add: reverseDirection_def)

lemma updateFromTouch_cases:
  fixes t y :: real and s :: scroll_state
  defines "c \<equiv> max (- trackHalf s) (min (trackHalf s) (y - centerY s))"
  defines "s2 \<equiv> reverseDirection (if c > 0 then 1 else - 1) (s\<lparr> displacement := c \<rparr>)"
  shows "updateFromTouch t y s =
    (if \<bar>c\<bar> < deadZone (getPreset s) then ((stopRepeat (s\<lparr> displacement := c \<rparr>))\<lparr> direction := 0 \<rparr>, [])
     else if firstTick (getPreset s) \<le> \<bar>c\<bar> \<and> repeatTimer s2 = None
       then (scheduleNextTick t ((fst (fireTick t s2))\<lparr> repeatStartTime := t \<rparr>), snd (fireTick t s2))
       else (s2, []))"
proof -
  have p: "getPreset (s\<lparr> displacement := c \<rparr>) = getPreset s"
    by (rule getPreset_cong) simp
  have "updateFromTouch t y s =
     (if \<bar>c\<bar> < deadZone (getPreset (s\<lparr> displacement := c \<rparr>))
      then ((stopRepeat (s\<lparr> displacement := c \<rparr>))\<lparr> direction := 0 \<rparr>, [])
      else if firstTick (getPreset (s\<lparr> displacement := c \<rparr>)) \<le> \<bar>c\<bar> \<and> repeatTimer s2 = None
        then (case fireTick t s2 of (s3, out) \<Rightarrow> (scheduleNextTick t (s3\<lparr> repeatStartTime := t \<rparr>), out))
        else (s2, []))"
    unfolding updateFromTouch_def Let_def c_def s2_def by (rule refl)
  then show ?thesis unfolding p by (simp only: case_prod_beta)
qed

lemma stopRepeat_not_pending:
  "repeatTimer s = Some i \<Longrightarrow> i \<notin> fst ` set (scrollTimers (stopRepeat s))"
  by (auto simp: stopRepeat_def)

text \<open>
  What holds of the tick interval: it is never below the preset's minimum, it does not
  grow with the hold time, and it does not grow with the displacement from the first-tick
  threshold on.
\<close>

lemma computeInterval_floor: "minInterval (getPreset s) \<le> computeInterval t s"
  by (simp add: computeInterval_def)

lemma sq_mono_clamped:
  fixes a b :: real
  assumes "0 \<le> a" "a \<le> b"
  shows "min 1 a * min 1 a \<le> min 1 b * min 1 b"
  using assms by (intro mult_mono) auto

lemma timeInterval_mono:
  assumes "repeatStartTime s \<le> t1" "t1 \<le> t2"
  shows "timeInterval t2 s \<le> timeInterval t1 s"
proof -
  let ?p = "getPreset s"
  let ?r1 = "min 1 ((t1 - repeatStartTime s) / RAMP_DURATION)"
  let ?r2 = "min 1 ((t2 - repeatStartTime s) / RAMP_DURATION)"
  have m: "0 \<le> MAX_INTERVAL - minInterval ?p" using getPreset_facts(3) [of s] by simp
  have "0 \<le> (t1 - repeatStartTime s) / RAMP_DURATION"
    using assms by (simp add: RAMP_DURATION_def)
  moreover have "(t1 - repeatStartTime s) / RAMP_DURATION \<le> (t2 - repeatStartTime s) / RAMP_DURATION"
    using assms by (simp add: RAMP_DURATION_def)
  ultimately have r: "?r1 * ?r1 \<le> ?r2 * ?r2"
    by (rule sq_mono_clamped)
  have "MAX_INTERVAL - ?r2 * ?r2 * (MAX_INTERVAL - minInterval ?p)
     \<le> MAX_INTERVAL - ?r1 * ?r1 * (MAX_INTERVAL - minInterval ?p)"
    using mult_right_mono [OF r m] by simp
  then show ?thesis
    by (simp add: timeInterval_def Let_def)
qed

lemma computeInterval_time_mono:
  assumes "repeatStartTime s \<le> t1" "t1 \<le> t2"
  shows "computeInterval t2 s \<le> computeInterval t1 s"
  using timeInterval_mono [OF assms] unfolding computeInterval_def by linarith

lemma distInterval_mono:
  assumes "firstTick (getPreset s) \<le> \<bar>displacement s\<bar>" "\<bar>displacement s\<bar> \<le> \<bar>d2\<bar>"
  shows "distInterval (s\<lparr> displacement := d2 \<rparr>) \<le> distInterval s"
proof -
  let ?p = "getPreset s"
  have p: "getPreset (s\<lparr> displacement := d2 \<rparr>) = ?p" by (simp add: getPreset_def)
  have m: "0 \<le> MAX_INTERVAL - minInterval ?p" using getPreset_facts(3) [of s] by simp
  let ?range = "trackHalf s - firstTick ?p"
  let ?q1 = "if ?range > 0 then min 1 ((\<bar>displacement s\<bar> - firstTick ?p) / ?range) else 0"
  let ?q2 = "if ?range > 0 then min 1 ((\<bar>d2\<bar> - firstTick ?p) / ?range) else 0"
  have r: "?q1 * ?q1 \<le> ?q2 * ?q2"
  proof (cases "?range > 0")
    case True
    have "0 \<le> (\<bar>displacement s\<bar> - firstTick ?p) / ?range" using True assms by simp
    moreover have "(\<bar>displacement s\<bar> - firstTick ?p) / ?range \<le> (\<bar>d2\<bar> - firstTick ?p) / ?range"
      using True assms by (simp add: divide_right_mono)
    ultimately have "min 1 ((\<bar>displacement s\<bar> - firstTick ?p) / ?range) * min 1 ((\<bar>displacement s\<bar> - firstTick ?p) / ?range)
      \<le> min 1 ((\<bar>d2\<bar> - firstTick ?p) / ?range) * min 1 ((\<bar>d2\<bar> - firstTick ?p) / ?range)"
      by (rule sq_mono_clamped)
    then show ?thesis using True by simp
  next
    case False then show ?thesis by simp
  qed
  have "MAX_INTERVAL - ?q2 * ?q2 * (MAX_INTERVAL - minInterval ?p)
     \<le> MAX_INTERVAL - ?q1 * ?q1 * (MAX_INTERVAL - minInterval ?p)"
    using mult_right_mono [OF r m] by simp
  then show ?thesis
    unfolding distInterval_def Let_def p by (simp split: if_splits)
qed

lemma computeInterval_dist_mono:
  assumes "firstTick (getPreset s) \<le> \<bar>displacement s\<bar>" "\<bar>displacement s\<bar> \<le> \<bar>d2\<bar>"
  shows "computeInterval t (s\<lparr> displacement := d2 \<rparr>) \<le> computeInterval t s"
proof -
  have p: "getPreset (s\<lparr> displacement := d2 \<rparr>) = getPreset s" by (simp add: getPreset_def)
  have ti: "timeInterval t (s\<lparr> displacement := d2 \<rparr>) = timeInterval t s"
    by (simp add: timeInterval_def p)
  show ?thesis using distInterval_mono [OF assms] unfolding computeInterval_def p ti by linarith
qed

lemma computeInterval_scheduleNextTick:
  "computeInterval t' (scheduleNextTick t s) = computeInterval t' s"
  by (simp add: computeInterval_def distInterval_def timeInterval_def getPreset_def
      scheduleNextTick_def scroll_setTimeout_def Let_def)

lemma scheduleNextTick_startTime:
  "repeatStartTime (scheduleNextTick t s) = repeatStartTime s"
  by (simp add: scheduleNextTick_def scroll_setTimeout_def Let_def)

lemma reverseDirection_same:
  "direction s = d \<Longrightarrow> reverseDirection d s = s"
  by (simp add: reverseDirection_def)

lemma reverseDirection_reversed:
  "direction s \<noteq> d \<Longrightarrow> repeatTimer (reverseDirection d s) = None \<and>
     (\<forall>i. repeatTimer s = Some i \<longrightarrow> i \<notin> fst ` set (scrollTimers (reverseDirection d s)))"
  using stopRepeat_not_pending [of "s\<lparr> direction := d, tickCount := 0 \<rparr>"]
  by (auto simp: reverseDirection_def)

text \<open>
  C8, amended. What one displacement update does, by where it leaves the displacement.
  Inside the dead zone the direction is 0, nothing is emitted and the repeat timer is
  cancelled. At or beyond the first-tick threshold with no repeat timer running for that
  direction (none is pending, or the pending one is for the other direction and this
  update cancels it), one tick is emitted at once and the repeat timer is armed, due one
  interval later. Out of the dead zone with a repeat timer pending for the same direction,
  nothing is emitted and only the displacement changes: the timer stays armed, also below
  the first-tick threshold. Between the dead zone and the first-tick threshold otherwise,
  nothing is emitted and no timer is left armed. So a timer that is armed after an update
  was armed at or beyond the first-tick threshold, or is the one that was pending, kept for
  the same direction out of the dead zone.
\<close>

theorem updateFromTouch_shuttle:
  assumes u: "updateFromTouch t y s = (s', out)"
  shows
   "(\<bar>displacement s'\<bar> < deadZone (getPreset s) \<longrightarrow>
       direction s' = 0 \<and> out = [] \<and> repeatTimer s' = None \<and>
       (\<forall>i. repeatTimer s = Some i \<longrightarrow> i \<notin> fst ` set (scrollTimers s'))) \<and>
    (firstTick (getPreset s) \<le> \<bar>displacement s'\<bar> \<and>
     (repeatTimer s = None \<or> direction s \<noteq> (if 0 < displacement s' then 1 else - 1)) \<longrightarrow>
       out = [MouseWheel 0 (direction s' * units (getPreset s) *
                            (if macMode s then MAC_UNIT_MULTIPLIER else 1))] \<and>
       direction s' = (if 0 < displacement s' then 1 else - 1) \<and>
       repeatStartTime s' = t \<and>
       (\<exists>i. repeatTimer s' = Some i \<and>
            (i, t + computeInterval t s', CbRepeat) \<in> set (scrollTimers s')) \<and>
       minInterval (getPreset s) \<le> computeInterval t s') \<and>
    (deadZone (getPreset s) \<le> \<bar>displacement s'\<bar> \<and> repeatTimer s \<noteq> None \<and>
     direction s = (if 0 < displacement s' then 1 else - 1) \<longrightarrow>
       out = [] \<and> s' = s\<lparr> displacement := displacement s' \<rparr>) \<and>
    (deadZone (getPreset s) \<le> \<bar>displacement s'\<bar> \<and> \<bar>displacement s'\<bar> < firstTick (getPreset s) \<and>
     (repeatTimer s = None \<or> direction s \<noteq> (if 0 < displacement s' then 1 else - 1)) \<longrightarrow>
       out = [] \<and> repeatTimer s' = None \<and>
       direction s' = (if 0 < displacement s' then 1 else - 1) \<and>
       (\<forall>i. repeatTimer s = Some i \<longrightarrow> i \<notin> fst ` set (scrollTimers s'))) \<and>
    (repeatTimer s' \<noteq> None \<longrightarrow>
       firstTick (getPreset s) \<le> \<bar>displacement s'\<bar> \<or>
       deadZone (getPreset s) \<le> \<bar>displacement s'\<bar> \<and> repeatTimer s' = repeatTimer s \<and>
       direction s' = direction s)"
  (is "?A \<and> ?B \<and> ?C \<and> ?D \<and> ?E")
proof -
  define c where "c = max (- trackHalf s) (min (trackHalf s) (y - centerY s))"
  define nd :: real where "nd = (if c > 0 then 1 else - 1)"
  define s1 where "s1 = s\<lparr> displacement := c \<rparr>"
  define s2 where "s2 = reverseDirection nd s1"
  note eq = updateFromTouch_cases [of t y s, folded c_def, folded nd_def, folded s1_def, folded s2_def]
  have lt: "deadZone (getPreset s) < firstTick (getPreset s)" by (rule getPreset_facts(2))
  have p2: "getPreset s2 = getPreset s" by (rule getPreset_cong) (simp add: s2_def s1_def)
  have d2: "displacement s2 = c" "direction s2 = nd" "macMode s2 = macMode s"
    by (simp_all add: s2_def s1_def)
  have f1: "direction s1 = direction s" "repeatTimer s1 = repeatTimer s"
      "scrollTimers s1 = scrollTimers s"
    by (simp_all add: s1_def)
  have same: "direction s = nd \<longrightarrow> s2 = s1"
    using reverseDirection_same [of s1 nd] f1 by (simp add: s2_def)
  have rev: "direction s \<noteq> nd \<longrightarrow> repeatTimer s2 = None \<and>
      (\<forall>i. repeatTimer s = Some i \<longrightarrow> i \<notin> fst ` set (scrollTimers s2))"
    using reverseDirection_reversed [of s1 nd] f1 by (simp add: s2_def)
  have none: "repeatTimer s = None \<or> direction s \<noteq> nd \<longrightarrow> repeatTimer s2 = None \<and>
      (\<forall>i. repeatTimer s = Some i \<longrightarrow> i \<notin> fst ` set (scrollTimers s2))"
    using same rev f1 by (cases "direction s = nd") auto
  have kept: "repeatTimer s \<noteq> None \<and> direction s = nd \<longrightarrow> s2 = s1 \<and> repeatTimer s2 \<noteq> None"
    using same f1 by auto
  have t2: "repeatTimer s2 = None \<or> (repeatTimer s2 = repeatTimer s \<and> direction s = nd)"
    using same rev f1 by (cases "direction s = nd") auto
  consider (dead) "\<bar>c\<bar> < deadZone (getPreset s)"
    | (fire) "\<not> \<bar>c\<bar> < deadZone (getPreset s)" "firstTick (getPreset s) \<le> \<bar>c\<bar>" "repeatTimer s2 = None"
    | (idle) "\<not> \<bar>c\<bar> < deadZone (getPreset s)" "\<not> (firstTick (getPreset s) \<le> \<bar>c\<bar> \<and> repeatTimer s2 = None)"
    by auto
  then show ?thesis
  proof cases
    case dead
    then have r: "s' = (stopRepeat s1)\<lparr> direction := 0 \<rparr>" "out = []"
      using u eq by simp_all
    have dc: "displacement s' = c" by (simp add: r s1_def)
    have ndc: "(if 0 < displacement s' then 1 else - 1) = nd" by (simp add: dc nd_def)
    have np: "\<forall>i. repeatTimer s = Some i \<longrightarrow> i \<notin> fst ` set (scrollTimers s')"
      using stopRepeat_not_pending [of s1] f1 by (simp add: r)
    have a: "direction s' = 0" "repeatTimer s' = None" by (simp_all add: r)
    have A: ?A unfolding ndc using np a r(2) by simp
    have B: ?B unfolding ndc using dead lt by (simp add: dc)
    have C: ?C unfolding ndc using dead by (simp add: dc)
    have D: ?D unfolding ndc using dead by (simp add: dc)
    have E: ?E unfolding ndc using a by simp
    show ?thesis using A B C D E by (intro conjI)
  next
    case fire
    let ?s3 = "(fst (fireTick t s2))\<lparr> repeatStartTime := t \<rparr>"
    have r: "s' = scheduleNextTick t ?s3" "out = snd (fireTick t s2)"
      using u eq fire by simp_all
    have dc: "displacement s' = c" by (simp add: r d2)
    have ndc: "(if 0 < displacement s' then 1 else - 1) = nd" by (simp add: dc nd_def)
    have dir: "direction s' = nd" by (simp add: r d2)
    have p3: "getPreset ?s3 = getPreset s" by (rule getPreset_cong) (simp add: s2_def s1_def)
    have o: "out = [MouseWheel 0 (direction s' * units (getPreset s) *
                            (if macMode s then MAC_UNIT_MULTIPLIER else 1))]"
      unfolding r(2) fireTick_out p2 d2 dir by (rule refl)
    have ci: "computeInterval t s' = computeInterval t ?s3"
      unfolding r(1) by (rule computeInterval_scheduleNextTick)
    have st: "repeatStartTime s' = t"
      unfolding r(1) scheduleNextTick_startTime by simp
    have arm: "\<exists>i. repeatTimer s' = Some i \<and>
        (i, t + computeInterval t s', CbRepeat) \<in> set (scrollTimers s')"
      unfolding ci using scheduleNextTick_armed [of t ?s3] r(1) by simp
    have "minInterval (getPreset s) \<le> computeInterval t ?s3"
      unfolding computeInterval_def p3 by simp
    then have fl: "minInterval (getPreset s) \<le> computeInterval t s'"
      unfolding ci .
    have nk: "\<not> (repeatTimer s \<noteq> None \<and> direction s = nd)"
      using kept fire(3) by blast
    have A: ?A unfolding ndc using fire(1) by (simp add: dc)
    have B: ?B unfolding ndc using dir o arm fl st by (simp add: dc)
    have C: ?C unfolding ndc using nk by (auto simp: dc)
    have D: ?D unfolding ndc using fire(2) by (simp add: dc)
    have E: ?E unfolding ndc using fire(2) by (simp add: dc)
    show ?thesis using A B C D E by (intro conjI)
  next
    case idle
    then have r: "s' = s2" "out = []" using u eq by (auto split: if_splits)
    have dc: "displacement s' = c" by (simp add: r d2)
    have ndc: "(if 0 < displacement s' then 1 else - 1) = nd" by (simp add: dc nd_def)
    have dir: "direction s' = nd" by (simp add: r d2)
    have k: "repeatTimer s \<noteq> None \<and> direction s = nd \<longrightarrow> s' = s\<lparr> displacement := c \<rparr>"
      using kept r(1) by (simp add: s1_def)
    have n: "repeatTimer s = None \<or> direction s \<noteq> nd \<longrightarrow> repeatTimer s' = None \<and>
      (\<forall>i. repeatTimer s = Some i \<longrightarrow> i \<notin> fst ` set (scrollTimers s'))"
      using none r(1) by simp
    have b: "firstTick (getPreset s) \<le> \<bar>c\<bar> \<longrightarrow> repeatTimer s \<noteq> None \<and> direction s = nd"
      using idle(2) none by auto
    have l: "repeatTimer s' \<noteq> None \<longrightarrow> repeatTimer s' = repeatTimer s \<and> direction s' = direction s"
      using t2 r(1) dir by auto
    have A: ?A unfolding ndc using idle(1) by (simp add: dc)
    have B: ?B unfolding ndc using b by (auto simp: dc)
    have C: ?C unfolding ndc using k r(2) by (simp add: dc)
    have D: ?D unfolding ndc using n dir r(2) by (auto simp: dc)
    have E: ?E unfolding ndc using l idle(1) by (auto simp: dc)
    show ?thesis using A B C D E by (intro conjI)
  qed
qed

text \<open>
  C7. Below the first-tick threshold the interval grows with the displacement. At the hold
  time 0 the interval is 13686/49 ms (about 279.3) at the displacement 12 and 300 ms at the
  displacement 25. The widget gets there: the shuttle starts repeating at the displacement
  30 and the finger moves back to 12, which is not inside the dead zone of 12, so the
  repeat goes on; when the timer fires at 297 ms the next tick is scheduled 13686/49 ms
  later. With the finger at 25 instead, farther from the centre, it is scheduled about
  286.8 ms later.
\<close>

theorem computeInterval_grows_below_firstTick:
  "computeInterval 0 (shuttle_at_rest\<lparr> displacement := 12 \<rparr>) = 13686 / 49 \<and>
   computeInterval 0 (shuttle_at_rest\<lparr> displacement := 25 \<rparr>) = 300 \<and>
   scrollTimers (fst (scroll_fireTimer 297 1
     (fst (updateFromTouch 50 112 (fst (updateFromTouch 0 130 shuttle_at_rest))))))
     = [(2, 297 + 13686 / 49, CbRepeat)] \<and>
   scrollTimers (fst (scroll_fireTimer 297 1
     (fst (updateFromTouch 50 125 (fst (updateFromTouch 0 130 shuttle_at_rest))))))
     = [(2, 297 + 5735373 / 20000, CbRepeat)] \<and>
   (13686 / 49 :: real) < 5735373 / 20000"
  by code_simp

text \<open>
  The normal preset (dead zone 12, first tick 25). From rest, the finger at 130
  (displacement 30) fires one tick of 2 units and arms timer 1. From there, the finger at
  115 (displacement 15) emits nothing and leaves timer 1 pending; the finger at 85
  (displacement -15, a reversal below the threshold) cancels timer 1 and arms none; the
  finger at 70 (displacement -30, a reversal beyond the threshold) fires one tick of -2
  units and arms timer 2. From rest, the finger at 105 (in the dead zone) and the finger at
  115 (below the threshold) emit nothing and arm no timer.
\<close>

theorem updateFromTouch_shuttle_witness:
  "firstTick (getPreset shuttle_at_rest) \<le> \<bar>displacement (fst (updateFromTouch 0 130 shuttle_at_rest))\<bar> \<and>
   repeatTimer shuttle_at_rest = None \<and>
   repeatStartTime (fst (updateFromTouch 0 130 shuttle_at_rest)) = 0 \<and>
   deadZone (getPreset (fst (updateFromTouch 0 130 shuttle_at_rest))) \<le> \<bar>displacement (fst (updateFromTouch 50 115 (fst (updateFromTouch 0 130 shuttle_at_rest))))\<bar> \<and>
   repeatTimer (fst (updateFromTouch 0 130 shuttle_at_rest)) \<noteq> None \<and>
   snd (updateFromTouch 50 115 (fst (updateFromTouch 0 130 shuttle_at_rest))) = [] \<and>
   fst (updateFromTouch 50 115 (fst (updateFromTouch 0 130 shuttle_at_rest))) = (fst (updateFromTouch 0 130 shuttle_at_rest))\<lparr> displacement := displacement (fst (updateFromTouch 50 115 (fst (updateFromTouch 0 130 shuttle_at_rest)))) \<rparr> \<and>
   deadZone (getPreset (fst (updateFromTouch 0 130 shuttle_at_rest))) \<le> \<bar>displacement (fst (updateFromTouch 60 85 (fst (updateFromTouch 0 130 shuttle_at_rest))))\<bar> \<and>
   \<bar>displacement (fst (updateFromTouch 60 85 (fst (updateFromTouch 0 130 shuttle_at_rest))))\<bar> < firstTick (getPreset (fst (updateFromTouch 0 130 shuttle_at_rest))) \<and>
   snd (updateFromTouch 60 85 (fst (updateFromTouch 0 130 shuttle_at_rest))) = [] \<and>
   repeatTimer (fst (updateFromTouch 60 85 (fst (updateFromTouch 0 130 shuttle_at_rest)))) = None \<and>
   firstTick (getPreset (fst (updateFromTouch 0 130 shuttle_at_rest))) \<le> \<bar>displacement (fst (updateFromTouch 60 70 (fst (updateFromTouch 0 130 shuttle_at_rest))))\<bar> \<and>
   repeatStartTime (fst (updateFromTouch 60 70 (fst (updateFromTouch 0 130 shuttle_at_rest)))) = 60 \<and>
   \<bar>displacement (fst (updateFromTouch 0 105 shuttle_at_rest))\<bar> < deadZone (getPreset shuttle_at_rest) \<and>
   direction (fst (updateFromTouch 0 105 shuttle_at_rest)) = 0 \<and>
   snd (updateFromTouch 0 105 shuttle_at_rest) = [] \<and>
   repeatTimer (fst (updateFromTouch 0 105 shuttle_at_rest)) = None \<and>
   deadZone (getPreset shuttle_at_rest) \<le> \<bar>displacement (fst (updateFromTouch 0 115 shuttle_at_rest))\<bar> \<and>
   \<bar>displacement (fst (updateFromTouch 0 115 shuttle_at_rest))\<bar> < firstTick (getPreset shuttle_at_rest) \<and>
   snd (updateFromTouch 0 115 shuttle_at_rest) = [] \<and>
   repeatTimer (fst (updateFromTouch 0 115 shuttle_at_rest)) = None \<and>
   deadZone (getPreset shuttle_at_rest) = 12 \<and>
   firstTick (getPreset shuttle_at_rest) = 25 \<and>
   displacement (fst (updateFromTouch 0 130 shuttle_at_rest)) = 30 \<and>
   direction (fst (updateFromTouch 0 130 shuttle_at_rest)) = 1 \<and>
   displacement (fst (updateFromTouch 50 115 (fst (updateFromTouch 0 130 shuttle_at_rest)))) = 15 \<and>
   displacement (fst (updateFromTouch 60 85 (fst (updateFromTouch 0 130 shuttle_at_rest)))) = - 15 \<and>
   direction (fst (updateFromTouch 60 85 (fst (updateFromTouch 0 130 shuttle_at_rest)))) = - 1 \<and>
   displacement (fst (updateFromTouch 60 70 (fst (updateFromTouch 0 130 shuttle_at_rest)))) = - 30 \<and>
   direction (fst (updateFromTouch 60 70 (fst (updateFromTouch 0 130 shuttle_at_rest)))) = - 1 \<and>
   displacement (fst (updateFromTouch 0 105 shuttle_at_rest)) = 5 \<and>
   displacement (fst (updateFromTouch 0 115 shuttle_at_rest)) = 15 \<and>
   snd (updateFromTouch 0 130 shuttle_at_rest) = [MouseWheel 0 2] \<and>
   repeatTimer (fst (updateFromTouch 0 130 shuttle_at_rest)) = Some 1 \<and>
   scrollTimers (fst (updateFromTouch 0 130 shuttle_at_rest)) = [(1, 14550 / 49, CbRepeat)] \<and>
   scrollTimers (fst (updateFromTouch 50 115 (fst (updateFromTouch 0 130 shuttle_at_rest)))) = [(1, 14550 / 49, CbRepeat)] \<and>
   scrollTimers (fst (updateFromTouch 60 85 (fst (updateFromTouch 0 130 shuttle_at_rest)))) = [] \<and>
   snd (updateFromTouch 60 70 (fst (updateFromTouch 0 130 shuttle_at_rest))) = [MouseWheel 0 (- 2)] \<and>
   repeatTimer (fst (updateFromTouch 60 70 (fst (updateFromTouch 0 130 shuttle_at_rest)))) = Some 2"
proof -
  have h1: "firstTick (getPreset shuttle_at_rest) \<le> \<bar>displacement (fst (updateFromTouch 0 130 shuttle_at_rest))\<bar>"
    "repeatTimer shuttle_at_rest = None"
    by code_simp+
  have p1: "updateFromTouch 0 130 shuttle_at_rest =
     (fst (updateFromTouch 0 130 shuttle_at_rest), snd (updateFromTouch 0 130 shuttle_at_rest))"
    by simp
  have c1: "direction (fst (updateFromTouch 0 130 shuttle_at_rest)) = (if 0 < displacement (fst (updateFromTouch 0 130 shuttle_at_rest)) then 1 else - 1)"
    "repeatStartTime (fst (updateFromTouch 0 130 shuttle_at_rest)) = 0"
    "(\<exists>i. repeatTimer (fst (updateFromTouch 0 130 shuttle_at_rest)) = Some i \<and> (i, 0 + computeInterval 0 (fst (updateFromTouch 0 130 shuttle_at_rest)), CbRepeat) \<in> set (scrollTimers (fst (updateFromTouch 0 130 shuttle_at_rest))))"
    using updateFromTouch_shuttle [OF p1] h1 by blast+
  have h2: "deadZone (getPreset (fst (updateFromTouch 0 130 shuttle_at_rest))) \<le> \<bar>displacement (fst (updateFromTouch 50 115 (fst (updateFromTouch 0 130 shuttle_at_rest))))\<bar>"
    "repeatTimer (fst (updateFromTouch 0 130 shuttle_at_rest)) \<noteq> None"
    "direction (fst (updateFromTouch 0 130 shuttle_at_rest)) = (if 0 < displacement (fst (updateFromTouch 50 115 (fst (updateFromTouch 0 130 shuttle_at_rest)))) then 1 else - 1)"
    by code_simp+
  have p2: "updateFromTouch 50 115 (fst (updateFromTouch 0 130 shuttle_at_rest)) =
     (fst (updateFromTouch 50 115 (fst (updateFromTouch 0 130 shuttle_at_rest))), snd (updateFromTouch 50 115 (fst (updateFromTouch 0 130 shuttle_at_rest))))"
    by simp
  have c2: "snd (updateFromTouch 50 115 (fst (updateFromTouch 0 130 shuttle_at_rest))) = []"
    "fst (updateFromTouch 50 115 (fst (updateFromTouch 0 130 shuttle_at_rest))) = (fst (updateFromTouch 0 130 shuttle_at_rest))\<lparr> displacement := displacement (fst (updateFromTouch 50 115 (fst (updateFromTouch 0 130 shuttle_at_rest)))) \<rparr>"
    using updateFromTouch_shuttle [OF p2] h2 by blast+
  have h3: "deadZone (getPreset (fst (updateFromTouch 0 130 shuttle_at_rest))) \<le> \<bar>displacement (fst (updateFromTouch 60 85 (fst (updateFromTouch 0 130 shuttle_at_rest))))\<bar>"
    "\<bar>displacement (fst (updateFromTouch 60 85 (fst (updateFromTouch 0 130 shuttle_at_rest))))\<bar> < firstTick (getPreset (fst (updateFromTouch 0 130 shuttle_at_rest)))"
    "direction (fst (updateFromTouch 0 130 shuttle_at_rest)) \<noteq> (if 0 < displacement (fst (updateFromTouch 60 85 (fst (updateFromTouch 0 130 shuttle_at_rest)))) then 1 else - 1)"
    by code_simp+
  have p3: "updateFromTouch 60 85 (fst (updateFromTouch 0 130 shuttle_at_rest)) =
     (fst (updateFromTouch 60 85 (fst (updateFromTouch 0 130 shuttle_at_rest))), snd (updateFromTouch 60 85 (fst (updateFromTouch 0 130 shuttle_at_rest))))"
    by simp
  have c3: "snd (updateFromTouch 60 85 (fst (updateFromTouch 0 130 shuttle_at_rest))) = []"
    "repeatTimer (fst (updateFromTouch 60 85 (fst (updateFromTouch 0 130 shuttle_at_rest)))) = None"
    "direction (fst (updateFromTouch 60 85 (fst (updateFromTouch 0 130 shuttle_at_rest)))) = (if 0 < displacement (fst (updateFromTouch 60 85 (fst (updateFromTouch 0 130 shuttle_at_rest)))) then 1 else - 1)"
    "(\<forall>i. repeatTimer (fst (updateFromTouch 0 130 shuttle_at_rest)) = Some i \<longrightarrow> i \<notin> fst ` set (scrollTimers (fst (updateFromTouch 60 85 (fst (updateFromTouch 0 130 shuttle_at_rest))))))"
    using updateFromTouch_shuttle [OF p3] h3 by blast+
  have h4: "firstTick (getPreset (fst (updateFromTouch 0 130 shuttle_at_rest))) \<le> \<bar>displacement (fst (updateFromTouch 60 70 (fst (updateFromTouch 0 130 shuttle_at_rest))))\<bar>"
    "direction (fst (updateFromTouch 0 130 shuttle_at_rest)) \<noteq> (if 0 < displacement (fst (updateFromTouch 60 70 (fst (updateFromTouch 0 130 shuttle_at_rest)))) then 1 else - 1)"
    by code_simp+
  have p4: "updateFromTouch 60 70 (fst (updateFromTouch 0 130 shuttle_at_rest)) =
     (fst (updateFromTouch 60 70 (fst (updateFromTouch 0 130 shuttle_at_rest))), snd (updateFromTouch 60 70 (fst (updateFromTouch 0 130 shuttle_at_rest))))"
    by simp
  have c4: "direction (fst (updateFromTouch 60 70 (fst (updateFromTouch 0 130 shuttle_at_rest)))) = (if 0 < displacement (fst (updateFromTouch 60 70 (fst (updateFromTouch 0 130 shuttle_at_rest)))) then 1 else - 1)"
    "repeatStartTime (fst (updateFromTouch 60 70 (fst (updateFromTouch 0 130 shuttle_at_rest)))) = 60"
    "(\<exists>i. repeatTimer (fst (updateFromTouch 60 70 (fst (updateFromTouch 0 130 shuttle_at_rest)))) = Some i \<and> (i, 60 + computeInterval 60 (fst (updateFromTouch 60 70 (fst (updateFromTouch 0 130 shuttle_at_rest)))), CbRepeat) \<in> set (scrollTimers (fst (updateFromTouch 60 70 (fst (updateFromTouch 0 130 shuttle_at_rest))))))"
    using updateFromTouch_shuttle [OF p4] h4 by blast+
  have h5: "\<bar>displacement (fst (updateFromTouch 0 105 shuttle_at_rest))\<bar> < deadZone (getPreset shuttle_at_rest)"
    by code_simp+
  have p5: "updateFromTouch 0 105 shuttle_at_rest =
     (fst (updateFromTouch 0 105 shuttle_at_rest), snd (updateFromTouch 0 105 shuttle_at_rest))"
    by simp
  have c5: "direction (fst (updateFromTouch 0 105 shuttle_at_rest)) = 0"
    "snd (updateFromTouch 0 105 shuttle_at_rest) = []"
    "repeatTimer (fst (updateFromTouch 0 105 shuttle_at_rest)) = None"
    using updateFromTouch_shuttle [OF p5] h5 by blast+
  have h6: "deadZone (getPreset shuttle_at_rest) \<le> \<bar>displacement (fst (updateFromTouch 0 115 shuttle_at_rest))\<bar>"
    "\<bar>displacement (fst (updateFromTouch 0 115 shuttle_at_rest))\<bar> < firstTick (getPreset shuttle_at_rest)"
    by code_simp+
  have p6: "updateFromTouch 0 115 shuttle_at_rest =
     (fst (updateFromTouch 0 115 shuttle_at_rest), snd (updateFromTouch 0 115 shuttle_at_rest))"
    by simp
  have c6: "snd (updateFromTouch 0 115 shuttle_at_rest) = []"
    "repeatTimer (fst (updateFromTouch 0 115 shuttle_at_rest)) = None"
    "direction (fst (updateFromTouch 0 115 shuttle_at_rest)) = (if 0 < displacement (fst (updateFromTouch 0 115 shuttle_at_rest)) then 1 else - 1)"
    using updateFromTouch_shuttle [OF p6] h6 h1(2) by blast+
  have v: "deadZone (getPreset shuttle_at_rest) = 12"
    "firstTick (getPreset shuttle_at_rest) = 25"
    "displacement (fst (updateFromTouch 0 130 shuttle_at_rest)) = 30"
    "direction (fst (updateFromTouch 0 130 shuttle_at_rest)) = 1"
    "displacement (fst (updateFromTouch 50 115 (fst (updateFromTouch 0 130 shuttle_at_rest)))) = 15"
    "displacement (fst (updateFromTouch 60 85 (fst (updateFromTouch 0 130 shuttle_at_rest)))) = - 15"
    "direction (fst (updateFromTouch 60 85 (fst (updateFromTouch 0 130 shuttle_at_rest)))) = - 1"
    "displacement (fst (updateFromTouch 60 70 (fst (updateFromTouch 0 130 shuttle_at_rest)))) = - 30"
    "direction (fst (updateFromTouch 60 70 (fst (updateFromTouch 0 130 shuttle_at_rest)))) = - 1"
    "displacement (fst (updateFromTouch 0 105 shuttle_at_rest)) = 5"
    "displacement (fst (updateFromTouch 0 115 shuttle_at_rest)) = 15"
    "snd (updateFromTouch 0 130 shuttle_at_rest) = [MouseWheel 0 2]"
    "repeatTimer (fst (updateFromTouch 0 130 shuttle_at_rest)) = Some 1"
    "scrollTimers (fst (updateFromTouch 0 130 shuttle_at_rest)) = [(1, 14550 / 49, CbRepeat)]"
    "scrollTimers (fst (updateFromTouch 50 115 (fst (updateFromTouch 0 130 shuttle_at_rest)))) = [(1, 14550 / 49, CbRepeat)]"
    "scrollTimers (fst (updateFromTouch 60 85 (fst (updateFromTouch 0 130 shuttle_at_rest)))) = []"
    "snd (updateFromTouch 60 70 (fst (updateFromTouch 0 130 shuttle_at_rest))) = [MouseWheel 0 (- 2)]"
    "repeatTimer (fst (updateFromTouch 60 70 (fst (updateFromTouch 0 130 shuttle_at_rest)))) = Some 2"
    by code_simp+
  show ?thesis
    using h1 c1 h2 c2 h3 c3 h4 c4 h5 c5 h6 c6 v by (intro conjI)
qed

text \<open>
  The claim as stated fails: after the tick at the displacement 30 the finger moves back to
  15, between the dead zone (12) and the first-tick threshold (25), and timer 1 stays armed
  and pending.
\<close>

theorem shuttle_armed_below_firstTick:
  "repeatTimer (fst (updateFromTouch 50 115 (fst (updateFromTouch 0 130 shuttle_at_rest)))) = Some 1 \<and>
   scrollTimers (fst (updateFromTouch 50 115 (fst (updateFromTouch 0 130 shuttle_at_rest))))
     = [(1, 14550 / 49, CbRepeat)] \<and>
   \<bar>displacement (fst (updateFromTouch 50 115 (fst (updateFromTouch 0 130 shuttle_at_rest))))\<bar> = 15 \<and>
   firstTick (getPreset (fst (updateFromTouch 50 115 (fst (updateFromTouch 0 130 shuttle_at_rest))))) = 25"
  by code_simp

section \<open>Zoom and pan\<close>

lemma clampTranslation_fields [simp]:
  "scale (clampTranslation e s) = scale s" "zoomed (clampTranslation e s) = zoomed s"
  "isPanning (clampTranslation e s) = isPanning s" "isPinching (clampTranslation e s) = isPinching s"
  "gestureUndecided (clampTranslation e s) = gestureUndecided s" "isScroll (clampTranslation e s) = isScroll s"
  "pinchStartDist (clampTranslation e s) = pinchStartDist s"
  "undecidedMidX (clampTranslation e s) = undecidedMidX s" "undecidedMidY (clampTranslation e s) = undecidedMidY s"
  by (simp_all add: clampTranslation_def Let_def)

lemma clampTranslation_bound:
  assumes "wf_zoom_env e" "1 \<le> scale s"
  shows "\<bar>translateX (clampTranslation e s)\<bar> \<le> offsetWidth e * (scale s - 1) / 2"
    and "\<bar>translateY (clampTranslation e s)\<bar> \<le> offsetHeight e * (scale s - 1) / 2"
proof -
  have "0 \<le> offsetWidth e * (scale s - 1) / 2" "0 \<le> offsetHeight e * (scale s - 1) / 2"
    using assms by (simp_all add: wf_zoom_env_def)
  then show "\<bar>translateX (clampTranslation e s)\<bar> \<le> offsetWidth e * (scale s - 1) / 2"
    and "\<bar>translateY (clampTranslation e s)\<bar> \<le> offsetHeight e * (scale s - 1) / 2"
    by (simp_all add: clampTranslation_def Let_def abs_le_iff)
qed

lemma pan_update_fields [simp]:
  "scale (pan_update e t0 t1 s) = scale s" "zoomed (pan_update e t0 t1 s) = zoomed s"
  "isPanning (pan_update e t0 t1 s) = isPanning s" "isPinching (pan_update e t0 t1 s) = isPinching s"
  "gestureUndecided (pan_update e t0 t1 s) = gestureUndecided s" "isScroll (pan_update e t0 t1 s) = isScroll s"
  "pinchStartDist (pan_update e t0 t1 s) = pinchStartDist s"
  "undecidedMidX (pan_update e t0 t1 s) = undecidedMidX s" "undecidedMidY (pan_update e t0 t1 s) = undecidedMidY s"
  by (simp_all add: pan_update_def Let_def)

lemma pan_update_bound:
  assumes "wf_zoom_env e" "1 \<le> scale s"
  shows "\<bar>translateX (pan_update e t0 t1 s)\<bar> \<le> offsetWidth e * (scale (pan_update e t0 t1 s) - 1) / 2 \<and>
         \<bar>translateY (pan_update e t0 t1 s)\<bar> \<le> offsetHeight e * (scale (pan_update e t0 t1 s) - 1) / 2"
  using clampTranslation_bound [OF assms(1), of "s\<lparr> translateX := panStartTX s + (pos_x (midpoint t0 t1) - panStartMidX s),
                translateY := panStartTY s + (pos_y (midpoint t0 t1) - panStartMidY s) \<rparr>"] assms(2)
  by (simp add: pan_update_def Let_def)

lemma pinch_update_props:
  assumes "pinch_update e d s = Some s'"
  shows "1 \<le> scale s' \<and> scale s' \<le> 4 \<and>
         isPanning s' = isPanning s \<and> isPinching s' = isPinching s \<and>
         gestureUndecided s' = gestureUndecided s \<and> isScroll s' = isScroll s \<and>
         pinchStartDist s' = pinchStartDist s \<and> undecidedMidX s' = undecidedMidX s \<and>
         undecidedMidY s' = undecidedMidY s"
  using assms by (auto simp: pinch_update_def Let_def js_div_def split: if_splits)

lemma pinch_update_bound:
  assumes "wf_zoom_env e" "pinch_update e d s = Some s'"
  shows "\<bar>translateX s'\<bar> \<le> offsetWidth e * (scale s' - 1) / 2 \<and>
         \<bar>translateY s'\<bar> \<le> offsetHeight e * (scale s' - 1) / 2"
proof -
  obtain ratio where r: "js_div d (pinchStartDist s) = Some ratio"
    using assms(2) by (auto simp: pinch_update_def split: option.splits)
  define ns where "ns = max 1 (min (pinchStartScale s * ratio) 4)"
  define u where "u = s\<lparr> translateX := pinchStartTX s + (pinchFocalX s - offsetWidth e / 2) * (pinchStartScale s - ns),
                    translateY := pinchStartTY s + (pinchFocalY s - offsetHeight e / 2) * (pinchStartScale s - ns),
                    scale := ns, zoomed := (ns > 105 / 100) \<rparr>"
  have s': "s' = clampTranslation e u"
    using assms(2) r by (simp add: pinch_update_def Let_def ns_def u_def)
  have "1 \<le> scale u" by (simp add: u_def ns_def)
  from clampTranslation_bound [OF assms(1) this] show ?thesis by (simp add: s')
qed

lemma classify_props:
  assumes "classify e t0 t1 dc s = Some s'" "gestureUndecided s" "exclusive s"
  shows "exclusive s' \<and> scale s' = scale s \<and> translateX s' = translateX s \<and> translateY s' = translateY s \<and>
         zoomed s' = zoomed s \<and> pinchStartDist s' = pinchStartDist s \<and>
         undecidedMidX s' = undecidedMidX s \<and> undecidedMidY s' = undecidedMidY s"
  using assms
  by (auto simp: classify_def Let_def exclusive_def split: if_splits option.splits)

lemma zoom_handleTouchMove_other:
  "length ts \<noteq> 2 \<Longrightarrow> zoom_handleTouchMove e ts s = Some (s, [])"
  by (auto simp: zoom_handleTouchMove_def split: list.splits)

lemma zoom_handleTouchMove_two:
  assumes "zoom_handleTouchMove e [t0, t1] s = Some (s', fx)"
  shows "(\<not> gestureUndecided s \<and> \<not> isPinching s \<and> \<not> isScroll s \<and> \<not> isPanning s \<and> s' = s \<and> fx = []) \<or>
    (\<exists>s1. (if gestureUndecided s then classify e t0 t1 \<bar>dist t0 t1 - pinchStartDist s\<bar> s else Some s) = Some s1 \<and>
       (gestureUndecided s \<or> isPinching s \<or> isScroll s \<or> isPanning s) \<and>
       ((gestureUndecided s1 \<and> s' = s1 \<and> fx = [PreventDefault]) \<or>
        (\<not> gestureUndecided s1 \<and> isScroll s1 \<and> s' = s1 \<and> fx = []) \<or>
        (\<not> gestureUndecided s1 \<and> \<not> isScroll s1 \<and> isPanning s1 \<and> s' = pan_update e t0 t1 s1 \<and>
           fx = [PreventDefault, StopPropagation, applyTransform s']) \<or>
        (\<not> gestureUndecided s1 \<and> \<not> isScroll s1 \<and> \<not> isPanning s1 \<and> isPinching s1 \<and>
           pinch_update e (dist t0 t1) s1 = Some s' \<and>
           fx = [PreventDefault, StopPropagation, applyTransform s']) \<or>
        (\<not> gestureUndecided s1 \<and> \<not> isScroll s1 \<and> \<not> isPanning s1 \<and> \<not> isPinching s1 \<and>
           s' = s1 \<and> fx = [])))"
  using assms unfolding zoom_handleTouchMove_def Let_def
  by (auto split: if_splits option.splits)

lemma zoom_handleTouchMove_inv:
  assumes "zoom_handleTouchMove e ts s = Some (s', fx)" "zoom_inv s"
  shows "zoom_inv s'"
proof (cases "length ts = 2")
  case False
  then show ?thesis using assms zoom_handleTouchMove_other [of ts e s] by simp
next
  case True
  then obtain t0 t1 where ts: "ts = [t0, t1]"
    by (cases ts; simp) (metis length_0_conv length_Suc_conv Suc_inject numeral_2_eq_2)
  note sh = zoom_handleTouchMove_two [OF assms(1) [unfolded ts]]
  show ?thesis
  proof (cases "\<not> gestureUndecided s \<and> \<not> isPinching s \<and> \<not> isScroll s \<and> \<not> isPanning s")
    case True
    then show ?thesis using sh assms(2) by auto
  next
    case False
    then obtain s1 where
      c: "(if gestureUndecided s then classify e t0 t1 \<bar>dist t0 t1 - pinchStartDist s\<bar> s else Some s) = Some s1"
      and d: "(s' = s1) \<or> (s' = pan_update e t0 t1 s1) \<or> (pinch_update e (dist t0 t1) s1 = Some s')"
      using sh by auto
    have i1: "zoom_inv s1"
      using c assms(2) classify_props [of e t0 t1 "\<bar>dist t0 t1 - pinchStartDist s\<bar>" s s1]
      by (auto simp: zoom_inv_def split: if_splits)
    from d show ?thesis
    proof (elim disjE)
      assume "s' = s1" then show ?thesis using i1 by simp
    next
      assume "s' = pan_update e t0 t1 s1"
      then show ?thesis using i1 by (simp add: zoom_inv_def exclusive_def)
    next
      assume "pinch_update e (dist t0 t1) s1 = Some s'"
      from pinch_update_props [OF this] show ?thesis using i1 by (simp add: zoom_inv_def exclusive_def)
    qed
  qed
qed

lemma resetZoom_inv: "exclusive s \<Longrightarrow> zoom_inv (fst (resetZoom s))"
  by (simp add: resetZoom_def zoom_inv_def exclusive_def Let_def)

lemma zoomToNative_inv:
  "zoomToNative e s = Some (s', fx) \<Longrightarrow> zoom_inv s \<Longrightarrow> zoom_inv s'"
  by (auto simp: zoomToNative_def zoom_inv_def exclusive_def Let_def split: option.splits if_splits)

lemma zoom_handleTouchStart_inv: "zoom_inv s \<Longrightarrow> zoom_inv (fst (zoom_handleTouchStart ts s))"
  by (auto simp: zoom_handleTouchStart_def zoom_inv_def exclusive_def Let_def split: list.splits)

lemma zoom_handleTouchEnd_inv: "zoom_inv s \<Longrightarrow> zoom_inv (fst (zoom_handleTouchEnd e ts s))"
  by (auto simp: zoom_handleTouchEnd_def zoom_inv_def exclusive_def resetZoom_def Let_def split: prod.splits if_splits)

lemma zoom_step_inv:
  assumes "zoom_step e ev s = Some (s', fx)" "zoom_inv s"
  shows "zoom_inv s'"
proof (cases ev)
  case (ZTouchStart ts)
  then show ?thesis using assms zoom_handleTouchStart_inv [of s ts] by auto
next
  case (ZTouchMove ts)
  then show ?thesis using assms zoom_handleTouchMove_inv by auto
next
  case (ZTouchEnd ts)
  then show ?thesis using assms zoom_handleTouchEnd_inv [of s e ts] by auto
next
  case ZToggle
  then show ?thesis using assms zoomToNative_inv [of e s s' fx] resetZoom_inv [of s]
    by (auto simp: toggle_def zoom_inv_def split: if_splits)
next
  case ZZoomToNative
  then show ?thesis using assms zoomToNative_inv by auto
next
  case ZResetZoom
  then show ?thesis using assms resetZoom_inv [of s] by (auto simp: zoom_inv_def)
qed

lemma zoom_reachable_inv: "zoom_reachable s \<Longrightarrow> zoom_inv s"
proof (induction rule: zoom_reachable.induct)
  case zr_init
  show ?case by (simp add: zoom_inv_def exclusive_def zoom_init_def)
next
  case (zr_step s e ev s' fx)
  then show ?case using zoom_step_inv by blast
qed

text \<open>
  C1, amended. In every reachable state the scale is at least 1. After every two-finger
  touch move that leaves the controller panning or pinching (a pan or a pinch update), the
  translation is within the viewport dimension times (scale - 1) / 2 on each axis, and
  after a pinch update the scale lies in 1 .. 4. No upper bound holds in general:
  \<open>zoomToNative\<close> sets the native scale as it is.
\<close>

theorem zoom_scale_translation:
  assumes "zoom_reachable s" and "wf_zoom_env e"
  shows "1 \<le> scale s \<and>
    (\<forall>t0 t1 s' fx.
       zoom_handleTouchMove e [t0, t1] s = Some (s', fx) \<and> (isPanning s' \<or> isPinching s') \<longrightarrow>
         \<bar>translateX s'\<bar> \<le> offsetWidth e * (scale s' - 1) / 2 \<and>
         \<bar>translateY s'\<bar> \<le> offsetHeight e * (scale s' - 1) / 2 \<and>
         (isPinching s' \<longrightarrow> 1 \<le> scale s' \<and> scale s' \<le> 4))"
proof (intro conjI allI impI)
  have inv: "zoom_inv s" using assms(1) by (rule zoom_reachable_inv)
  show "1 \<le> scale s" using inv by (simp add: zoom_inv_def)
  fix t0 t1 s' fx
  assume a: "zoom_handleTouchMove e [t0, t1] s = Some (s', fx) \<and> (isPanning s' \<or> isPinching s')"
  then have m: "zoom_handleTouchMove e [t0, t1] s = Some (s', fx)" and pp: "isPanning s' \<or> isPinching s'"
    by simp_all
  have inv': "zoom_inv s'" using zoom_handleTouchMove_inv [OF m inv] .
  note sh = zoom_handleTouchMove_two [OF m]
  have nidle: "gestureUndecided s \<or> isPinching s \<or> isScroll s \<or> isPanning s"
  proof (rule ccontr)
    assume "\<not> ?thesis"
    then have "s' = s" using sh by auto
    then show False using pp \<open>\<not> (gestureUndecided s \<or> isPinching s \<or> isScroll s \<or> isPanning s)\<close> by simp
  qed
  then obtain s1 where
    c: "(if gestureUndecided s then classify e t0 t1 \<bar>dist t0 t1 - pinchStartDist s\<bar> s else Some s) = Some s1"
    and d: "(s' = s1 \<and> (gestureUndecided s1 \<or> isScroll s1 \<or> (\<not> isPanning s1 \<and> \<not> isPinching s1))) \<or>
            (isPanning s1 \<and> s' = pan_update e t0 t1 s1) \<or>
            (pinch_update e (dist t0 t1) s1 = Some s')"
    using sh by auto
  have i1: "zoom_inv s1"
    using c inv classify_props [of e t0 t1 "\<bar>dist t0 t1 - pinchStartDist s\<bar>" s s1]
    by (auto simp: zoom_inv_def split: if_splits)
  have r: "\<bar>translateX s'\<bar> \<le> offsetWidth e * (scale s' - 1) / 2 \<and>
         \<bar>translateY s'\<bar> \<le> offsetHeight e * (scale s' - 1) / 2 \<and>
         (isPinching s' \<longrightarrow> 1 \<le> scale s' \<and> scale s' \<le> 4)"
    using d
  proof (elim disjE)
    assume "s' = s1 \<and> (gestureUndecided s1 \<or> isScroll s1 \<or> (\<not> isPanning s1 \<and> \<not> isPinching s1))"
    then have False using pp i1 by (auto simp: zoom_inv_def exclusive_def)
    then show ?thesis ..
  next
    assume p: "isPanning s1 \<and> s' = pan_update e t0 t1 s1"
    then have "\<not> isPinching s'" using i1 by (auto simp: zoom_inv_def exclusive_def)
    moreover have "1 \<le> scale s1" using i1 by (simp add: zoom_inv_def)
    ultimately show ?thesis using pan_update_bound [OF assms(2), of s1 t0 t1] p by simp
  next
    assume p: "pinch_update e (dist t0 t1) s1 = Some s'"
    show ?thesis using pinch_update_bound [OF assms(2) p] pinch_update_props [OF p] by simp
  qed
  show "\<bar>translateX s'\<bar> \<le> offsetWidth e * (scale s' - 1) / 2" using r by simp
  show "\<bar>translateY s'\<bar> \<le> offsetHeight e * (scale s' - 1) / 2" using r by simp
  show "1 \<le> scale s'" if "isPinching s'" using r that by simp
  show "scale s' \<le> 4" if "isPinching s'" using r that by simp
qed

lemma touch_at_simps [simp]: "clientX (touch_at x y) = x" "clientY (touch_at x y) = y"
  by (simp_all add: touch_at_def)

lemma dist_horizontal: "dist (touch_at a y) (touch_at b y) = \<bar>a - b\<bar>"
  by (simp add: dist_def Let_def)

lemma wf_page_4k: "wf_zoom_env page_4k"
  by (simp add: wf_zoom_env_def page_4k_def)

lemma zoomToNative_4k:
  "zoomToNative page_4k zoom_init =
     Some (zoom_init\<lparr> scale := 24 / 5, zoomed := True \<rparr>,
           [SetTransform (24 / 5) 0 0, NotifyChange True (24 / 5)])"
  by code_simp

text \<open>
  The claim as stated fails: a stream of 3840 by 2160 in a container of 800 by 600 has the
  native scale 24/5, and \<open>zoomToNative\<close> sets it.
\<close>

theorem zoomToNative_exceeds_4:
  "zoom_step page_4k ZZoomToNative zoom_init =
     Some (zoom_init\<lparr> scale := 24 / 5, zoomed := True \<rparr>,
           [SetTransform (24 / 5) 0 0, NotifyChange True (24 / 5)]) \<and>
   zoom_reachable (zoom_init\<lparr> scale := 24 / 5, zoomed := True \<rparr>) \<and>
   \<not> scale (zoom_init\<lparr> scale := 24 / 5, zoomed := True \<rparr>) \<le> 4"
proof -
  have st: "zoom_step page_4k ZZoomToNative zoom_init =
     Some (zoom_init\<lparr> scale := 24 / 5, zoomed := True \<rparr>,
           [SetTransform (24 / 5) 0 0, NotifyChange True (24 / 5)])"
    using zoomToNative_4k by simp
  have "zoom_reachable (zoom_init\<lparr> scale := 24 / 5, zoomed := True \<rparr>)"
    by (rule zr_step [OF zr_init wf_page_4k st])
  then show ?thesis using st by simp
qed

lemma two_fingers_100_eq:
  "two_fingers_100 = zoom_init\<lparr> pinchStartDist := 100, gestureUndecided := True, undecidedMidX := 50 \<rparr>"
  by (simp add: two_fingers_100_def zoom_handleTouchStart_def zoom_init_def dist_horizontal midpoint_def Let_def)

lemma pinch_130:
  "zoom_handleTouchMove page_4k [touch_at 0 0, touch_at 130 0] two_fingers_100 =
     Some (zoom_init\<lparr> pinchStartDist := 100, undecidedMidX := 50, isPinching := True,
                        pinchFocalX := 65, scale := 13 / 10, zoomed := True,
                        translateX := 201 / 2, translateY := 90 \<rparr>,
           [PreventDefault, StopPropagation, SetTransform (13 / 10) (201 / 2) 90])"
  unfolding two_fingers_100_eq
  by (simp add: zoom_handleTouchMove_def classify_def pinch_update_def clampTranslation_def applyTransform_def
     js_div_def dist_horizontal midpoint_def PINCH_THRESHOLD_def zoom_init_def page_4k_def Let_def)

text \<open>
  Two fingers 100 px apart spread to 130 px over the container of 800 by 600: the move is
  classified as a pinch and the scale becomes 1.3, the translation (100.5, 90), within
  (120, 90).
\<close>

theorem zoom_scale_translation_witness:
  "zoom_reachable two_fingers_100 \<and> wf_zoom_env page_4k \<and> 1 \<le> scale two_fingers_100 \<and>
   zoom_handleTouchMove page_4k [touch_at 0 0, touch_at 130 0] two_fingers_100 =
     Some (zoom_init\<lparr> pinchStartDist := 100, undecidedMidX := 50, isPinching := True,
                        pinchFocalX := 65, scale := 13 / 10, zoomed := True,
                        translateX := 201 / 2, translateY := 90 \<rparr>,
           [PreventDefault, StopPropagation, SetTransform (13 / 10) (201 / 2) 90]) \<and>
   \<bar>201 / 2 :: real\<bar> \<le> 800 * (13 / 10 - 1) / 2 \<and> \<bar>90 :: real\<bar> \<le> 600 * (13 / 10 - 1) / 2 \<and>
   (13 / 10 :: real) \<le> 4"
proof -
  have st: "zoom_step page_4k (ZTouchStart [touch_at 0 0, touch_at 100 0]) zoom_init =
      Some (two_fingers_100, snd (zoom_handleTouchStart [touch_at 0 0, touch_at 100 0] zoom_init))"
    by (simp add: two_fingers_100_def)
  have re: "zoom_reachable two_fingers_100"
    by (rule zr_step [OF zr_init wf_page_4k st])
  have "isPinching (zoom_init\<lparr> pinchStartDist := 100, undecidedMidX := 50, isPinching := True,
                        pinchFocalX := 65, scale := 13 / 10, zoomed := True,
                        translateX := 201 / 2, translateY := 90 \<rparr>)"
    by simp
  then show ?thesis
    using zoom_scale_translation [OF re wf_page_4k] pinch_130 re wf_page_4k
    by (simp add: page_4k_def)
qed

section \<open>Two-finger classification\<close>

lemma classification_cases:
  "exclusive s \<Longrightarrow>
     (classification s = Undecided) = gestureUndecided s \<and>
     (classification s = Pinch) = isPinching s \<and>
     (classification s = Pan) = isPanning s \<and>
     (classification s = Scroll) = isScroll s"
  by (auto simp: classification_def exclusive_def)

lemma move_decided:
  assumes "zoom_handleTouchMove e ts s = Some (s', fx)" "\<not> gestureUndecided s"
  shows "classification s' = classification s"
proof (cases "length ts = 2")
  case False
  then show ?thesis using assms zoom_handleTouchMove_other [of ts e s] by simp
next
  case True
  then obtain t0 t1 where ts: "ts = [t0, t1]"
    by (cases ts; simp) (metis length_0_conv length_Suc_conv Suc_inject numeral_2_eq_2)
  note sh = zoom_handleTouchMove_two [OF assms(1) [unfolded ts]]
  then have "s' = s \<or> s' = pan_update e t0 t1 s \<or> pinch_update e (dist t0 t1) s = Some s'"
    using assms(2) by auto
  then show ?thesis
  proof (elim disjE)
    assume "s' = s" then show ?thesis by simp
  next
    assume "s' = pan_update e t0 t1 s" then show ?thesis by (simp add: classification_def)
  next
    assume "pinch_update e (dist t0 t1) s = Some s'"
    from pinch_update_props [OF this] show ?thesis by (simp add: classification_def)
  qed
qed

lemma move_scroll:
  assumes "\<not> gestureUndecided s" "isScroll s"
  shows "zoom_handleTouchMove e ts s = Some (s, [])"
proof (cases "length ts = 2")
  case False
  then show ?thesis using zoom_handleTouchMove_other [of ts e s] by simp
next
  case True
  then obtain t0 t1 where ts: "ts = [t0, t1]"
    by (cases ts; simp) (metis length_0_conv length_Suc_conv Suc_inject numeral_2_eq_2)
  show ?thesis using assms unfolding ts by (simp add: zoom_handleTouchMove_def Let_def)
qed

text \<open>One move of an undecided contact.\<close>

lemma move_undecided:
  assumes m: "zoom_handleTouchMove e [t0, t1] s = Some (s', fx)" and u: "gestureUndecided s"
    and x: "exclusive s"
  shows "classification s' =
           (if distExceeded s (e, t0, t1) then Pinch
            else if midExceeded s (e, t0, t1) then (if zoomed s then Pan else Scroll)
            else Undecided)"
    and "exclusive s'" and "pinchStartDist s' = pinchStartDist s"
    and "undecidedMidX s' = undecidedMidX s" and "undecidedMidY s' = undecidedMidY s"
    and "gestureUndecided s' \<or> isScroll s' \<longrightarrow>
           set fx \<subseteq> {PreventDefault} \<and> scale s' = scale s \<and> translateX s' = translateX s \<and>
           translateY s' = translateY s \<and> zoomed s' = zoomed s"
proof -
  note sh = zoom_handleTouchMove_two [OF m]
  obtain s1 where c: "classify e t0 t1 \<bar>dist t0 t1 - pinchStartDist s\<bar> s = Some s1"
    and d: "(s' = s1 \<and> (gestureUndecided s1 \<or> isScroll s1) \<and> set fx \<subseteq> {PreventDefault}) \<or>
            (\<not> gestureUndecided s1 \<and> \<not> isScroll s1 \<and> isPanning s1 \<and> s' = pan_update e t0 t1 s1) \<or>
            (\<not> gestureUndecided s1 \<and> \<not> isScroll s1 \<and> \<not> isPanning s1 \<and> isPinching s1 \<and>
               pinch_update e (dist t0 t1) s1 = Some s') \<or>
            (\<not> gestureUndecided s1 \<and> \<not> isScroll s1 \<and> \<not> isPanning s1 \<and> \<not> isPinching s1 \<and> s' = s1)"
    using sh u by auto
  note cp = classify_props [OF c u x]
  have c1: "classification s1 =
           (if distExceeded s (e, t0, t1) then Pinch
            else if midExceeded s (e, t0, t1) then (if zoomed s then Pan else Scroll)
            else Undecided)"
    using c u x
    by (auto simp: classify_def classification_def distExceeded_def midExceeded_def midpoint_def
        PINCH_THRESHOLD_def exclusive_def Let_def split: if_splits option.splits)
  have same: "classification s' = classification s1 \<and> gestureUndecided s' = gestureUndecided s1 \<and>
      isScroll s' = isScroll s1 \<and> isPanning s' = isPanning s1 \<and> isPinching s' = isPinching s1 \<and>
      pinchStartDist s' = pinchStartDist s1 \<and> undecidedMidX s' = undecidedMidX s1 \<and>
      undecidedMidY s' = undecidedMidY s1"
    using d
  proof (elim disjE)
    assume "\<not> gestureUndecided s1 \<and> \<not> isScroll s1 \<and> \<not> isPanning s1 \<and> isPinching s1 \<and>
               pinch_update e (dist t0 t1) s1 = Some s'"
    then have "pinch_update e (dist t0 t1) s1 = Some s'" by simp
    from pinch_update_props [OF this] show ?thesis by (simp add: classification_def)
  qed (auto simp: classification_def)
  show "classification s' =
           (if distExceeded s (e, t0, t1) then Pinch
            else if midExceeded s (e, t0, t1) then (if zoomed s then Pan else Scroll)
            else Undecided)"
    using same c1 by simp
  show "exclusive s'" using same cp by (simp add: exclusive_def)
  show "pinchStartDist s' = pinchStartDist s" using same cp by simp
  show "undecidedMidX s' = undecidedMidX s" using same cp by simp
  show "undecidedMidY s' = undecidedMidY s" using same cp by simp
  show "gestureUndecided s' \<or> isScroll s' \<longrightarrow>
           set fx \<subseteq> {PreventDefault} \<and> scale s' = scale s \<and> translateX s' = translateX s \<and>
           translateY s' = translateY s \<and> zoomed s' = zoomed s"
  proof
    assume a: "gestureUndecided s' \<or> isScroll s'"
    then have "gestureUndecided s1 \<or> isScroll s1" using same by simp
    then have "s' = s1 \<and> set fx \<subseteq> {PreventDefault}" using d by auto
    then show "set fx \<subseteq> {PreventDefault} \<and> scale s' = scale s \<and> translateX s' = translateX s \<and>
           translateY s' = translateY s \<and> zoomed s' = zoomed s"
      using cp by simp
  qed
qed

lemma moves_decided:
  "zoom_moves ms s = Some (s', fx) \<Longrightarrow> \<not> gestureUndecided s \<Longrightarrow>
     classification s' = classification s"
proof (induction ms arbitrary: s fx)
  case Nil
  then show ?case by simp
next
  case (Cons m ms)
  obtain e t0 t1 where m: "m = (e, t0, t1)" by (cases m)
  from Cons.prems(1) obtain s1 fx1 fx2 where
    st: "zoom_handleTouchMove e [t0, t1] s = Some (s1, fx1)" and
    rest: "zoom_moves ms s1 = Some (s', fx2)"
    unfolding m by (auto split: option.splits)
  have c1: "classification s1 = classification s" using move_decided [OF st Cons.prems(2)] .
  have "\<not> gestureUndecided s1"
    using c1 Cons.prems(2) by (auto simp: classification_def split: if_splits)
  from Cons.IH [OF rest this] c1 show ?case by simp
qed

text \<open>The classification after a run of moves of an undecided contact: the first move
  that exceeds one of the two thresholds decides.\<close>

lemma moves_undecided:
  assumes "zoom_moves ms s = Some (s', fx)" "gestureUndecided s" "exclusive s"
    "pinchStartDist s = pinchStartDist s0" "undecidedMidX s = undecidedMidX s0"
    "undecidedMidY s = undecidedMidY s0"
  shows "classification s' =
     (case find (\<lambda>m. distExceeded s0 m \<or> midExceeded s0 m) ms of
        None \<Rightarrow> Undecided
      | Some m \<Rightarrow> if distExceeded s0 m then Pinch else if zoomed s then Pan else Scroll)"
  using assms
proof (induction ms arbitrary: s fx)
  case Nil
  then show ?case by (simp add: classification_def)
next
  case (Cons m ms)
  obtain e t0 t1 where m: "m = (e, t0, t1)" by (cases m)
  from Cons.prems(1) obtain s1 fx1 fx2 where
    st: "zoom_handleTouchMove e [t0, t1] s = Some (s1, fx1)" and
    rest: "zoom_moves ms s1 = Some (s', fx2)"
    unfolding m by (auto split: option.splits)
  note mu = move_undecided [OF st Cons.prems(2,3)]
  have dm: "distExceeded s m = distExceeded s0 m" "midExceeded s m = midExceeded s0 m"
    using Cons.prems(4,5,6) by (simp_all add: distExceeded_def midExceeded_def m)
  show ?case
  proof (cases "distExceeded s0 m \<or> midExceeded s0 m")
    case True
    then have "classification s1 \<noteq> Undecided" using mu(1) dm unfolding m by auto
    then have nu: "\<not> gestureUndecided s1" by (auto simp: classification_def)
    have "classification s' = classification s1" using moves_decided [OF rest nu] .
    then show ?thesis using True mu(1) dm unfolding m by auto
  next
    case False
    then have "classification s1 = Undecided" using mu(1) dm unfolding m by auto
    then have u1: "gestureUndecided s1" by (auto simp: classification_def split: if_splits)
    have z: "zoomed s1 = zoomed s" using mu(6) u1 by simp
    have "classification s' =
     (case find (\<lambda>m. distExceeded s0 m \<or> midExceeded s0 m) ms of
        None \<Rightarrow> Undecided
      | Some m \<Rightarrow> if distExceeded s0 m then Pinch else if zoomed s1 then Pan else Scroll)"
      using Cons.IH [OF rest u1 mu(2)] mu(3,4,5) Cons.prems(4,5,6) by simp
    then show ?thesis using False z by simp
  qed
qed

text \<open>While the contact is undecided or a scroll, the controller does nothing but call
  \<open>preventDefault\<close>.\<close>

lemma moves_no_action:
  assumes "zoom_moves ms s = Some (s', fx)" "exclusive s"
    "gestureUndecided s \<or> isScroll s"
    "classification s' = Undecided \<or> classification s' = Scroll"
  shows "set fx \<subseteq> {PreventDefault} \<and> scale s' = scale s \<and> translateX s' = translateX s \<and>
         translateY s' = translateY s \<and> zoomed s' = zoomed s"
  using assms
proof (induction ms arbitrary: s fx)
  case Nil
  then show ?case by simp
next
  case (Cons m ms)
  obtain e t0 t1 where m: "m = (e, t0, t1)" by (cases m)
  from Cons.prems(1) obtain s1 fx1 fx2 where
    st: "zoom_handleTouchMove e [t0, t1] s = Some (s1, fx1)" and
    rest: "zoom_moves ms s1 = Some (s', fx2)" and fx: "fx = fx1 @ fx2"
    unfolding m by (auto split: option.splits)
  note f = Cons.prems(4)
  show ?case
  proof (cases "gestureUndecided s")
    case True
    note mu = move_undecided [OF st True Cons.prems(2)]
    have k: "gestureUndecided s1 \<or> isScroll s1"
    proof (rule ccontr)
      assume n: "\<not> (gestureUndecided s1 \<or> isScroll s1)"
      then have "classification s' = classification s1" using moves_decided [OF rest] by simp
      then show False using f n classification_cases [OF mu(2)] by auto
    qed
    from Cons.IH [OF rest mu(2) k f] mu(6) k show ?thesis by (simp add: fx)
  next
    case False
    then have sc: "isScroll s" using Cons.prems(3) by simp
    have e: "s1 = s" "fx1 = []" using move_scroll [OF False sc, of e "[t0, t1]"] st by simp_all
    show ?thesis using Cons.IH [OF rest [unfolded e(1)] Cons.prems(2,3) f] e by (simp add: fx)
  qed
qed

lemma step_decided:
  assumes "zoom_step e ev s = Some (s', fx)" "keepsTwoFingers ev" "\<not> gestureUndecided s"
  shows "classification s' = classification s"
proof (cases ev)
  case (ZTouchStart ts)
  then have "length ts \<ge> 3" using assms(2) by simp
  then have "zoom_handleTouchStart ts s = (s, [])"
    by (auto simp: zoom_handleTouchStart_def split: list.splits)
  then show ?thesis using assms(1) ZTouchStart by simp
next
  case (ZTouchMove ts)
  then show ?thesis using assms move_decided by simp
next
  case (ZTouchEnd ts)
  then show ?thesis using assms by (auto simp: zoom_handleTouchEnd_def)
next
  case ZToggle
  then show ?thesis using assms
    by (auto simp: toggle_def resetZoom_def zoomToNative_def classification_def Let_def
        split: if_splits option.splits)
next
  case ZZoomToNative
  then show ?thesis using assms
    by (auto simp: zoomToNative_def classification_def Let_def split: if_splits option.splits)
next
  case ZResetZoom
  then show ?thesis using assms by (auto simp: resetZoom_def classification_def Let_def)
qed

lemma touchEnd_resets:
  "length ts < 2 \<Longrightarrow> classification (fst (zoom_handleTouchEnd e ts s)) = NoGesture"
  by (auto simp: zoom_handleTouchEnd_def classification_def resetZoom_def Let_def split: prod.splits)

lemma touchStart_undecided:
  "s0 = fst (zoom_handleTouchStart [a, b] s) \<Longrightarrow>
     gestureUndecided s0 \<and> exclusive s0 \<and> zoomed s0 = zoomed s \<and> scale s0 = scale s \<and>
     translateX s0 = translateX s \<and> translateY s0 = translateY s \<and>
     pinchStartDist s0 = dist a b \<and>
     undecidedMidX s0 = (clientX a + clientX b) / 2 \<and> undecidedMidY s0 = (clientY a + clientY b) / 2"
  by (simp add: zoom_handleTouchStart_def exclusive_def midpoint_def Let_def)

lemma find_decides_pinch:
  "(case find (\<lambda>m. D m \<or> M m) ms of None \<Rightarrow> False | Some m \<Rightarrow> D m) =
   (\<exists>i<length ms. D (ms ! i) \<and> (\<forall>j<i. \<not> M (ms ! j)))"
proof (induction ms)
  case Nil
  show ?case by simp
next
  case (Cons m ms)
  show ?case
  proof (cases "D m \<or> M m")
    case True
    show ?thesis
    proof (cases "D m")
      case True
      then have "\<exists>i<length (m # ms). D ((m # ms) ! i) \<and> (\<forall>j<i. \<not> M ((m # ms) ! j))"
        by (intro exI [of _ 0]) simp
      then show ?thesis using True by simp
    next
      case False
      then have mm: "M m" using True by simp
      have "\<not> (\<exists>i<length (m # ms). D ((m # ms) ! i) \<and> (\<forall>j<i. \<not> M ((m # ms) ! j)))"
      proof
        assume "\<exists>i<length (m # ms). D ((m # ms) ! i) \<and> (\<forall>j<i. \<not> M ((m # ms) ! j))"
        then obtain i where i: "i < length (m # ms)" "D ((m # ms) ! i)" "\<forall>j<i. \<not> M ((m # ms) ! j)"
          by blast
        have "i \<noteq> 0" using i(2) False by (cases i) auto
        then have "\<not> M ((m # ms) ! 0)" using i(3) by blast
        then show False using mm by simp
      qed
      then show ?thesis using False mm by simp
    qed
  next
    case False
    have "(\<exists>i<length (m # ms). D ((m # ms) ! i) \<and> (\<forall>j<i. \<not> M ((m # ms) ! j))) =
          (\<exists>i<length ms. D (ms ! i) \<and> (\<forall>j<i. \<not> M (ms ! j)))"
    proof
      assume "\<exists>i<length (m # ms). D ((m # ms) ! i) \<and> (\<forall>j<i. \<not> M ((m # ms) ! j))"
      then obtain i where i: "i < length (m # ms)" "D ((m # ms) ! i)" "\<forall>j<i. \<not> M ((m # ms) ! j)"
        by blast
      then obtain k where k: "i = Suc k" using False by (cases i) auto
      have "k < length ms" "D (ms ! k)" using i k by simp_all
      moreover have "\<forall>j<k. \<not> M (ms ! j)"
      proof (intro allI impI)
        fix j assume "j < k"
        then have "Suc j < i" using k by simp
        then have "\<not> M ((m # ms) ! Suc j)" using i(3) by blast
        then show "\<not> M (ms ! j)" by simp
      qed
      ultimately show "\<exists>i<length ms. D (ms ! i) \<and> (\<forall>j<i. \<not> M (ms ! j))" by blast
    next
      assume "\<exists>i<length ms. D (ms ! i) \<and> (\<forall>j<i. \<not> M (ms ! j))"
      then obtain k where k: "k < length ms" "D (ms ! k)" "\<forall>j<k. \<not> M (ms ! j)" by blast
      have "\<forall>j<Suc k. \<not> M ((m # ms) ! j)"
      proof (intro allI impI)
        fix j assume "j < Suc k"
        then show "\<not> M ((m # ms) ! j)" using k(3) False by (cases j) auto
      qed
      then show "\<exists>i<length (m # ms). D ((m # ms) ! i) \<and> (\<forall>j<i. \<not> M ((m # ms) ! j))"
        using k by (intro exI [of _ "Suc k"]) simp
    qed
    then show ?thesis using False Cons.IH by simp
  qed
qed

text \<open>
  C2. A two-finger touch start leaves the contact undecided. Over the touch moves that
  follow, the first move that exceeds one of the two thresholds decides: a pinch when the
  distance between the fingers differs from the initial one by more than 15 px at that
  move, else a pan when zoomed and a scroll when not. So the contact becomes a pinch
  exactly when the distance threshold is exceeded at a move before which the midpoint
  never moved by more than 10 px on an axis; a move at which both are exceeded is a pinch.
  As a scroll the controller takes no action: it only ever called \<open>preventDefault\<close>,
  left scale and translation alone, and hands every later move on unchanged. Once decided
  the classification stays through every event during which two fingers stay down, and a
  touch end that leaves fewer than two fingers resets it.
\<close>

theorem two_finger_classification:
  assumes s0: "s0 = fst (zoom_handleTouchStart [a, b] s)" and run: "zoom_moves ms s0 = Some (s', fx)"
  shows "classification s0 = Undecided \<and>
    classification s' =
      (case find (\<lambda>m. distExceeded s0 m \<or> midExceeded s0 m) ms of
         None \<Rightarrow> Undecided
       | Some m \<Rightarrow> if distExceeded s0 m then Pinch else if zoomed s then Pan else Scroll) \<and>
    ((classification s' = Pinch) =
       (\<exists>i<length ms. distExceeded s0 (ms ! i) \<and> (\<forall>j<i. \<not> midExceeded s0 (ms ! j)))) \<and>
    (classification s' = Scroll \<longrightarrow>
       set fx \<subseteq> {PreventDefault} \<and> scale s' = scale s \<and> translateX s' = translateX s \<and>
       translateY s' = translateY s \<and> (\<forall>e ts. zoom_handleTouchMove e ts s' = Some (s', []))) \<and>
    (classification s' \<noteq> Undecided \<longrightarrow>
       (\<forall>e ev s'' fx'. keepsTwoFingers ev \<and> zoom_step e ev s' = Some (s'', fx') \<longrightarrow>
          classification s'' = classification s')) \<and>
    (\<forall>e ts. length ts < 2 \<longrightarrow> classification (fst (zoom_handleTouchEnd e ts s')) = NoGesture)"
proof -
  note st = touchStart_undecided [OF s0]
  have u0: "gestureUndecided s0" and x0: "exclusive s0" and z0: "zoomed s0 = zoomed s"
    using st by simp_all
  have c0: "classification s0 = Undecided" using u0 by (simp add: classification_def)
  have cl: "classification s' =
      (case find (\<lambda>m. distExceeded s0 m \<or> midExceeded s0 m) ms of
         None \<Rightarrow> Undecided
       | Some m \<Rightarrow> if distExceeded s0 m then Pinch else if zoomed s then Pan else Scroll)"
    using moves_undecided [OF run u0 x0 refl refl refl] z0 by simp
  have "(classification s' = Pinch) =
      (case find (\<lambda>m. distExceeded s0 m \<or> midExceeded s0 m) ms of
         None \<Rightarrow> False | Some m \<Rightarrow> distExceeded s0 m)"
    unfolding cl by (simp split: option.splits)
  then have pi: "(classification s' = Pinch) =
       (\<exists>i<length ms. distExceeded s0 (ms ! i) \<and> (\<forall>j<i. \<not> midExceeded s0 (ms ! j)))"
    unfolding find_decides_pinch .
  have sc: "classification s' = Scroll \<longrightarrow>
       set fx \<subseteq> {PreventDefault} \<and> scale s' = scale s \<and> translateX s' = translateX s \<and>
       translateY s' = translateY s \<and> (\<forall>e ts. zoom_handleTouchMove e ts s' = Some (s', []))"
  proof
    assume a: "classification s' = Scroll"
    have n: "\<not> gestureUndecided s'" "isScroll s'"
      using a by (auto simp: classification_def split: if_splits)
    have "set fx \<subseteq> {PreventDefault} \<and> scale s' = scale s0 \<and> translateX s' = translateX s0 \<and>
         translateY s' = translateY s0 \<and> zoomed s' = zoomed s0"
      using moves_no_action [OF run x0] u0 a by simp
    then show "set fx \<subseteq> {PreventDefault} \<and> scale s' = scale s \<and> translateX s' = translateX s \<and>
       translateY s' = translateY s \<and> (\<forall>e ts. zoom_handleTouchMove e ts s' = Some (s', []))"
      using st move_scroll [OF n] by simp
  qed
  have fr: "classification s' \<noteq> Undecided \<longrightarrow>
       (\<forall>e ev s'' fx'. keepsTwoFingers ev \<and> zoom_step e ev s' = Some (s'', fx') \<longrightarrow>
          classification s'' = classification s')"
  proof (intro impI allI)
    fix e ev s'' fx'
    assume "classification s' \<noteq> Undecided"
    then have n: "\<not> gestureUndecided s'" by (auto simp: classification_def)
    assume "keepsTwoFingers ev \<and> zoom_step e ev s' = Some (s'', fx')"
    then show "classification s'' = classification s'" using step_decided n by blast
  qed
  show ?thesis using c0 cl pi sc fr touchEnd_resets by blast
qed

text \<open>
  C4, amended. For a two-finger contact that is still undecided when a touch end leaves
  fewer than two fingers, the ZoomController takes no action: over the whole contact it
  only calls \<open>preventDefault\<close>, it never stops the propagation to the pointer
  recognizer, and scale, translation and the zoomed flag are what they were before the
  contact.
\<close>

theorem undecided_contact_no_zoom_action:
  assumes s0: "s0 = fst (zoom_handleTouchStart [a, b] s)" and run: "zoom_moves ms s0 = Some (s1, fx)"
    and und: "classification s1 = Undecided" and len: "length ts < 2"
  shows "set (snd (zoom_handleTouchStart [a, b] s) @ fx @ snd (zoom_handleTouchEnd e ts s1))
           \<subseteq> {PreventDefault} \<and>
         snd (zoom_handleTouchEnd e ts s1) = [] \<and>
         scale (fst (zoom_handleTouchEnd e ts s1)) = scale s \<and>
         translateX (fst (zoom_handleTouchEnd e ts s1)) = translateX s \<and>
         translateY (fst (zoom_handleTouchEnd e ts s1)) = translateY s \<and>
         zoomed (fst (zoom_handleTouchEnd e ts s1)) = zoomed s \<and>
         classification (fst (zoom_handleTouchEnd e ts s1)) = NoGesture"
proof -
  note st = touchStart_undecided [OF s0]
  have u0: "gestureUndecided s0" and x0: "exclusive s0" using st by simp_all
  have na: "set fx \<subseteq> {PreventDefault} \<and> scale s1 = scale s0 \<and> translateX s1 = translateX s0 \<and>
         translateY s1 = translateY s0 \<and> zoomed s1 = zoomed s0"
    using moves_no_action [OF run x0] u0 und by simp
  have u1: "gestureUndecided s1" using und by (auto simp: classification_def split: if_splits)
  have c1: "classification s1 =
     (case find (\<lambda>m. distExceeded s0 m \<or> midExceeded s0 m) ms of
        None \<Rightarrow> Undecided
      | Some m \<Rightarrow> if distExceeded s0 m then Pinch else if zoomed s0 then Pan else Scroll)"
    using moves_undecided [OF run u0 x0 refl refl refl] .
  have x1: "\<not> isPinching s1 \<and> \<not> isPanning s1"
  proof -
    have "exclusive s1" using run x0 u0
    proof (induction ms arbitrary: s0 fx)
      case Nil then show ?case by simp
    next
      case (Cons m ms)
      obtain e' t0 t1 where m: "m = (e', t0, t1)" by (cases m)
      from Cons.prems(1) obtain s2 fx1 fx2 where
        st: "zoom_handleTouchMove e' [t0, t1] s0 = Some (s2, fx1)" and
        rest: "zoom_moves ms s2 = Some (s1, fx2)"
        unfolding m by (auto split: option.splits)
      note mu = move_undecided [OF st Cons.prems(3,2)]
      have "gestureUndecided s2"
      proof (rule ccontr)
        assume "\<not> gestureUndecided s2"
        from moves_decided [OF rest this] have "classification s2 = Undecided" using und by simp
        then show False using \<open>\<not> gestureUndecided s2\<close> by (auto simp: classification_def split: if_splits)
      qed
      from Cons.IH [OF rest mu(2) this] show ?case .
    qed
    then show ?thesis using u1 by (simp add: exclusive_def)
  qed
  have en: "zoom_handleTouchEnd e ts s1 =
      (s1\<lparr> isPinching := False, isPanning := False, gestureUndecided := False, isScroll := False \<rparr>, [])"
    using len x1 by (simp add: zoom_handleTouchEnd_def Let_def)
  have sx: "snd (zoom_handleTouchStart [a, b] s) = [PreventDefault]"
    by (simp add: zoom_handleTouchStart_def Let_def)
  show ?thesis using na st touchEnd_resets [OF len, of e s1] unfolding en sx by simp
qed

lemmas zoom_eval = zoom_handleTouchMove_def classify_def pinch_update_def pan_update_def
  clampTranslation_def applyTransform_def js_div_def dist_horizontal midpoint_def
  PINCH_THRESHOLD_def zoom_init_def page_4k_def Let_def

lemma pinch_run:
  "zoom_moves [(page_4k, touch_at (- 15) 0, touch_at 115 0)] two_fingers_100 =
     Some (zoom_init\<lparr> pinchStartDist := 100, undecidedMidX := 50, isPinching := True,
                        pinchFocalX := 50, scale := 13 / 10, zoomed := True,
                        translateX := 105, translateY := 90 \<rparr>,
           [PreventDefault, StopPropagation, SetTransform (13 / 10) 105 90])"
  unfolding two_fingers_100_eq by (simp add: zoom_eval)

lemma scroll_run:
  "zoom_moves [(page_4k, touch_at 0 20, touch_at 100 20)] two_fingers_100 =
     Some (zoom_init\<lparr> pinchStartDist := 100, undecidedMidX := 50, isScroll := True \<rparr>, [])"
  unfolding two_fingers_100_eq by (simp add: zoom_eval)

lemma undecided_run:
  "zoom_moves [(page_4k, touch_at 3 0, touch_at 103 0)] two_fingers_100 =
     Some (two_fingers_100, [PreventDefault])"
  unfolding two_fingers_100_eq by (simp add: zoom_eval)

lemma pinch_next:
  "zoom_step page_4k (ZTouchMove [touch_at 0 50, touch_at 100 50])
     (zoom_init\<lparr> pinchStartDist := 100, undecidedMidX := 50, isPinching := True,
                        pinchFocalX := 50, scale := 13 / 10, zoomed := True,
                        translateX := 105, translateY := 90 \<rparr>) =
   Some (zoom_init\<lparr> pinchStartDist := 100, undecidedMidX := 50, isPinching := True,
                        pinchFocalX := 50 \<rparr>, [PreventDefault, StopPropagation, ClearTransform])"
  by (simp add: zoom_eval)

lemmas mouse_eval = mouse_handleTouchStart_def mouse_handleTouchMove_def mouse_handleTouchEnd_def
  isZoomGesture_def cancelLongPress_def cancelDragHold_def cancelSingleTap_def clearTimeout_def
  setTimeout_def getMidpoint_def sendPlannedMove_def clickPulse_def tapIfAny_def processTap_def
  resetState_def getTouchPos_def screenToContainerPos_def js_round_def placeTouch_def
  env_zoom_def env_at_def mouse_init_def TAP_MAX_DURATION_def DOUBLE_TAP_WINDOW_def
  LONG_PRESS_DELAY_def DRAG_HOLD_DELAY_def Let_def

lemma not_zoom_gesture_start: "\<not> isPanning two_fingers_100 \<and> \<not> isPinching two_fingers_100"
  by (simp add: two_fingers_100_eq zoom_init_def)

lemma not_zoom_gesture_end:
  "\<not> isPanning (fst (zoom_handleTouchEnd page_4k [] two_fingers_100)) \<and>
   \<not> isPinching (fst (zoom_handleTouchEnd page_4k [] two_fingers_100))"
  by (simp add: two_fingers_100_eq zoom_init_def zoom_handleTouchEnd_def Let_def)

lemma tap_start:
  "mouse_handleTouchStart (env_zoom 1000 two_fingers_100) [touch_at 0 0, touch_at 100 0]
     (mouse_init\<lparr> mode := Relative \<rparr>) =
   Some (mouse_init\<lparr> mode := Relative, twoFingerStartTime := 1000, twoFingerTapDetected := True,
                       scrollAnchor := Some \<lparr> pos_x = 50, pos_y = 0 \<rparr> \<rparr>, [])"
  using not_zoom_gesture_start by (simp add: mouse_eval)

lemma tap_end:
  "mouse_handleTouchEnd (env_zoom 1100 (fst (zoom_handleTouchEnd page_4k [] two_fingers_100)))
     [] [touch_at 0 0, touch_at 100 0]
     (mouse_init\<lparr> mode := Relative, twoFingerStartTime := 1000, twoFingerTapDetected := True,
                  scrollAnchor := Some \<lparr> pos_x = 50, pos_y = 0 \<rparr> \<rparr>) =
   (mouse_init\<lparr> mode := Relative, twoFingerStartTime := 1000,
                 timers := [(1, 1150, CbButtonUp RightButton)], nextTimerId := 2 \<rparr>,
    [MouseButton RightButton True])"
  using not_zoom_gesture_end by (simp add: mouse_eval)

lemma two_finger_tap:
  "mouse_run
     [(env_zoom 1000 two_fingers_100, MTouchStart [touch_at 0 0, touch_at 100 0]),
      (env_zoom 1100 (fst (zoom_handleTouchEnd page_4k [] two_fingers_100)),
       MTouchEnd [] [touch_at 0 0, touch_at 100 0])]
     (mouse_init\<lparr> mode := Relative \<rparr>) =
   Some (mouse_init\<lparr> mode := Relative, twoFingerStartTime := 1000,
                       timers := [(1, 1150, CbButtonUp RightButton)], nextTimerId := 2 \<rparr>,
         [MouseButton RightButton True])"
  by (simp add: tap_start tap_end)

text \<open>
  Two fingers 100 px apart spread to 130 px about a resting midpoint: a pinch, and a pinch
  still after the next move, until both fingers lift. The same fingers moving 20 px down
  in parallel, not zoomed: a scroll, which the controller hands on untouched.
\<close>

theorem two_finger_classification_witness:
  "two_fingers_100 = fst (zoom_handleTouchStart [touch_at 0 0, touch_at 100 0] zoom_init) \<and>
   classification two_fingers_100 = Undecided \<and>
   zoom_moves [(page_4k, touch_at (- 15) 0, touch_at 115 0)] two_fingers_100 =
     Some (zoom_init\<lparr> pinchStartDist := 100, undecidedMidX := 50, isPinching := True,
                        pinchFocalX := 50, scale := 13 / 10, zoomed := True,
                        translateX := 105, translateY := 90 \<rparr>,
           [PreventDefault, StopPropagation, SetTransform (13 / 10) 105 90]) \<and>
   distExceeded two_fingers_100 (page_4k, touch_at (- 15) 0, touch_at 115 0) \<and>
   classification (zoom_init\<lparr> pinchStartDist := 100, undecidedMidX := 50, isPinching := True,
                        pinchFocalX := 50, scale := 13 / 10, zoomed := True,
                        translateX := 105, translateY := 90 \<rparr>) = Pinch \<and>
   keepsTwoFingers (ZTouchMove [touch_at 0 50, touch_at 100 50]) \<and>
   classification (zoom_init\<lparr> pinchStartDist := 100, undecidedMidX := 50, isPinching := True,
                        pinchFocalX := 50 \<rparr>) = Pinch \<and>
   classification (fst (zoom_handleTouchEnd page_4k []
       (zoom_init\<lparr> pinchStartDist := 100, undecidedMidX := 50, isPinching := True,
                        pinchFocalX := 50, scale := 13 / 10, zoomed := True,
                        translateX := 105, translateY := 90 \<rparr>))) = NoGesture \<and>
   zoom_moves [(page_4k, touch_at 0 20, touch_at 100 20)] two_fingers_100 =
     Some (zoom_init\<lparr> pinchStartDist := 100, undecidedMidX := 50, isScroll := True \<rparr>, []) \<and>
   classification (zoom_init\<lparr> pinchStartDist := 100, undecidedMidX := 50, isScroll := True \<rparr>) = Scroll \<and>
   zoom_handleTouchMove page_4k [touch_at 0 40, touch_at 100 40]
     (zoom_init\<lparr> pinchStartDist := 100, undecidedMidX := 50, isScroll := True \<rparr>) =
     Some (zoom_init\<lparr> pinchStartDist := 100, undecidedMidX := 50, isScroll := True \<rparr>, [])"
proof -
  let ?P = "zoom_init\<lparr> pinchStartDist := 100, undecidedMidX := 50, isPinching := True,
                        pinchFocalX := 50, scale := 13 / 10, zoomed := True,
                        translateX := 105, translateY := 90 \<rparr>"
  let ?S = "zoom_init\<lparr> pinchStartDist := 100, undecidedMidX := 50, isScroll := True \<rparr>"
  note P = two_finger_classification [OF two_fingers_100_def pinch_run]
  note S = two_finger_classification [OF two_fingers_100_def scroll_run]
  have u: "classification two_fingers_100 = Undecided" using P by blast
  have d: "distExceeded two_fingers_100 (page_4k, touch_at (- 15) 0, touch_at 115 0)"
    by (simp add: distExceeded_def dist_horizontal two_fingers_100_eq)
  have cp: "classification ?P = Pinch" by (simp add: classification_def zoom_init_def)
  have cs: "classification ?S = Scroll" by (simp add: classification_def zoom_init_def)
  have k: "keepsTwoFingers (ZTouchMove [touch_at 0 50, touch_at 100 50])" by simp
  have fr: "\<forall>e ev s'' fx'. keepsTwoFingers ev \<and> zoom_step e ev ?P = Some (s'', fx') \<longrightarrow>
          classification s'' = classification ?P"
    using P cp by simp
  have n: "classification (zoom_init\<lparr> pinchStartDist := 100, undecidedMidX := 50, isPinching := True,
                        pinchFocalX := 50 \<rparr>) = Pinch"
    using fr [rule_format, OF conjI [OF k pinch_next]] cp by simp
  have en: "classification (fst (zoom_handleTouchEnd page_4k [] ?P)) = NoGesture"
    using P by simp
  have ho: "zoom_handleTouchMove page_4k [touch_at 0 40, touch_at 100 40] ?S = Some (?S, [])"
    using S cs by simp
  show ?thesis using two_fingers_100_def u pinch_run d cp k n en scroll_run cs ho by blast
qed

text \<open>
  Two fingers land, drift by 3 px and lift again: the contact is undecided to the end, the
  controller called \<open>preventDefault\<close> and nothing else, and the scale is still 1.
\<close>

theorem undecided_contact_no_zoom_action_witness:
  "two_fingers_100 = fst (zoom_handleTouchStart [touch_at 0 0, touch_at 100 0] zoom_init) \<and>
   zoom_moves [(page_4k, touch_at 3 0, touch_at 103 0)] two_fingers_100 =
     Some (two_fingers_100, [PreventDefault]) \<and>
   classification two_fingers_100 = Undecided \<and> length ([] :: touch list) < 2 \<and>
   snd (zoom_handleTouchEnd page_4k [] two_fingers_100) = [] \<and>
   scale (fst (zoom_handleTouchEnd page_4k [] two_fingers_100)) = 1 \<and>
   translateX (fst (zoom_handleTouchEnd page_4k [] two_fingers_100)) = 0 \<and>
   classification (fst (zoom_handleTouchEnd page_4k [] two_fingers_100)) = NoGesture"
proof -
  have u: "classification two_fingers_100 = Undecided"
    by (simp add: classification_def two_fingers_100_eq)
  have l: "length ([] :: touch list) < 2" by simp
  show ?thesis
    using undecided_contact_no_zoom_action [OF two_fingers_100_def undecided_run u l, of page_4k]
      undecided_run u two_fingers_100_def
    by (simp add: zoom_init_def)
qed

text \<open>
  The claim as stated fails. In relative mode two fingers land and lift together 100 ms
  later. The contact is undecided when it ends, yet the mouse handler emits the press of
  the right button and schedules its release: the two-finger tap.
\<close>

theorem undecided_two_finger_tap_clicks:
  "classification two_fingers_100 = Undecided \<and>
   snd (zoom_handleTouchEnd page_4k [] two_fingers_100) = [] \<and>
   mouse_run
     [(env_zoom 1000 two_fingers_100, MTouchStart [touch_at 0 0, touch_at 100 0]),
      (env_zoom 1100 (fst (zoom_handleTouchEnd page_4k [] two_fingers_100)),
       MTouchEnd [] [touch_at 0 0, touch_at 100 0])]
     (mouse_init\<lparr> mode := Relative \<rparr>) =
   Some (mouse_init\<lparr> mode := Relative, twoFingerStartTime := 1000,
                       timers := [(1, 1150, CbButtonUp RightButton)], nextTimerId := 2 \<rparr>,
         [MouseButton RightButton True])"
proof -
  have u: "classification two_fingers_100 = Undecided"
    by (simp add: classification_def two_fingers_100_eq)
  have e: "snd (zoom_handleTouchEnd page_4k [] two_fingers_100) = []"
    by (simp add: two_fingers_100_eq zoom_init_def zoom_handleTouchEnd_def Let_def)
  show ?thesis using u e two_finger_tap by simp
qed

section \<open>Two-finger tap\<close>

lemma cancelLongPress_eq:
  "cancelLongPress s =
     s\<lparr> timers := (case longPressTimer s of None \<Rightarrow> timers s
                     | Some i \<Rightarrow> filter (\<lambda>t. fst t \<noteq> i) (timers s)),
        longPressTimer := None \<rparr>"
  by (simp add: cancelLongPress_def clearTimeout_def split: option.splits)

lemma cancelDragHold_eq:
  "cancelDragHold s =
     s\<lparr> timers := (case dragHoldTimer s of None \<Rightarrow> timers s
                     | Some i \<Rightarrow> filter (\<lambda>t. fst t \<noteq> i) (timers s)),
        dragHoldTimer := None \<rparr>"
  by (simp add: cancelDragHold_def clearTimeout_def split: option.splits)

lemma two_finger_start_relative:
  assumes "enabled s" "\<not> isZoomGesture e" "mode s = Relative"
  shows "mouse_handleTouchStart e [a, b] s = Some (twoFingerDown e a b s, [])"
  using assms by (simp add: mouse_handleTouchStart_def twoFingerDown_def Let_def)

lemma two_finger_move_still:
  assumes "enabled s" "\<not> isZoomGesture e" "scrollAnchor s = Some anchor" "withinDeadZone anchor t0 t1"
  shows "mouse_handleTouchMove e [t0, t1] s = Some (s\<lparr> absPos := None \<rparr>, [])"
  using assms by (simp add: mouse_handleTouchMove_def withinDeadZone_def Let_def)

lemma mouse_run_append:
  "mouse_run (xs @ ys) s =
     (case mouse_run xs s of
        None \<Rightarrow> None
      | Some (s1, out1) \<Rightarrow>
          (case mouse_run ys s1 of None \<Rightarrow> None | Some (s2, out2) \<Rightarrow> Some (s2, out1 @ out2)))"
  by (induction xs arbitrary: s) (auto split: option.splits)

lemma still_moves_run:
  assumes "enabled s" "scrollAnchor s = Some anchor"
    "\<forall>m \<in> set ms. case m of (e, t0, t1) \<Rightarrow> \<not> isZoomGesture e \<and> withinDeadZone anchor t0 t1"
  shows "mouse_run (twoFingerMoves ms) s = Some (if ms = [] then s else s\<lparr> absPos := None \<rparr>, [])"
  using assms
proof (induction ms arbitrary: s)
  case Nil
  then show ?case by simp
next
  case (Cons m ms)
  obtain e t0 t1 where m: "m = (e, t0, t1)" by (cases m)
  have st: "mouse_handleTouchMove e [t0, t1] s = Some (s\<lparr> absPos := None \<rparr>, [])"
    using two_finger_move_still [of s e anchor t0 t1] Cons.prems m by simp
  have "mouse_run (twoFingerMoves ms) (s\<lparr> absPos := None \<rparr>) =
      Some (if ms = [] then s\<lparr> absPos := None \<rparr> else s\<lparr> absPos := None \<rparr>\<lparr> absPos := None \<rparr>, [])"
    using Cons.IH [of "s\<lparr> absPos := None \<rparr>"] Cons.prems by simp
  then show ?case using st m by simp
qed

lemma sendPlannedMove_out:
  "sendPlannedMove e s = (s', out) \<Longrightarrow>
     (\<forall>ev \<in> set out. \<exists>x y. ev = MouseMoveAbs x y) \<and> (s' = s \<or> s' = s\<lparr> absPos := None \<rparr>)"
  by (auto simp: sendPlannedMove_def Let_def split: if_splits option.splits)

lemma sendPlannedMove_relative: "mode s = Relative \<Longrightarrow> sendPlannedMove e s = (s, [])"
  by (simp add: sendPlannedMove_def)

lemma two_finger_tap_end:
  assumes "enabled s" "\<not> isZoomGesture e" "mode s = Relative" "\<not> isDragging s"
    "\<not> isSecondTapDown s" "\<not> longPressFired s" "twoFingerTapDetected s" "\<not> twoFingerMoved s"
    "now e - twoFingerStartTime s < TAP_MAX_DURATION"
  shows "mouse_handleTouchEnd e [] changed s =
    ((snd (setTimeout (CbButtonUp RightButton) 50 e (cancelLongPress s)))
       \<lparr> relTouchStart := None, touchStartPos := None, twoFingerTapDetected := False,
         scrollAnchor := None \<rparr>,
     [MouseButton RightButton True])"
  using assms
  by (simp add: mouse_handleTouchEnd_def cancelLongPress_eq sendPlannedMove_relative clickPulse_def Let_def)

lemma start_out:
  "mouse_handleTouchStart e ts s = Some (s', out) \<Longrightarrow> \<forall>ev \<in> set out. \<exists>x y. ev = MouseMoveAbs x y"
  by (auto simp: mouse_handleTouchStart_def placeTouch_def setTimeout_def Let_def
      split: if_splits list.splits option.splits prod.splits dest!: sendPlannedMove_out)

lemma two_finger_move_out:
  assumes "mouse_handleTouchMove e [t0, t1] s = Some (s', out)"
  shows "(\<forall>ev \<in> set out. \<exists>x y. ev = MouseWheel x y) \<and>
         (out \<noteq> [] \<longrightarrow> \<not> twoFingerTapDetected s') \<and>
         (\<not> twoFingerTapDetected s \<longrightarrow> \<not> twoFingerTapDetected s')"
  using assms
  by (auto simp: mouse_handleTouchMove_def Let_def split: if_splits option.splits)

lemma two_finger_moves_out:
  "mouse_run (twoFingerMoves ms) s = Some (s', out) \<Longrightarrow>
     (\<forall>ev \<in> set out. \<exists>x y. ev = MouseWheel x y) \<and>
     (out \<noteq> [] \<longrightarrow> \<not> twoFingerTapDetected s') \<and>
     (\<not> twoFingerTapDetected s \<longrightarrow> \<not> twoFingerTapDetected s')"
proof (induction ms arbitrary: s out)
  case Nil
  then show ?case by simp
next
  case (Cons m ms)
  obtain e t0 t1 where m: "m = (e, t0, t1)" by (cases m)
  from Cons.prems obtain s1 o1 o2 where
    st: "mouse_handleTouchMove e [t0, t1] s = Some (s1, o1)" and
    rest: "mouse_run (twoFingerMoves ms) s1 = Some (s', o2)" and out: "out = o1 @ o2"
    unfolding m by (auto split: option.splits)
  note a = two_finger_move_out [OF st]
  note b = Cons.IH [OF rest]
  show ?case using a b unfolding out by auto
qed

lemma touch_end_out:
  assumes "mouse_handleTouchEnd e ts changed s = (s', out)"
  shows "(\<forall>x y. MouseWheel x y \<notin> set out) \<and>
         (\<not> twoFingerTapDetected s \<longrightarrow> (\<forall>st. MouseButton RightButton st \<notin> set out))"
proof -
  obtain s2 o2 where sp: "sendPlannedMove e (cancelLongPress s) = (s2, o2)"
    by (cases "sendPlannedMove e (cancelLongPress s)")
  note so = sendPlannedMove_out [OF sp]
  have tf: "twoFingerTapDetected s2 = twoFingerTapDetected s"
    using so by (auto simp: cancelLongPress_eq)
  have o2: "\<forall>x y. MouseWheel x y \<notin> set o2" "\<forall>st. MouseButton RightButton st \<notin> set o2"
    using so by auto
  show ?thesis using assms sp o2 tf
    by (auto simp: mouse_handleTouchEnd_def clickPulse_def Let_def
        split: if_splits list.splits prod.splits)
qed

text \<open>
  The tap that the handler recognises. In relative mode, with no drag in progress, no long
  press fired and no zoom gesture claimed by the ZoomController, two fingers that land,
  keep their midpoint within 5 px of where it started on both axes, and are lifted by one
  touch end less than 200 ms after they landed, emit exactly the press of the right button;
  its release is scheduled 50 ms later. And a two-finger sequence that scrolls (emits a
  wheel event) emits no event of the right button.
\<close>

lemma two_finger_tap_right_click:
  "(enabled s \<and> mode s = Relative \<and> \<not> isDragging s \<and> \<not> longPressFired s \<and>
    \<not> isZoomGesture e0 \<and> \<not> isZoomGesture e1 \<and>
    (\<forall>m \<in> set ms. case m of (e, t0, t1) \<Rightarrow>
        \<not> isZoomGesture e \<and> withinDeadZone (getMidpoint a b) t0 t1) \<and>
    now e1 - now e0 < TAP_MAX_DURATION \<longrightarrow>
    (\<exists>s'. mouse_run ((e0, MTouchStart [a, b]) # twoFingerMoves ms @ [(e1, MTouchEnd [] changed)]) s
             = Some (s', [MouseButton RightButton True]) \<and>
          (nextTimerId s, now e1 + 50, CbButtonUp RightButton) \<in> set (timers s') \<and>
          (\<forall>e2. runCallback (CbButtonUp RightButton) e2 s' = (s', [MouseButton RightButton False])))) \<and>
   (mouse_run ((e0, MTouchStart [a, b]) # twoFingerMoves ms @ [(e1, MTouchEnd ts changed)]) s
      = Some (x, out) \<and> (\<exists>vx vy. MouseWheel vx vy \<in> set out) \<longrightarrow>
    (\<forall>st. MouseButton RightButton st \<notin> set out))"
proof (intro conjI impI)
  assume h: "enabled s \<and> mode s = Relative \<and> \<not> isDragging s \<and> \<not> longPressFired s \<and>
    \<not> isZoomGesture e0 \<and> \<not> isZoomGesture e1 \<and>
    (\<forall>m \<in> set ms. case m of (e, t0, t1) \<Rightarrow>
        \<not> isZoomGesture e \<and> withinDeadZone (getMidpoint a b) t0 t1) \<and>
    now e1 - now e0 < TAP_MAX_DURATION"
  define s1 where "s1 = twoFingerDown e0 a b s"
  define s2 where "s2 = (if ms = [] then s1 else s1\<lparr> absPos := None \<rparr>)"
  have st: "mouse_handleTouchStart e0 [a, b] s = Some (s1, [])"
    using two_finger_start_relative [of s e0 a b] h by (simp add: s1_def)
  have f1: "enabled s1" "scrollAnchor s1 = Some (getMidpoint a b)"
    using h by (simp_all add: s1_def twoFingerDown_def cancelLongPress_eq cancelDragHold_eq)
  have mv: "mouse_run (twoFingerMoves ms) s1 = Some (s2, [])"
    using still_moves_run [OF f1] h unfolding s2_def by blast
  have f2: "enabled s2" "mode s2 = Relative" "\<not> isDragging s2" "\<not> isSecondTapDown s2"
    "\<not> longPressFired s2" "twoFingerTapDetected s2" "\<not> twoFingerMoved s2"
    "twoFingerStartTime s2 = now e0" "nextTimerId s2 = nextTimerId s" "longPressTimer s2 = None"
    using h by (simp_all add: s2_def s1_def twoFingerDown_def cancelLongPress_eq cancelDragHold_eq)
  define s' where "s' = (snd (setTimeout (CbButtonUp RightButton) 50 e1 (cancelLongPress s2)))
       \<lparr> relTouchStart := None, touchStartPos := None, twoFingerTapDetected := False,
         scrollAnchor := None \<rparr>"
  have en: "mouse_handleTouchEnd e1 [] changed s2 = (s', [MouseButton RightButton True])"
    unfolding s'_def using two_finger_tap_end [of s2 e1 changed] f2 h by simp
  have run: "mouse_run ((e0, MTouchStart [a, b]) # twoFingerMoves ms @ [(e1, MTouchEnd [] changed)]) s
             = Some (s', [MouseButton RightButton True])"
    using st mv en by (simp add: mouse_run_append)
  have tm: "(nextTimerId s, now e1 + 50, CbButtonUp RightButton) \<in> set (timers s')"
    using f2 by (simp add: s'_def setTimeout_def cancelLongPress_eq)
  show "\<exists>s'. mouse_run ((e0, MTouchStart [a, b]) # twoFingerMoves ms @ [(e1, MTouchEnd [] changed)]) s
             = Some (s', [MouseButton RightButton True]) \<and>
          (nextTimerId s, now e1 + 50, CbButtonUp RightButton) \<in> set (timers s') \<and>
          (\<forall>e2. runCallback (CbButtonUp RightButton) e2 s' = (s', [MouseButton RightButton False]))"
    using run tm by auto
next
  assume h: "mouse_run ((e0, MTouchStart [a, b]) # twoFingerMoves ms @ [(e1, MTouchEnd ts changed)]) s
      = Some (x, out) \<and> (\<exists>vx vy. MouseWheel vx vy \<in> set out)"
  then obtain s1 o1 s2 o2 o3 where
    st: "mouse_handleTouchStart e0 [a, b] s = Some (s1, o1)" and
    mv: "mouse_run (twoFingerMoves ms) s1 = Some (s2, o2)" and
    en: "mouse_handleTouchEnd e1 ts changed s2 = (x, o3)" and
    out: "out = o1 @ o2 @ o3"
    by (auto simp: mouse_run_append split: option.splits prod.splits)
  note a1 = start_out [OF st]
  note a2 = two_finger_moves_out [OF mv]
  note a3 = touch_end_out [OF en]
  from h obtain vx vy where w: "MouseWheel vx vy \<in> set out" by blast
  have "MouseWheel vx vy \<in> set o2" using w a1 a3 unfolding out by auto
  then have "o2 \<noteq> []" by auto
  then have "\<not> twoFingerTapDetected s2" using a2 by simp
  then have "\<forall>st. MouseButton RightButton st \<notin> set o3" using a3 by simp
  then show "\<forall>st. MouseButton RightButton st \<notin> set out" using a1 a2 unfolding out by auto
qed

lemma zoom_idle [simp]:
  "\<not> isPanning zoom_init" "\<not> isPinching zoom_init" "\<not> zoomed zoom_init"
  "\<not> isPanning two_fingers_100" "\<not> isPinching two_fingers_100" "\<not> zoomed two_fingers_100"
  by (simp_all add: two_fingers_100_eq zoom_init_def)

lemma zoom_after_end:
  "fst (zoom_handleTouchEnd page_4k ts two_fingers_100) =
     (if length ts < 2 then zoom_init\<lparr> pinchStartDist := 100, undecidedMidX := 50 \<rparr> else two_fingers_100)"
  by (simp add: two_fingers_100_eq zoom_init_def zoom_handleTouchEnd_def Let_def)

lemmas mouse_eval2 = mouse_eval fireTimer_def relativeMove_def relDelta_def js_floor_def
  checkMoved_def isSecondTap_def wheelStep_def zoom_after_end

text \<open>
  A run in which the two fingers lift one after the other: the first finger lands at
  1000 ms, the second at 1010 ms, one lifts at 1100 ms and the other at 1110 ms.
\<close>

lemma staggered_first_down:
  "mouse_handleTouchStart (env_zoom 1000 zoom_init) [touch_at 0 0] (mouse_init\<lparr> mode := Relative \<rparr>) =
   Some (mouse_init\<lparr> mode := Relative, touchStartTime := 1000,
           touchStartPos := Some \<lparr> pos_x = 0, pos_y = 0 \<rparr>,
           relTouchStart := Some \<lparr> pos_x = 0, pos_y = 0 \<rparr>, longPressTimer := Some 1,
           timers := [(1, 1500, CbLongPress)], nextTimerId := 2 \<rparr>, [])"
  by (simp add: mouse_eval2)

lemma staggered_second_down:
  "mouse_handleTouchStart (env_zoom 1010 two_fingers_100) [touch_at 0 0, touch_at 100 0]
     (mouse_init\<lparr> mode := Relative, touchStartTime := 1000,
           touchStartPos := Some \<lparr> pos_x = 0, pos_y = 0 \<rparr>,
           relTouchStart := Some \<lparr> pos_x = 0, pos_y = 0 \<rparr>, longPressTimer := Some 1,
           timers := [(1, 1500, CbLongPress)], nextTimerId := 2 \<rparr>) =
   Some (mouse_init\<lparr> mode := Relative, touchStartTime := 1000,
           touchStartPos := Some \<lparr> pos_x = 0, pos_y = 0 \<rparr>,
           relTouchStart := Some \<lparr> pos_x = 0, pos_y = 0 \<rparr>, nextTimerId := 2,
           twoFingerStartTime := 1010, twoFingerTapDetected := True,
           scrollAnchor := Some \<lparr> pos_x = 50, pos_y = 0 \<rparr> \<rparr>, [])"
  by (simp add: mouse_eval2)

lemma staggered_first_up:
  "mouse_handleTouchEnd (env_zoom 1100 (fst (zoom_handleTouchEnd page_4k [touch_at 100 0] two_fingers_100)))
     [touch_at 100 0] [touch_at 0 0]
     (mouse_init\<lparr> mode := Relative, touchStartTime := 1000,
           touchStartPos := Some \<lparr> pos_x = 0, pos_y = 0 \<rparr>,
           relTouchStart := Some \<lparr> pos_x = 0, pos_y = 0 \<rparr>, nextTimerId := 2,
           twoFingerStartTime := 1010, twoFingerTapDetected := True,
           scrollAnchor := Some \<lparr> pos_x = 50, pos_y = 0 \<rparr> \<rparr>) =
   (mouse_init\<lparr> mode := Relative, touchStartTime := 1000,
           touchStartPos := Some \<lparr> pos_x = 0, pos_y = 0 \<rparr>,
           relTouchStart := Some \<lparr> pos_x = 0, pos_y = 0 \<rparr>, nextTimerId := 2,
           twoFingerStartTime := 1010 \<rparr>, [])"
  by (simp add: mouse_eval2)

lemma staggered_second_up:
  "mouse_handleTouchEnd (env_zoom 1110 (zoom_init\<lparr> pinchStartDist := 100, undecidedMidX := 50 \<rparr>))
     [] [touch_at 100 0]
     (mouse_init\<lparr> mode := Relative, touchStartTime := 1000,
           touchStartPos := Some \<lparr> pos_x = 0, pos_y = 0 \<rparr>,
           relTouchStart := Some \<lparr> pos_x = 0, pos_y = 0 \<rparr>, nextTimerId := 2,
           twoFingerStartTime := 1010 \<rparr>) =
   (mouse_init\<lparr> mode := Relative, touchStartTime := 1000, twoFingerStartTime := 1010,
           lastTapTime := 1110, lastTapPos := Some \<lparr> pos_x = 0, pos_y = 0 \<rparr>,
           singleTapTimer := Some 2, timers := [(2, 1410, CbSingleTap)], nextTimerId := 3 \<rparr>, [])"
  by (simp add: mouse_eval2 zoom_init_def)

lemma staggered_release:
  "mouse_run
     [(env_zoom 1000 zoom_init, MTouchStart [touch_at 0 0]),
      (env_zoom 1010 two_fingers_100, MTouchStart [touch_at 0 0, touch_at 100 0]),
      (env_zoom 1100 (fst (zoom_handleTouchEnd page_4k [touch_at 100 0] two_fingers_100)),
       MTouchEnd [touch_at 100 0] [touch_at 0 0]),
      (env_zoom 1110 (zoom_init\<lparr> pinchStartDist := 100, undecidedMidX := 50 \<rparr>),
       MTouchEnd [] [touch_at 100 0])]
     (mouse_init\<lparr> mode := Relative \<rparr>) =
   Some (mouse_init\<lparr> mode := Relative, touchStartTime := 1000, twoFingerStartTime := 1010,
           lastTapTime := 1110, lastTapPos := Some \<lparr> pos_x = 0, pos_y = 0 \<rparr>,
           singleTapTimer := Some 2, timers := [(2, 1410, CbSingleTap)], nextTimerId := 3 \<rparr>, [])"
  by (simp only: mouse_run.simps mouse_step.simps staggered_first_down staggered_second_down staggered_first_up staggered_second_up option.case prod.case
      append_Nil)

text \<open>
  A run in which the first finger rests until its long press fires (the right click of the
  long press, at 1500 ms), the second finger lands at 2000 ms and both lift at 2100 ms.
\<close>

lemma long_press_fires:
  "fireTimer (env_zoom 1500 zoom_init) 1
     (mouse_init\<lparr> mode := Relative, touchStartTime := 1000,
           touchStartPos := Some \<lparr> pos_x = 0, pos_y = 0 \<rparr>,
           relTouchStart := Some \<lparr> pos_x = 0, pos_y = 0 \<rparr>, longPressTimer := Some 1,
           timers := [(1, 1500, CbLongPress)], nextTimerId := 2 \<rparr>) =
   (mouse_init\<lparr> mode := Relative, touchStartTime := 1000,
           touchStartPos := Some \<lparr> pos_x = 0, pos_y = 0 \<rparr>,
           relTouchStart := Some \<lparr> pos_x = 0, pos_y = 0 \<rparr>, longPressTimer := Some 1,
           longPressFired := True,
           timers := [(2, 1550, CbButtonUp RightButton)], nextTimerId := 3 \<rparr>,
    [MouseButton RightButton True])"
  by (simp add: mouse_eval2)

lemma long_press_releases:
  "fireTimer (env_zoom 1550 zoom_init) 2
     (mouse_init\<lparr> mode := Relative, touchStartTime := 1000,
           touchStartPos := Some \<lparr> pos_x = 0, pos_y = 0 \<rparr>,
           relTouchStart := Some \<lparr> pos_x = 0, pos_y = 0 \<rparr>, longPressTimer := Some 1,
           longPressFired := True,
           timers := [(2, 1550, CbButtonUp RightButton)], nextTimerId := 3 \<rparr>) =
   (mouse_init\<lparr> mode := Relative, touchStartTime := 1000,
           touchStartPos := Some \<lparr> pos_x = 0, pos_y = 0 \<rparr>,
           relTouchStart := Some \<lparr> pos_x = 0, pos_y = 0 \<rparr>, longPressTimer := Some 1,
           longPressFired := True, nextTimerId := 3 \<rparr>,
    [MouseButton RightButton False])"
  by (simp add: mouse_eval2)

lemma tap_after_long_press_down:
  "mouse_handleTouchStart (env_zoom 2000 two_fingers_100) [touch_at 0 0, touch_at 100 0]
     (mouse_init\<lparr> mode := Relative, touchStartTime := 1000,
           touchStartPos := Some \<lparr> pos_x = 0, pos_y = 0 \<rparr>,
           relTouchStart := Some \<lparr> pos_x = 0, pos_y = 0 \<rparr>, longPressTimer := Some 1,
           longPressFired := True, nextTimerId := 3 \<rparr>) =
   Some (mouse_init\<lparr> mode := Relative, touchStartTime := 1000,
           touchStartPos := Some \<lparr> pos_x = 0, pos_y = 0 \<rparr>,
           relTouchStart := Some \<lparr> pos_x = 0, pos_y = 0 \<rparr>,
           longPressFired := True, nextTimerId := 3,
           twoFingerStartTime := 2000, twoFingerTapDetected := True,
           scrollAnchor := Some \<lparr> pos_x = 50, pos_y = 0 \<rparr> \<rparr>, [])"
  by (simp add: mouse_eval2)

lemma tap_after_long_press_up:
  "mouse_handleTouchEnd (env_zoom 2100 (fst (zoom_handleTouchEnd page_4k [] two_fingers_100)))
     [] [touch_at 0 0, touch_at 100 0]
     (mouse_init\<lparr> mode := Relative, touchStartTime := 1000,
           touchStartPos := Some \<lparr> pos_x = 0, pos_y = 0 \<rparr>,
           relTouchStart := Some \<lparr> pos_x = 0, pos_y = 0 \<rparr>,
           longPressFired := True, nextTimerId := 3,
           twoFingerStartTime := 2000, twoFingerTapDetected := True,
           scrollAnchor := Some \<lparr> pos_x = 50, pos_y = 0 \<rparr> \<rparr>) =
   (mouse_init\<lparr> mode := Relative, touchStartTime := 1000,
           longPressFired := True, nextTimerId := 3, twoFingerStartTime := 2000 \<rparr>, [])"
  by (simp add: mouse_eval2)

lemma long_press_then_tap:
  "mouse_run
     [(env_zoom 1000 zoom_init, MTouchStart [touch_at 0 0]),
      (env_zoom 1500 zoom_init, MTimer 1),
      (env_zoom 1550 zoom_init, MTimer 2),
      (env_zoom 2000 two_fingers_100, MTouchStart [touch_at 0 0, touch_at 100 0]),
      (env_zoom 2100 (fst (zoom_handleTouchEnd page_4k [] two_fingers_100)),
       MTouchEnd [] [touch_at 0 0, touch_at 100 0])]
     (mouse_init\<lparr> mode := Relative \<rparr>) =
   Some (mouse_init\<lparr> mode := Relative, touchStartTime := 1000,
           longPressFired := True, nextTimerId := 3, twoFingerStartTime := 2000 \<rparr>,
         [MouseButton RightButton True, MouseButton RightButton False])"
  by (simp only: mouse_run.simps mouse_step.simps staggered_first_down long_press_fires long_press_releases tap_after_long_press_down tap_after_long_press_up option.case prod.case
      append_Nil append_Cons append_Nil2)

lemma scroll_move:
  "mouse_handleTouchMove
     (env_zoom 1050 (zoom_init\<lparr> pinchStartDist := 100, undecidedMidX := 50, isScroll := True \<rparr>))
     [touch_at 0 30, touch_at 100 30]
     (mouse_init\<lparr> mode := Relative, twoFingerStartTime := 1000, twoFingerTapDetected := True,
                       scrollAnchor := Some \<lparr> pos_x = 50, pos_y = 0 \<rparr> \<rparr>) =
   Some (mouse_init\<lparr> mode := Relative, twoFingerStartTime := 1000, twoFingerMoved := True,
                       scrollAnchor := Some \<lparr> pos_x = 50, pos_y = 30 \<rparr> \<rparr>, [MouseWheel 0 2])"
  by (simp add: mouse_eval2 zoom_init_def)

lemma scroll_end:
  "mouse_handleTouchEnd (env_zoom 1100 (fst (zoom_handleTouchEnd page_4k [] two_fingers_100)))
     [] [touch_at 0 30, touch_at 100 30]
     (mouse_init\<lparr> mode := Relative, twoFingerStartTime := 1000, twoFingerMoved := True,
                       scrollAnchor := Some \<lparr> pos_x = 50, pos_y = 30 \<rparr> \<rparr>) =
   (mouse_init\<lparr> mode := Relative, twoFingerStartTime := 1000, twoFingerMoved := True \<rparr>, [])"
  by (simp add: mouse_eval2 zoom_init_def)

lemma scroll_sequence:
  "mouse_run
     ((env_zoom 1000 two_fingers_100, MTouchStart [touch_at 0 0, touch_at 100 0]) #
      twoFingerMoves
        [(env_zoom 1050 (zoom_init\<lparr> pinchStartDist := 100, undecidedMidX := 50, isScroll := True \<rparr>),
          touch_at 0 30, touch_at 100 30)] @
      [(env_zoom 1100 (fst (zoom_handleTouchEnd page_4k [] two_fingers_100)),
        MTouchEnd [] [touch_at 0 30, touch_at 100 30])])
     (mouse_init\<lparr> mode := Relative \<rparr>) =
   Some (mouse_init\<lparr> mode := Relative, twoFingerStartTime := 1000, twoFingerMoved := True \<rparr>,
         [MouseWheel 0 2])"
  by (simp only: twoFingerMoves.simps append_Cons append_Nil mouse_run.simps mouse_step.simps
      tap_start scroll_move scroll_end option.case prod.case append_Nil2)

text \<open>
  In relative mode two fingers land 100 px apart, drift by 2 px and lift together after
  100 ms: the press of the right button is emitted and timer 1 holds its release. The same
  fingers moving 30 px down scroll (one wheel event), and no right button event is emitted.
\<close>

lemma two_finger_tap_right_click_example:
  "enabled (mouse_init\<lparr> mode := Relative \<rparr>) \<and> mode (mouse_init\<lparr> mode := Relative \<rparr>) = Relative \<and>
   \<not> isDragging (mouse_init\<lparr> mode := Relative \<rparr>) \<and>
   \<not> longPressFired (mouse_init\<lparr> mode := Relative \<rparr>) \<and>
   \<not> isZoomGesture (env_zoom 1000 two_fingers_100) \<and>
   \<not> isZoomGesture (env_zoom 1100 (fst (zoom_handleTouchEnd page_4k [] two_fingers_100))) \<and>
   \<not> isZoomGesture (env_zoom 1050 two_fingers_100) \<and>
   withinDeadZone (getMidpoint (touch_at 0 0) (touch_at 100 0)) (touch_at 2 0) (touch_at 102 0) \<and>
   now (env_zoom 1100 (fst (zoom_handleTouchEnd page_4k [] two_fingers_100)))
     - now (env_zoom 1000 two_fingers_100) < TAP_MAX_DURATION \<and>
   (\<exists>s'. mouse_run
       ((env_zoom 1000 two_fingers_100, MTouchStart [touch_at 0 0, touch_at 100 0]) #
        twoFingerMoves [(env_zoom 1050 two_fingers_100, touch_at 2 0, touch_at 102 0)] @
        [(env_zoom 1100 (fst (zoom_handleTouchEnd page_4k [] two_fingers_100)),
          MTouchEnd [] [touch_at 2 0, touch_at 102 0])])
       (mouse_init\<lparr> mode := Relative \<rparr>) = Some (s', [MouseButton RightButton True]) \<and>
     (1, 1150, CbButtonUp RightButton) \<in> set (timers s')) \<and>
   mouse_run
     ((env_zoom 1000 two_fingers_100, MTouchStart [touch_at 0 0, touch_at 100 0]) #
      twoFingerMoves
        [(env_zoom 1050 (zoom_init\<lparr> pinchStartDist := 100, undecidedMidX := 50, isScroll := True \<rparr>),
          touch_at 0 30, touch_at 100 30)] @
      [(env_zoom 1100 (fst (zoom_handleTouchEnd page_4k [] two_fingers_100)),
        MTouchEnd [] [touch_at 0 30, touch_at 100 30])])
     (mouse_init\<lparr> mode := Relative \<rparr>) =
   Some (mouse_init\<lparr> mode := Relative, twoFingerStartTime := 1000, twoFingerMoved := True \<rparr>,
         [MouseWheel 0 2]) \<and>
   MouseButton RightButton True \<notin> set [MouseWheel 0 2]"
proof -
  let ?s = "mouse_init\<lparr> mode := Relative \<rparr>"
  let ?e0 = "env_zoom 1000 two_fingers_100"
  let ?e1 = "env_zoom 1100 (fst (zoom_handleTouchEnd page_4k [] two_fingers_100))"
  let ?ms = "[(env_zoom 1050 two_fingers_100, touch_at 2 0, touch_at 102 0)]"
  have h1: "enabled ?s" "mode ?s = Relative" "\<not> isDragging ?s" "\<not> longPressFired ?s"
    by (simp_all add: mouse_init_def)
  have h2: "\<not> isZoomGesture ?e0" "\<not> isZoomGesture ?e1" "\<not> isZoomGesture (env_zoom 1050 two_fingers_100)"
    by (simp_all add: isZoomGesture_def env_zoom_def zoom_after_end zoom_init_def)
  have h3: "withinDeadZone (getMidpoint (touch_at 0 0) (touch_at 100 0)) (touch_at 2 0) (touch_at 102 0)"
    by (simp add: withinDeadZone_def getMidpoint_def)
  have h4: "now ?e1 - now ?e0 < TAP_MAX_DURATION"
    by (simp add: env_zoom_def TAP_MAX_DURATION_def)
  have h5: "\<forall>m \<in> set ?ms. case m of (e, t0, t1) \<Rightarrow>
        \<not> isZoomGesture e \<and> withinDeadZone (getMidpoint (touch_at 0 0) (touch_at 100 0)) t0 t1"
    using h2 h3 by simp
  have n: "nextTimerId ?s = 1" "now ?e1 + 50 = 1150" by (simp_all add: mouse_init_def env_zoom_def)
  have A: "\<exists>s'. mouse_run ((?e0, MTouchStart [touch_at 0 0, touch_at 100 0]) # twoFingerMoves ?ms @
        [(?e1, MTouchEnd [] [touch_at 2 0, touch_at 102 0])]) ?s = Some (s', [MouseButton RightButton True]) \<and>
     (1, 1150, CbButtonUp RightButton) \<in> set (timers s')"
    using two_finger_tap_right_click
      [where s = ?s and ?e0.0 = ?e0 and ?e1.0 = ?e1 and ms = ?ms and a = "touch_at 0 0"
         and b = "touch_at 100 0" and changed = "[touch_at 2 0, touch_at 102 0]"]
      h1 h2 h4 h5 unfolding n by blast
  have B: "MouseButton RightButton True \<notin> set [MouseWheel 0 2]"
    using two_finger_tap_right_click
      [where s = ?s and ?e0.0 = ?e0 and ?e1.0 = ?e1
         and ms = "[(env_zoom 1050 (zoom_init\<lparr> pinchStartDist := 100, undecidedMidX := 50, isScroll := True \<rparr>),
          touch_at 0 30, touch_at 100 30)]"
         and a = "touch_at 0 0" and b = "touch_at 100 0" and ts = "[]"
         and changed = "[touch_at 0 30, touch_at 100 30]"
         and x = "mouse_init\<lparr> mode := Relative, twoFingerStartTime := 1000, twoFingerMoved := True \<rparr>"
         and out = "[MouseWheel 0 2]"]
      scroll_sequence by simp
  show ?thesis using h1 h2 h3 h4 A scroll_sequence B by blast
qed

text \<open>
  What the deferred click of the staggered release does when its timers fire, and two more
  two-finger runs: both fingers land together and lift one after the other; and the first
  finger lands at 1000 ms, the second at 1010 ms, both move 30 px down at 1050 ms (a
  scroll) and lift together at 1100 ms.
\<close>

lemma staggered_click_down:
  "fireTimer (env_zoom 1410 (zoom_init\<lparr> pinchStartDist := 100, undecidedMidX := 50 \<rparr>)) 2
     (mouse_init\<lparr> mode := Relative, touchStartTime := 1000, twoFingerStartTime := 1010, lastTapTime := 1110, lastTapPos := Some \<lparr> pos_x = 0, pos_y = 0 \<rparr>, singleTapTimer := Some 2, timers := [(2, 1410, CbSingleTap)], nextTimerId := 3 \<rparr>) =
   (mouse_init\<lparr> mode := Relative, touchStartTime := 1000, twoFingerStartTime := 1010, timers := [(3, 1460, CbButtonUp LeftButton)], nextTimerId := 4 \<rparr>,
    [MouseButton LeftButton True])"
  by (simp add: mouse_eval2 zoom_init_def)

lemma staggered_click_up:
  "fireTimer (env_zoom 1460 (zoom_init\<lparr> pinchStartDist := 100, undecidedMidX := 50 \<rparr>)) 3
     (mouse_init\<lparr> mode := Relative, touchStartTime := 1000, twoFingerStartTime := 1010, timers := [(3, 1460, CbButtonUp LeftButton)], nextTimerId := 4 \<rparr>) =
   (mouse_init\<lparr> mode := Relative, touchStartTime := 1000, twoFingerStartTime := 1010, nextTimerId := 4 \<rparr>,
    [MouseButton LeftButton False])"
  by (simp add: mouse_eval2 zoom_init_def)

lemma together_first_up:
  "mouse_handleTouchEnd (env_zoom 1100 (fst (zoom_handleTouchEnd page_4k [touch_at 100 0] two_fingers_100))) [touch_at 100 0] [touch_at 0 0]
     (mouse_init\<lparr> mode := Relative, twoFingerStartTime := 1000, twoFingerTapDetected := True, scrollAnchor := Some \<lparr> pos_x = 50, pos_y = 0 \<rparr> \<rparr>) =
   (mouse_init\<lparr> mode := Relative, twoFingerStartTime := 1000 \<rparr>,
    [])"
  by (simp add: mouse_eval2 zoom_init_def)

lemma together_second_up:
  "mouse_handleTouchEnd (env_zoom 1110 (zoom_init\<lparr> pinchStartDist := 100, undecidedMidX := 50 \<rparr>)) [] [touch_at 100 0]
     (mouse_init\<lparr> mode := Relative, twoFingerStartTime := 1000 \<rparr>) =
   (mouse_init\<lparr> mode := Relative, twoFingerStartTime := 1000 \<rparr>,
    [])"
  by (simp add: mouse_eval2 zoom_init_def)

lemma quick_scroll_move:
  "mouse_handleTouchMove (env_zoom 1050 (zoom_init\<lparr> pinchStartDist := 100, undecidedMidX := 50, isScroll := True \<rparr>)) [touch_at 0 30, touch_at 100 30]
     (mouse_init\<lparr> mode := Relative, touchStartTime := 1000, touchStartPos := Some \<lparr> pos_x = 0, pos_y = 0 \<rparr>, relTouchStart := Some \<lparr> pos_x = 0, pos_y = 0 \<rparr>, nextTimerId := 2, twoFingerStartTime := 1010, twoFingerTapDetected := True, scrollAnchor := Some \<lparr> pos_x = 50, pos_y = 0 \<rparr> \<rparr>) =
   Some (mouse_init\<lparr> mode := Relative, touchStartTime := 1000, touchStartPos := Some \<lparr> pos_x = 0, pos_y = 0 \<rparr>, relTouchStart := Some \<lparr> pos_x = 0, pos_y = 0 \<rparr>, nextTimerId := 2, twoFingerStartTime := 1010, twoFingerMoved := True, scrollAnchor := Some \<lparr> pos_x = 50, pos_y = 30 \<rparr> \<rparr>,
         [MouseWheel 0 2])"
  by (simp add: mouse_eval2 zoom_init_def)

lemma quick_scroll_up:
  "mouse_handleTouchEnd (env_zoom 1100 (zoom_init\<lparr> pinchStartDist := 100, undecidedMidX := 50 \<rparr>)) [] [touch_at 0 30, touch_at 100 30]
     (mouse_init\<lparr> mode := Relative, touchStartTime := 1000, touchStartPos := Some \<lparr> pos_x = 0, pos_y = 0 \<rparr>, relTouchStart := Some \<lparr> pos_x = 0, pos_y = 0 \<rparr>, nextTimerId := 2, twoFingerStartTime := 1010, twoFingerMoved := True, scrollAnchor := Some \<lparr> pos_x = 50, pos_y = 30 \<rparr> \<rparr>) =
   (mouse_init\<lparr> mode := Relative, touchStartTime := 1000, twoFingerStartTime := 1010, twoFingerMoved := True, lastTapTime := 1100, lastTapPos := Some \<lparr> pos_x = 0, pos_y = 0 \<rparr>, singleTapTimer := Some 2, timers := [(2, 1400, CbSingleTap)], nextTimerId := 3 \<rparr>,
    [])"
  by (simp add: mouse_eval2 zoom_init_def)

lemma quick_scroll_click_down:
  "fireTimer (env_zoom 1400 (zoom_init\<lparr> pinchStartDist := 100, undecidedMidX := 50 \<rparr>)) 2
     (mouse_init\<lparr> mode := Relative, touchStartTime := 1000, twoFingerStartTime := 1010, twoFingerMoved := True, lastTapTime := 1100, lastTapPos := Some \<lparr> pos_x = 0, pos_y = 0 \<rparr>, singleTapTimer := Some 2, timers := [(2, 1400, CbSingleTap)], nextTimerId := 3 \<rparr>) =
   (mouse_init\<lparr> mode := Relative, touchStartTime := 1000, twoFingerStartTime := 1010, twoFingerMoved := True, timers := [(3, 1450, CbButtonUp LeftButton)], nextTimerId := 4 \<rparr>,
    [MouseButton LeftButton True])"
  by (simp add: mouse_eval2 zoom_init_def)

lemma quick_scroll_click_up:
  "fireTimer (env_zoom 1450 (zoom_init\<lparr> pinchStartDist := 100, undecidedMidX := 50 \<rparr>)) 3
     (mouse_init\<lparr> mode := Relative, touchStartTime := 1000, twoFingerStartTime := 1010, twoFingerMoved := True, timers := [(3, 1450, CbButtonUp LeftButton)], nextTimerId := 4 \<rparr>) =
   (mouse_init\<lparr> mode := Relative, touchStartTime := 1000, twoFingerStartTime := 1010, twoFingerMoved := True, nextTimerId := 4 \<rparr>,
    [MouseButton LeftButton False])"
  by (simp add: mouse_eval2 zoom_init_def)

text \<open>
  C5. A two-finger tap in relative mode whose midpoint never moves and whose fingers are
  released within 200 ms should emit one right-click pulse, and a two-finger sequence that
  scrolls should emit no click. The handler does neither when the last touch end fails its
  two-finger test and falls through to the single-tap test. The first finger lands at
  1000 ms, the second at 1010 ms, no finger moves, one lifts at 1100 ms and the other at
  1110 ms: no event of the right button is emitted, and the deferred single tap fires a
  left click (press at 1410 ms, release at 1460 ms). When the two fingers land together and
  lift one after the other, nothing is emitted at all. And the two-finger scroll that ends
  100 ms after the first finger landed emits its wheel event and then a left click (press
  at 1400 ms, release at 1450 ms).
\<close>

theorem staggered_two_finger_tap_left_click:
  "mouse_run
     [(env_zoom 1000 zoom_init, MTouchStart [touch_at 0 0]),
      (env_zoom 1010 two_fingers_100, MTouchStart [touch_at 0 0, touch_at 100 0]),
      (env_zoom 1100 (fst (zoom_handleTouchEnd page_4k [touch_at 100 0] two_fingers_100)), MTouchEnd [touch_at 100 0] [touch_at 0 0]),
      (env_zoom 1110 (zoom_init\<lparr> pinchStartDist := 100, undecidedMidX := 50 \<rparr>), MTouchEnd [] [touch_at 100 0]),
      (env_zoom 1410 (zoom_init\<lparr> pinchStartDist := 100, undecidedMidX := 50 \<rparr>), MTimer 2),
      (env_zoom 1460 (zoom_init\<lparr> pinchStartDist := 100, undecidedMidX := 50 \<rparr>), MTimer 3)]
     (mouse_init\<lparr> mode := Relative \<rparr>) =
   Some (mouse_init\<lparr> mode := Relative, touchStartTime := 1000, twoFingerStartTime := 1010, nextTimerId := 4 \<rparr>,
         [MouseButton LeftButton True, MouseButton LeftButton False]) \<and>
   mouse_run
     [(env_zoom 1000 two_fingers_100, MTouchStart [touch_at 0 0, touch_at 100 0]),
      (env_zoom 1100 (fst (zoom_handleTouchEnd page_4k [touch_at 100 0] two_fingers_100)), MTouchEnd [touch_at 100 0] [touch_at 0 0]),
      (env_zoom 1110 (zoom_init\<lparr> pinchStartDist := 100, undecidedMidX := 50 \<rparr>), MTouchEnd [] [touch_at 100 0])]
     (mouse_init\<lparr> mode := Relative \<rparr>) =
   Some (mouse_init\<lparr> mode := Relative, twoFingerStartTime := 1000 \<rparr>,
         []) \<and>
   mouse_run
     [(env_zoom 1000 zoom_init, MTouchStart [touch_at 0 0]),
      (env_zoom 1010 two_fingers_100, MTouchStart [touch_at 0 0, touch_at 100 0]),
      (env_zoom 1050 (zoom_init\<lparr> pinchStartDist := 100, undecidedMidX := 50, isScroll := True \<rparr>), MTouchMove [touch_at 0 30, touch_at 100 30]),
      (env_zoom 1100 (zoom_init\<lparr> pinchStartDist := 100, undecidedMidX := 50 \<rparr>), MTouchEnd [] [touch_at 0 30, touch_at 100 30]),
      (env_zoom 1400 (zoom_init\<lparr> pinchStartDist := 100, undecidedMidX := 50 \<rparr>), MTimer 2),
      (env_zoom 1450 (zoom_init\<lparr> pinchStartDist := 100, undecidedMidX := 50 \<rparr>), MTimer 3)]
     (mouse_init\<lparr> mode := Relative \<rparr>) =
   Some (mouse_init\<lparr> mode := Relative, touchStartTime := 1000, twoFingerStartTime := 1010, twoFingerMoved := True, nextTimerId := 4 \<rparr>,
         [MouseWheel 0 2, MouseButton LeftButton True, MouseButton LeftButton False])"
proof (intro conjI)
  show "mouse_run
     [(env_zoom 1000 zoom_init, MTouchStart [touch_at 0 0]),
      (env_zoom 1010 two_fingers_100, MTouchStart [touch_at 0 0, touch_at 100 0]),
      (env_zoom 1100 (fst (zoom_handleTouchEnd page_4k [touch_at 100 0] two_fingers_100)), MTouchEnd [touch_at 100 0] [touch_at 0 0]),
      (env_zoom 1110 (zoom_init\<lparr> pinchStartDist := 100, undecidedMidX := 50 \<rparr>), MTouchEnd [] [touch_at 100 0]),
      (env_zoom 1410 (zoom_init\<lparr> pinchStartDist := 100, undecidedMidX := 50 \<rparr>), MTimer 2),
      (env_zoom 1460 (zoom_init\<lparr> pinchStartDist := 100, undecidedMidX := 50 \<rparr>), MTimer 3)]
     (mouse_init\<lparr> mode := Relative \<rparr>) =
   Some (mouse_init\<lparr> mode := Relative, touchStartTime := 1000, twoFingerStartTime := 1010, nextTimerId := 4 \<rparr>,
         [MouseButton LeftButton True, MouseButton LeftButton False])"
    by (simp only: mouse_run.simps mouse_step.simps staggered_first_down staggered_second_down
        staggered_first_up staggered_second_up staggered_click_down staggered_click_up
        option.case prod.case append_Nil append_Cons)
  show "mouse_run
     [(env_zoom 1000 two_fingers_100, MTouchStart [touch_at 0 0, touch_at 100 0]),
      (env_zoom 1100 (fst (zoom_handleTouchEnd page_4k [touch_at 100 0] two_fingers_100)), MTouchEnd [touch_at 100 0] [touch_at 0 0]),
      (env_zoom 1110 (zoom_init\<lparr> pinchStartDist := 100, undecidedMidX := 50 \<rparr>), MTouchEnd [] [touch_at 100 0])]
     (mouse_init\<lparr> mode := Relative \<rparr>) =
   Some (mouse_init\<lparr> mode := Relative, twoFingerStartTime := 1000 \<rparr>,
         [])"
    by (simp only: mouse_run.simps mouse_step.simps tap_start together_first_up together_second_up
        option.case prod.case append_Nil)
  show "mouse_run
     [(env_zoom 1000 zoom_init, MTouchStart [touch_at 0 0]),
      (env_zoom 1010 two_fingers_100, MTouchStart [touch_at 0 0, touch_at 100 0]),
      (env_zoom 1050 (zoom_init\<lparr> pinchStartDist := 100, undecidedMidX := 50, isScroll := True \<rparr>), MTouchMove [touch_at 0 30, touch_at 100 30]),
      (env_zoom 1100 (zoom_init\<lparr> pinchStartDist := 100, undecidedMidX := 50 \<rparr>), MTouchEnd [] [touch_at 0 30, touch_at 100 30]),
      (env_zoom 1400 (zoom_init\<lparr> pinchStartDist := 100, undecidedMidX := 50 \<rparr>), MTimer 2),
      (env_zoom 1450 (zoom_init\<lparr> pinchStartDist := 100, undecidedMidX := 50 \<rparr>), MTimer 3)]
     (mouse_init\<lparr> mode := Relative \<rparr>) =
   Some (mouse_init\<lparr> mode := Relative, touchStartTime := 1000, twoFingerStartTime := 1010, twoFingerMoved := True, nextTimerId := 4 \<rparr>,
         [MouseWheel 0 2, MouseButton LeftButton True, MouseButton LeftButton False])"
    by (simp only: mouse_run.simps mouse_step.simps staggered_first_down staggered_second_down
        quick_scroll_move quick_scroll_up quick_scroll_click_down quick_scroll_click_up
        option.case prod.case append_Nil append_Cons)
qed

section \<open>Single tap\<close>

lemma pointerOnly_refl: "pointerOnly d d"
  unfolding pointerOnly_def by (intro exI [of _ "absPos d"] exI [of _ "relTouchStart d"]) simp

lemma pointerOnly_abs: "pointerOnly d x \<Longrightarrow> pointerOnly d (x\<lparr> absPos := a \<rparr>)"
proof -
  assume "pointerOnly d x"
  then obtain a0 r0 where "x = d\<lparr> absPos := a0, relTouchStart := r0 \<rparr>"
    by (auto simp: pointerOnly_def)
  then have "x\<lparr> absPos := a \<rparr> = d\<lparr> absPos := a, relTouchStart := r0 \<rparr>" by simp
  then show ?thesis unfolding pointerOnly_def by blast
qed

lemma pointerOnly_rel: "pointerOnly d x \<Longrightarrow> pointerOnly d (x\<lparr> relTouchStart := r \<rparr>)"
proof -
  assume "pointerOnly d x"
  then obtain a0 r0 where "x = d\<lparr> absPos := a0, relTouchStart := r0 \<rparr>"
    by (auto simp: pointerOnly_def)
  then have "x\<lparr> relTouchStart := r \<rparr> = d\<lparr> absPos := a0, relTouchStart := r \<rparr>" by simp
  then show ?thesis unfolding pointerOnly_def by blast
qed

lemma first_contact:
  assumes "enabled s" "\<not> isZoomGesture e" "getTouchPos e t = Some p" "\<not> isSecondTap e p s"
  shows "\<exists>x out. mouse_handleTouchStart e [t] s = Some (x, out) \<and>
           pointerOnly (oneFingerDown e p s) x \<and> (\<forall>ev \<in> set out. \<exists>vx vy. ev = MouseMoveAbs vx vy)"
proof -
  let ?d = "oneFingerDown e p s"
  have s2: "isSecondTap e p (s\<lparr> touchStartTime := now e, touchStartPos := Some p,
                              touchMoved := False, longPressFired := False \<rparr>) = isSecondTap e p s"
    by (simp add: isSecondTap_def)
  have st: "mouse_handleTouchStart e [t] s = Some (placeTouch e p ?d)"
    using assms s2
    by (simp add: mouse_handleTouchStart_def oneFingerDown_def setTimeout_def clearTimeout_def Let_def
        split: option.splits)
  obtain x out where pt: "placeTouch e p ?d = (x, out)" by (cases "placeTouch e p ?d")
  have "pointerOnly ?d x \<and> (\<forall>ev \<in> set out. \<exists>vx vy. ev = MouseMoveAbs vx vy)"
  proof (cases "mode ?d = Absolute")
    case True
    then have sp: "sendPlannedMove e (?d\<lparr> absPos := Some p \<rparr>) = (x, out)"
      using pt by (simp add: placeTouch_def)
    from sendPlannedMove_out [OF sp] show ?thesis
      using pointerOnly_abs [OF pointerOnly_refl, of ?d] by auto
  next
    case False
    then have "x = ?d\<lparr> relTouchStart := Some p \<rparr>" "out = []"
      using pt by (simp_all add: placeTouch_def)
    then show ?thesis using pointerOnly_rel [OF pointerOnly_refl, of ?d] by simp
  qed
  then show ?thesis using st pt by simp
qed

lemma one_finger_move_still:
  assumes po: "pointerOnly d x" and d: "enabled d" "\<not> isDragging d" "touchStartPos d = Some p0"
    and e: "\<not> isZoomGesture e" "getTouchPos e t = Some p" "pos_distance p p0 \<le> TAP_MAX_DISTANCE"
  shows "\<exists>x' out. mouse_handleTouchMove e [t] x = Some (x', out) \<and> pointerOnly d x' \<and>
           (\<forall>ev \<in> set out. \<exists>dx dy. ev = MouseRelative dx dy)"
proof -
  obtain a r where x: "x = d\<lparr> absPos := a, relTouchStart := r \<rparr>" using po by (auto simp: pointerOnly_def)
  have cm: "checkMoved p x = (x, [])" using d e x by (simp add: checkMoved_def)
  have f: "enabled x" "\<not> isDragging x" using d x by simp_all
  show ?thesis
  proof (cases "mode x = Absolute")
    case True
    then have "mouse_handleTouchMove e [t] x = Some (x\<lparr> absPos := Some p \<rparr>, [])"
      using f e cm by (simp add: mouse_handleTouchMove_def Let_def)
    then show ?thesis using pointerOnly_abs [OF po] by simp
  next
    case False
    obtain x' out where rm: "relativeMove p x = (x', out)" by (cases "relativeMove p x")
    have mv: "mouse_handleTouchMove e [t] x = Some (x', out)"
      using f e cm rm False by (simp add: mouse_handleTouchMove_def Let_def)
    have "(x' = x \<or> x' = x\<lparr> relTouchStart := Some p \<rparr>) \<and>
          (\<forall>ev \<in> set out. \<exists>dx dy. ev = MouseRelative dx dy)"
      using rm by (auto simp: relativeMove_def Let_def split: option.splits if_splits)
    then show ?thesis using mv po pointerOnly_rel [OF po] by auto
  qed
qed

lemma still_one_finger_moves:
  assumes "pointerOnly d x" "enabled d" "\<not> isDragging d" "touchStartPos d = Some p0"
    "\<forall>m \<in> set ms. case m of (e, t) \<Rightarrow>
        \<not> isZoomGesture e \<and> (\<exists>p. getTouchPos e t = Some p \<and> pos_distance p p0 \<le> TAP_MAX_DISTANCE)"
  shows "\<exists>x' out. mouse_run (oneFingerMoves ms) x = Some (x', out) \<and> pointerOnly d x' \<and>
           (\<forall>ev \<in> set out. \<exists>dx dy. ev = MouseRelative dx dy)"
  using assms
proof (induction ms arbitrary: x)
  case Nil
  then show ?case by simp
next
  case (Cons m ms)
  obtain e t where m: "m = (e, t)" by (cases m)
  obtain p where p: "\<not> isZoomGesture e" "getTouchPos e t = Some p" "pos_distance p p0 \<le> TAP_MAX_DISTANCE"
    using Cons.prems(5) m by auto
  obtain x1 o1 where st: "mouse_handleTouchMove e [t] x = Some (x1, o1)" "pointerOnly d x1"
      "\<forall>ev \<in> set o1. \<exists>dx dy. ev = MouseRelative dx dy"
    using one_finger_move_still [OF Cons.prems(1,2,3,4) p] by blast
  obtain x2 o2 where rest: "mouse_run (oneFingerMoves ms) x1 = Some (x2, o2)" "pointerOnly d x2"
      "\<forall>ev \<in> set o2. \<exists>dx dy. ev = MouseRelative dx dy"
    using Cons.IH [OF st(2) Cons.prems(2,3,4)] Cons.prems(5) by auto
  show ?case using st rest m by auto
qed

lemma mode_cases: "mode s \<noteq> Absolute \<longleftrightarrow> mode s = Relative"
  by (cases "mode s") simp_all

lemma tap_release:
  assumes "enabled x" "\<not> isZoomGesture e" "\<not> isDragging x" "\<not> isSecondTapDown x"
    "\<not> longPressFired x" "\<not> touchMoved x" "now e - touchStartTime x < TAP_MAX_DURATION"
    "touchStartPos x = Some p0" "length changed \<ge> 1"
    "mode x = Relative \<longrightarrow> \<not> (twoFingerTapDetected x \<and> \<not> twoFingerMoved x)"
  shows "\<exists>s' out. mouse_handleTouchEnd e [] changed x = (s', out) \<and>
     (\<forall>ev \<in> set out. \<exists>vx vy. ev = MouseMoveAbs vx vy) \<and>
     lastTapTime s' = now e \<and> lastTapPos s' = Some p0 \<and> enabled s' \<and>
     (mode x = Absolute \<longrightarrow>
        singleTapTimer s' = singleTapTimer x \<and> timers s' = timers (cancelLongPress x) \<and>
        nextTimerId s' = nextTimerId x) \<and>
     (mode x = Relative \<longrightarrow>
        singleTapTimer s' = Some (nextTimerId x) \<and>
        timers s' = filter (\<lambda>t. Some (fst t) \<noteq> singleTapTimer x) (timers (cancelLongPress x))
                    @ [(nextTimerId x, now e + DOUBLE_TAP_WINDOW, CbSingleTap)] \<and>
        nextTimerId s' = Suc (nextTimerId x))"
proof -
  let ?c = "cancelLongPress x"
  obtain s2 o2 where sp: "sendPlannedMove e ?c = (s2, o2)" by (cases "sendPlannedMove e ?c")
  note so = sendPlannedMove_out [OF sp]
  have s2: "s2 = ?c \<or> s2 = ?c\<lparr> absPos := None \<rparr>" using so by simp
  have f: "\<not> isDragging s2" "\<not> isSecondTapDown s2" "\<not> longPressFired s2" "\<not> touchMoved s2"
    "touchStartTime s2 = touchStartTime x" "touchStartPos s2 = Some p0" "mode s2 = mode x"
    "twoFingerTapDetected s2 = twoFingerTapDetected x" "twoFingerMoved s2 = twoFingerMoved x"
    "singleTapTimer s2 = singleTapTimer x" "timers s2 = timers ?c" "nextTimerId s2 = nextTimerId x"
    "enabled s2"
    using s2 assms by (auto simp: cancelLongPress_eq)
  have tp: "tapIfAny e True changed s2 = processTap e p0 s2"
    using f assms(9) by (simp add: tapIfAny_def)
  define s3 where "s3 = processTap e p0 s2"
  have en: "mouse_handleTouchEnd e [] changed x =
      (s3\<lparr> relTouchStart := None, touchStartPos := None, twoFingerTapDetected := False,
           scrollAnchor := None \<rparr>, o2)"
    using assms(1,2,7,10) sp f tp
    by (cases "mode x") (auto simp: mouse_handleTouchEnd_def s3_def Let_def)
  have p3: "lastTapTime s3 = now e" "lastTapPos s3 = Some p0" "enabled s3"
    using f by (auto simp: s3_def processTap_def setTimeout_def clearTimeout_def Let_def
        split: option.splits)
  have pa: "mode x = Absolute \<longrightarrow>
        singleTapTimer s3 = singleTapTimer x \<and> timers s3 = timers ?c \<and> nextTimerId s3 = nextTimerId x"
    using f by (simp add: s3_def processTap_def Let_def)
  have pr: "mode x = Relative \<longrightarrow>
        singleTapTimer s3 = Some (nextTimerId x) \<and>
        timers s3 = filter (\<lambda>t. Some (fst t) \<noteq> singleTapTimer x) (timers ?c)
                    @ [(nextTimerId x, now e + DOUBLE_TAP_WINDOW, CbSingleTap)] \<and>
        nextTimerId s3 = Suc (nextTimerId x)"
    using f by (auto simp: s3_def processTap_def setTimeout_def clearTimeout_def Let_def
        split: option.splits)
  show ?thesis using en so p3 pa pr by simp
qed

lemma second_tap_cancels:
  assumes "enabled s" "\<not> isZoomGesture e" "getTouchPos e t = Some p" "isSecondTap e p s"
    "singleTapTimer s = Some i" "i < nextTimerId s"
  shows "\<exists>s' out. mouse_handleTouchStart e [t] s = Some (s', out) \<and>
           singleTapTimer s' = None \<and> i \<notin> fst ` set (timers s')"
proof -
  let ?s1 = "s\<lparr> touchStartTime := now e, touchStartPos := Some p,
                touchMoved := False, longPressFired := False \<rparr>"
  have s2: "isSecondTap e p ?s1" using assms(4) by (simp add: isSecondTap_def)
  define s5 where "s5 = (let s2 = cancelSingleTap ?s1;
                            s3 = s2\<lparr> isSecondTapDown := True \<rparr>;
                            s4 = (case dragHoldTimer s3 of None \<Rightarrow> s3 | Some i \<Rightarrow> clearTimeout i s3);
                            (i, s5) = setTimeout CbDragHold DRAG_HOLD_DELAY e s4
                        in s5\<lparr> dragHoldTimer := Some i \<rparr>)"
  have st: "mouse_handleTouchStart e [t] s = Some (placeTouch e p s5)"
    using assms(1,2,3) s2 by (simp add: mouse_handleTouchStart_def s5_def Let_def split: prod.splits)
  have f5: "singleTapTimer s5 = None" "i \<notin> fst ` set (timers s5)"
    using assms(5,6)
    by (auto simp: s5_def cancelSingleTap_def clearTimeout_def setTimeout_def Let_def
        split: option.splits)
  obtain s' out where pt: "placeTouch e p s5 = (s', out)" by (cases "placeTouch e p s5")
  have "singleTapTimer s' = singleTapTimer s5 \<and> timers s' = timers s5"
    using pt by (auto simp: placeTouch_def split: if_splits dest!: sendPlannedMove_out)
  then show ?thesis using st pt f5 by simp
qed

lemma single_tap_callback:
  "snd (runCallback CbSingleTap e y) = [MouseButton LeftButton True] \<and>
   (nextTimerId y, now e + 50, CbButtonUp LeftButton) \<in> set (timers (fst (runCallback CbSingleTap e y))) \<and>
   snd (runCallback (CbButtonUp LeftButton) e y) = [MouseButton LeftButton False]"
  by (simp add: clickPulse_def setTimeout_def Let_def)

text \<open>
  A standalone single tap that starts with no two-finger tap detection left pending: with
  no drag in progress, a finger lands where it is not the second tap of a double tap, moves
  at most within 10 px of where it landed, and lifts less than 200 ms after it landed. No
  button event is emitted during the tap, and the tap is recorded for the double-tap test.
  In absolute mode nothing else happens: no timer is scheduled. In relative mode exactly
  one timer is scheduled, the deferred single tap, due 300 ms after the release; its
  callback emits the press of the left button and schedules the release 50 ms later; and a
  touch start within 300 ms of the release and within 20 px of the tap cancels it.
\<close>

lemma standalone_single_tap:
  assumes s: "enabled s" "\<not> isDragging s" "\<not> isSecondTapDown s"
      "mode s = Relative \<longrightarrow> \<not> (twoFingerTapDetected s \<and> \<not> twoFingerMoved s)"
    and e0: "\<not> isZoomGesture e0" "getTouchPos e0 t0 = Some p0" "\<not> isSecondTap e0 p0 s"
    and ms: "\<forall>m \<in> set ms. case m of (e, t) \<Rightarrow>
        \<not> isZoomGesture e \<and> (\<exists>p. getTouchPos e t = Some p \<and> pos_distance p p0 \<le> TAP_MAX_DISTANCE)"
    and e1: "\<not> isZoomGesture e1" "now e1 - now e0 < TAP_MAX_DURATION" "length changed \<ge> 1"
  shows "\<exists>s' out.
     mouse_run ((e0, MTouchStart [t0]) # oneFingerMoves ms @ [(e1, MTouchEnd [] changed)]) s
       = Some (s', out) \<and>
     (\<forall>b st. MouseButton b st \<notin> set out) \<and>
     lastTapTime s' = now e1 \<and> lastTapPos s' = Some p0 \<and>
     (mode s = Absolute \<longrightarrow>
        singleTapTimer s' = singleTapTimer s \<and> set (timers s') \<subseteq> set (timers s)) \<and>
     (mode s = Relative \<longrightarrow>
        singleTapTimer s' = Some (Suc (nextTimerId s)) \<and>
        (Suc (nextTimerId s), now e1 + DOUBLE_TAP_WINDOW, CbSingleTap) \<in> set (timers s') \<and>
        set (timers s') \<subseteq>
          insert (Suc (nextTimerId s), now e1 + DOUBLE_TAP_WINDOW, CbSingleTap) (set (timers s)) \<and>
        (\<forall>e2. snd (runCallback CbSingleTap e2 s') = [MouseButton LeftButton True] \<and>
              (nextTimerId s', now e2 + 50, CbButtonUp LeftButton)
                \<in> set (timers (fst (runCallback CbSingleTap e2 s'))) \<and>
              (\<forall>e3. snd (runCallback (CbButtonUp LeftButton) e3 (fst (runCallback CbSingleTap e2 s')))
                      = [MouseButton LeftButton False])) \<and>
        (\<forall>e2 t2 p2.
           \<not> isZoomGesture e2 \<and> getTouchPos e2 t2 = Some p2 \<and> now e1 \<noteq> 0 \<and>
           now e2 - now e1 < DOUBLE_TAP_WINDOW \<and> pos_distance p2 p0 < TAP_MAX_DISTANCE * 2 \<longrightarrow>
           (\<exists>s'' out''. mouse_handleTouchStart e2 [t2] s' = Some (s'', out'') \<and>
              singleTapTimer s'' = None \<and> Suc (nextTimerId s) \<notin> fst ` set (timers s''))))"
proof -
  define d where "d = oneFingerDown e0 p0 s"
  define n where "n = nextTimerId s"
  obtain x0 o0 where st: "mouse_handleTouchStart e0 [t0] s = Some (x0, o0)" "pointerOnly d x0"
      "\<forall>ev \<in> set o0. \<exists>vx vy. ev = MouseMoveAbs vx vy"
    using first_contact [OF s(1) e0] unfolding d_def by blast
  have fd: "enabled d" "\<not> isDragging d" "touchStartPos d = Some p0" "\<not> isSecondTapDown d"
    "\<not> longPressFired d" "\<not> touchMoved d" "touchStartTime d = now e0" "mode d = mode s"
    "twoFingerTapDetected d = twoFingerTapDetected s" "twoFingerMoved d = twoFingerMoved s"
    "singleTapTimer d = singleTapTimer s" "nextTimerId d = Suc n" "longPressTimer d = Some n"
    using s by (simp_all add: d_def n_def oneFingerDown_def)
  have td: "set (filter (\<lambda>t. fst t \<noteq> n) (timers d)) \<subseteq> set (timers s)"
    by (auto simp: d_def n_def oneFingerDown_def split: option.splits)
  obtain x1 o1 where mv: "mouse_run (oneFingerMoves ms) x0 = Some (x1, o1)" "pointerOnly d x1"
      "\<forall>ev \<in> set o1. \<exists>dx dy. ev = MouseRelative dx dy"
    using still_one_finger_moves [OF st(2) fd(1,2,3) ms] by blast
  obtain a r where x1: "x1 = d\<lparr> absPos := a, relTouchStart := r \<rparr>"
    using mv(2) by (auto simp: pointerOnly_def)
  have f1: "enabled x1" "\<not> isDragging x1" "\<not> isSecondTapDown x1" "\<not> longPressFired x1"
    "\<not> touchMoved x1" "now e1 - touchStartTime x1 < TAP_MAX_DURATION" "touchStartPos x1 = Some p0"
    "mode x1 = Relative \<longrightarrow> \<not> (twoFingerTapDetected x1 \<and> \<not> twoFingerMoved x1)"
    "mode x1 = mode s" "singleTapTimer x1 = singleTapTimer s" "nextTimerId x1 = Suc n"
    using fd s(4) e1(2) by (simp_all add: x1)
  have tc: "timers (cancelLongPress x1) = filter (\<lambda>t. fst t \<noteq> n) (timers d)"
    using fd by (simp add: cancelLongPress_eq x1)
  obtain s' o2 where en: "mouse_handleTouchEnd e1 [] changed x1 = (s', o2)"
      "\<forall>ev \<in> set o2. \<exists>vx vy. ev = MouseMoveAbs vx vy"
      "lastTapTime s' = now e1" "lastTapPos s' = Some p0" "enabled s'"
      "mode x1 = Absolute \<longrightarrow>
        singleTapTimer s' = singleTapTimer x1 \<and> timers s' = timers (cancelLongPress x1) \<and>
        nextTimerId s' = nextTimerId x1"
      "mode x1 = Relative \<longrightarrow>
        singleTapTimer s' = Some (nextTimerId x1) \<and>
        timers s' = filter (\<lambda>t. Some (fst t) \<noteq> singleTapTimer x1) (timers (cancelLongPress x1))
                    @ [(nextTimerId x1, now e1 + DOUBLE_TAP_WINDOW, CbSingleTap)] \<and>
        nextTimerId s' = Suc (nextTimerId x1)"
    using tap_release [OF f1(1) e1(1) f1(2,3,4,5,6,7) e1(3) f1(8)] by blast
  have run: "mouse_run ((e0, MTouchStart [t0]) # oneFingerMoves ms @ [(e1, MTouchEnd [] changed)]) s
       = Some (s', o0 @ o1 @ o2)"
    using st(1) mv(1) en(1) by (simp add: mouse_run_append)
  have nb: "\<forall>b st. MouseButton b st \<notin> set (o0 @ o1 @ o2)"
    using st(3) mv(3) en(2) by auto
  have ab: "mode s = Absolute \<longrightarrow>
        singleTapTimer s' = singleTapTimer s \<and> set (timers s') \<subseteq> set (timers s)"
    using en(6) f1(9,10) tc td by simp
  have rel: "mode s = Relative \<longrightarrow>
        singleTapTimer s' = Some (Suc n) \<and>
        (Suc n, now e1 + DOUBLE_TAP_WINDOW, CbSingleTap) \<in> set (timers s') \<and>
        set (timers s') \<subseteq> insert (Suc n, now e1 + DOUBLE_TAP_WINDOW, CbSingleTap) (set (timers s)) \<and>
        nextTimerId s' = Suc (Suc n)"
    using en(7) f1(9,10,11) tc td by auto
  have cb: "\<forall>e2. snd (runCallback CbSingleTap e2 s') = [MouseButton LeftButton True] \<and>
              (nextTimerId s', now e2 + 50, CbButtonUp LeftButton)
                \<in> set (timers (fst (runCallback CbSingleTap e2 s'))) \<and>
              (\<forall>e3. snd (runCallback (CbButtonUp LeftButton) e3 (fst (runCallback CbSingleTap e2 s')))
                      = [MouseButton LeftButton False])"
    by (simp add: clickPulse_def setTimeout_def Let_def)
  have cancel: "mode s = Relative \<longrightarrow> (\<forall>e2 t2 p2.
           \<not> isZoomGesture e2 \<and> getTouchPos e2 t2 = Some p2 \<and> now e1 \<noteq> 0 \<and>
           now e2 - now e1 < DOUBLE_TAP_WINDOW \<and> pos_distance p2 p0 < TAP_MAX_DISTANCE * 2 \<longrightarrow>
           (\<exists>s'' out''. mouse_handleTouchStart e2 [t2] s' = Some (s'', out'') \<and>
              singleTapTimer s'' = None \<and> Suc n \<notin> fst ` set (timers s'')))"
  proof (intro impI allI)
    fix e2 t2 p2
    assume r: "mode s = Relative"
    assume h: "\<not> isZoomGesture e2 \<and> getTouchPos e2 t2 = Some p2 \<and> now e1 \<noteq> 0 \<and>
           now e2 - now e1 < DOUBLE_TAP_WINDOW \<and> pos_distance p2 p0 < TAP_MAX_DISTANCE * 2"
    have sec: "isSecondTap e2 p2 s'" using h en(3,4) by (simp add: isSecondTap_def)
    have i: "singleTapTimer s' = Some (Suc n)" "Suc n < nextTimerId s'" using rel r by simp_all
    show "\<exists>s'' out''. mouse_handleTouchStart e2 [t2] s' = Some (s'', out'') \<and>
              singleTapTimer s'' = None \<and> Suc n \<notin> fst ` set (timers s'')"
      using second_tap_cancels [OF en(5) _ _ sec i] h by blast
  qed
  show ?thesis using run nb en(3,4) ab rel cb cancel unfolding n_def by blast
qed

lemma touch_pos_plain:
  "getTouchPos (env_zoom t zoom_init) (touch_at x y) = Some \<lparr> pos_x = js_round x, pos_y = js_round y \<rparr>"
  by (simp add: getTouchPos_def screenToContainerPos_def env_zoom_def zoom_init_def)

lemma tap_positions:
  "getTouchPos (env_zoom t zoom_init) (touch_at 10 10) = Some \<lparr> pos_x = 10, pos_y = 10 \<rparr>"
  "getTouchPos (env_zoom t zoom_init) (touch_at 12 10) = Some \<lparr> pos_x = 12, pos_y = 10 \<rparr>"
  "getTouchPos (env_zoom t zoom_init) (touch_at 11 10) = Some \<lparr> pos_x = 11, pos_y = 10 \<rparr>"
  by (simp_all add: touch_pos_plain js_round_def)

lemma tap_distances:
  "pos_distance \<lparr> pos_x = 12, pos_y = 10 \<rparr> \<lparr> pos_x = 10, pos_y = 10 \<rparr> \<le> TAP_MAX_DISTANCE"
  "pos_distance \<lparr> pos_x = 11, pos_y = 10 \<rparr> \<lparr> pos_x = 10, pos_y = 10 \<rparr> < TAP_MAX_DISTANCE * 2"
  by (simp_all add: pos_distance_def TAP_MAX_DISTANCE_def real_le_lsqrt real_less_lsqrt)

text \<open>
  A finger lands at (10, 10), drifts to (12, 10) and lifts after 100 ms. In relative mode
  the deferred single tap is scheduled (timer 2, due 300 ms after the release), and a
  touch start at (11, 10) 100 ms after the release cancels it. In absolute mode the tap is
  recorded and nothing is scheduled.
\<close>

lemma standalone_single_tap_example:
  "(\<exists>s' out.
      mouse_run ((env_zoom 1000 zoom_init, MTouchStart [touch_at 10 10]) #
                 oneFingerMoves [(env_zoom 1050 zoom_init, touch_at 12 10)] @
                 [(env_zoom 1100 zoom_init, MTouchEnd [] [touch_at 12 10])])
        (mouse_init\<lparr> mode := Relative \<rparr>) = Some (s', out) \<and>
      (\<forall>b st. MouseButton b st \<notin> set out) \<and>
      lastTapTime s' = 1100 \<and> lastTapPos s' = Some \<lparr> pos_x = 10, pos_y = 10 \<rparr> \<and>
      singleTapTimer s' = Some 2 \<and> (2, 1400, CbSingleTap) \<in> set (timers s') \<and>
      (\<exists>s'' out''. mouse_handleTouchStart (env_zoom 1200 zoom_init) [touch_at 11 10] s' = Some (s'', out'') \<and>
         singleTapTimer s'' = None \<and> 2 \<notin> fst ` set (timers s''))) \<and>
   (\<exists>s' out.
      mouse_run ((env_zoom 1000 zoom_init, MTouchStart [touch_at 10 10]) #
                 oneFingerMoves [(env_zoom 1050 zoom_init, touch_at 12 10)] @
                 [(env_zoom 1100 zoom_init, MTouchEnd [] [touch_at 12 10])])
        mouse_init = Some (s', out) \<and>
      (\<forall>b st. MouseButton b st \<notin> set out) \<and>
      lastTapTime s' = 1100 \<and> lastTapPos s' = Some \<lparr> pos_x = 10, pos_y = 10 \<rparr> \<and>
      singleTapTimer s' = None \<and> timers s' = [])"
proof -
  let ?e0 = "env_zoom 1000 zoom_init" and ?e1 = "env_zoom 1100 zoom_init"
  let ?ms = "[(env_zoom 1050 zoom_init, touch_at 12 10)]"
  let ?p0 = "\<lparr> pos_x = 10, pos_y = 10 \<rparr>"
  have z: "\<not> isZoomGesture (env_zoom t zoom_init)" for t
    by (simp add: isZoomGesture_def env_zoom_def)
  have hm: "\<forall>m \<in> set ?ms. case m of (e, t) \<Rightarrow>
        \<not> isZoomGesture e \<and> (\<exists>p. getTouchPos e t = Some p \<and> pos_distance p ?p0 \<le> TAP_MAX_DISTANCE)"
    using z tap_positions(2) tap_distances(1) by simp
  have h1: "now ?e1 - now ?e0 < TAP_MAX_DURATION" "length [touch_at 12 10] \<ge> 1"
    by (simp_all add: env_zoom_def TAP_MAX_DURATION_def)
  have nw: "now ?e1 = 1100" "now ?e1 + DOUBLE_TAP_WINDOW = 1400" "now ?e1 \<noteq> 0"
    "now (env_zoom 1200 zoom_init) - now ?e1 < DOUBLE_TAP_WINDOW"
    by (simp_all add: env_zoom_def DOUBLE_TAP_WINDOW_def)
  have R: "enabled (mouse_init\<lparr> mode := Relative \<rparr>)" "\<not> isDragging (mouse_init\<lparr> mode := Relative \<rparr>)"
    "\<not> isSecondTapDown (mouse_init\<lparr> mode := Relative \<rparr>)"
    "mode (mouse_init\<lparr> mode := Relative \<rparr>) = Relative \<longrightarrow>
       \<not> (twoFingerTapDetected (mouse_init\<lparr> mode := Relative \<rparr>) \<and>
          \<not> twoFingerMoved (mouse_init\<lparr> mode := Relative \<rparr>))"
    "\<not> isSecondTap ?e0 ?p0 (mouse_init\<lparr> mode := Relative \<rparr>)"
    "mode (mouse_init\<lparr> mode := Relative \<rparr>) = Relative"
    "Suc (nextTimerId (mouse_init\<lparr> mode := Relative \<rparr>)) = 2"
    by (simp_all add: mouse_init_def isSecondTap_def)
  have A: "enabled mouse_init" "\<not> isDragging mouse_init" "\<not> isSecondTapDown mouse_init"
    "mode mouse_init = Relative \<longrightarrow> \<not> (twoFingerTapDetected mouse_init \<and> \<not> twoFingerMoved mouse_init)"
    "\<not> isSecondTap ?e0 ?p0 mouse_init" "mode mouse_init = Absolute"
    "singleTapTimer mouse_init = None" "timers mouse_init = []"
    by (simp_all add: mouse_init_def isSecondTap_def)
  note TR = standalone_single_tap [OF R(1,2,3,4) z tap_positions(1) R(5) hm z h1]
  note TA = standalone_single_tap [OF A(1,2,3,4) z tap_positions(1) A(5) hm z h1]
  have c: "\<not> isZoomGesture (env_zoom 1200 zoom_init) \<and>
      getTouchPos (env_zoom 1200 zoom_init) (touch_at 11 10) = Some \<lparr> pos_x = 11, pos_y = 10 \<rparr> \<and>
      now ?e1 \<noteq> 0 \<and> now (env_zoom 1200 zoom_init) - now ?e1 < DOUBLE_TAP_WINDOW \<and>
      pos_distance \<lparr> pos_x = 11, pos_y = 10 \<rparr> ?p0 < TAP_MAX_DISTANCE * 2"
    using z tap_positions(3) nw tap_distances(2) by simp
  have first: "\<exists>s' out.
      mouse_run ((?e0, MTouchStart [touch_at 10 10]) # oneFingerMoves ?ms @
                 [(?e1, MTouchEnd [] [touch_at 12 10])])
        (mouse_init\<lparr> mode := Relative \<rparr>) = Some (s', out) \<and>
      (\<forall>b st. MouseButton b st \<notin> set out) \<and>
      lastTapTime s' = 1100 \<and> lastTapPos s' = Some ?p0 \<and>
      singleTapTimer s' = Some 2 \<and> (2, 1400, CbSingleTap) \<in> set (timers s') \<and>
      (\<exists>s'' out''. mouse_handleTouchStart (env_zoom 1200 zoom_init) [touch_at 11 10] s' = Some (s'', out'') \<and>
         singleTapTimer s'' = None \<and> 2 \<notin> fst ` set (timers s''))"
    using TR
  proof (elim exE conjE)
    fix s' out
    let ?S = "mouse_init\<lparr> mode := Relative \<rparr>"
    assume r: "mouse_run ((?e0, MTouchStart [touch_at 10 10]) # oneFingerMoves ?ms @
                 [(?e1, MTouchEnd [] [touch_at 12 10])]) ?S = Some (s', out)"
      and nb: "\<forall>b st. MouseButton b st \<notin> set out"
      and lt: "lastTapTime s' = now ?e1" "lastTapPos s' = Some ?p0"
      and rl: "mode ?S = Relative \<longrightarrow>
        singleTapTimer s' = Some (Suc (nextTimerId ?S)) \<and>
        (Suc (nextTimerId ?S), now ?e1 + DOUBLE_TAP_WINDOW, CbSingleTap) \<in> set (timers s') \<and>
        set (timers s') \<subseteq>
          insert (Suc (nextTimerId ?S), now ?e1 + DOUBLE_TAP_WINDOW, CbSingleTap) (set (timers ?S)) \<and>
        (\<forall>e2. snd (runCallback CbSingleTap e2 s') = [MouseButton LeftButton True] \<and>
              (nextTimerId s', now e2 + 50, CbButtonUp LeftButton)
                \<in> set (timers (fst (runCallback CbSingleTap e2 s'))) \<and>
              (\<forall>e3. snd (runCallback (CbButtonUp LeftButton) e3 (fst (runCallback CbSingleTap e2 s')))
                      = [MouseButton LeftButton False])) \<and>
        (\<forall>e2 t2 p2.
           \<not> isZoomGesture e2 \<and> getTouchPos e2 t2 = Some p2 \<and> now ?e1 \<noteq> 0 \<and>
           now e2 - now ?e1 < DOUBLE_TAP_WINDOW \<and> pos_distance p2 ?p0 < TAP_MAX_DISTANCE * 2 \<longrightarrow>
           (\<exists>s'' out''. mouse_handleTouchStart e2 [t2] s' = Some (s'', out'') \<and>
              singleTapTimer s'' = None \<and> Suc (nextTimerId ?S) \<notin> fst ` set (timers s'')))"
    note rl' = rl [unfolded R(6) R(7) nw(2), THEN mp, OF refl]
    have t: "singleTapTimer s' = Some 2" "(2, 1400, CbSingleTap) \<in> set (timers s')"
      using rl' [THEN conjunct1] rl' [THEN conjunct2, THEN conjunct1] .
    note cn = rl' [THEN conjunct2, THEN conjunct2, THEN conjunct2, THEN conjunct2]
    have "\<exists>s'' out''. mouse_handleTouchStart (env_zoom 1200 zoom_init) [touch_at 11 10] s' = Some (s'', out'') \<and>
         singleTapTimer s'' = None \<and> 2 \<notin> fst ` set (timers s'')"
      using cn [rule_format, of "env_zoom 1200 zoom_init" "touch_at 11 10" "\<lparr> pos_x = 11, pos_y = 10 \<rparr>",
          OF c] .
    then show ?thesis using r nb lt t nw(1) by auto
  qed
  have second: "\<exists>s' out.
      mouse_run ((?e0, MTouchStart [touch_at 10 10]) # oneFingerMoves ?ms @
                 [(?e1, MTouchEnd [] [touch_at 12 10])])
        mouse_init = Some (s', out) \<and>
      (\<forall>b st. MouseButton b st \<notin> set out) \<and>
      lastTapTime s' = 1100 \<and> lastTapPos s' = Some ?p0 \<and>
      singleTapTimer s' = None \<and> timers s' = []"
    using TA
  proof (elim exE conjE)
    fix s' out
    assume r: "mouse_run ((?e0, MTouchStart [touch_at 10 10]) # oneFingerMoves ?ms @
                 [(?e1, MTouchEnd [] [touch_at 12 10])]) mouse_init = Some (s', out)"
      and nb: "\<forall>b st. MouseButton b st \<notin> set out"
      and lt: "lastTapTime s' = now ?e1" "lastTapPos s' = Some ?p0"
      and ab: "mode mouse_init = Absolute \<longrightarrow>
        singleTapTimer s' = singleTapTimer mouse_init \<and> set (timers s') \<subseteq> set (timers mouse_init)"
    have "singleTapTimer s' = None" "timers s' = []" using ab A(6,7,8) by simp_all
    then show ?thesis using r nb lt nw(1) by auto
  qed
  show ?thesis using first second by (rule conjI)
qed

text \<open>
  A pinch seen from both listeners. Two fingers land 100 px apart at 1000 ms; the mouse
  handler sees that touch start. They spread to 130 px: the ZoomController classifies a
  pinch and stops the propagation of the touch move, and of the touch end that lifts both
  fingers, so the mouse handler runs for neither. Then one finger lands at (13, 13), which
  is (10, 10) of the container at the scale 1.3, and lifts 100 ms later without moving.
\<close>

lemma pinch_lifted:
  "zoom_handleTouchEnd page_4k []
     (zoom_init\<lparr> pinchStartDist := 100, undecidedMidX := 50, isPinching := True,
                        pinchFocalX := 50, scale := 13 / 10, zoomed := True,
                        translateX := 105, translateY := 90 \<rparr>) =
   ((zoom_init\<lparr> pinchStartDist := 100, undecidedMidX := 50,
                        pinchFocalX := 50, scale := 13 / 10, zoomed := True,
                        translateX := 105, translateY := 90 \<rparr>),
    [SetTransform (13 / 10) 105 90, NotifyChange True (13 / 10), PreventDefault, StopPropagation])"
  by (simp add: zoom_handleTouchEnd_def zoom_eval notifyChange_def)

lemma stale_tap_down:
  "mouse_handleTouchStart (env_zoom 5000 (zoom_init\<lparr> pinchStartDist := 100, undecidedMidX := 50,
                        pinchFocalX := 50, scale := 13 / 10, zoomed := True,
                        translateX := 105, translateY := 90 \<rparr>)) [touch_at 13 13]
     (mouse_init\<lparr> mode := Relative, twoFingerStartTime := 1000, twoFingerTapDetected := True, scrollAnchor := Some \<lparr> pos_x = 50, pos_y = 0 \<rparr> \<rparr>) =
   Some (mouse_init\<lparr> mode := Relative, twoFingerStartTime := 1000, twoFingerTapDetected := True, scrollAnchor := Some \<lparr> pos_x = 50, pos_y = 0 \<rparr>, touchStartTime := 5000, touchStartPos := Some \<lparr> pos_x = 10, pos_y = 10 \<rparr>, relTouchStart := Some \<lparr> pos_x = 10, pos_y = 10 \<rparr>, longPressTimer := Some 1, timers := [(1, 5500, CbLongPress)], nextTimerId := 2 \<rparr>,
         [])"
  by (simp add: mouse_eval2 zoom_init_def js_div_def)

lemma stale_tap_up:
  "mouse_handleTouchEnd (env_zoom 5100 (zoom_init\<lparr> pinchStartDist := 100, undecidedMidX := 50,
                        pinchFocalX := 50, scale := 13 / 10, zoomed := True,
                        translateX := 105, translateY := 90 \<rparr>)) [] [touch_at 13 13]
     (mouse_init\<lparr> mode := Relative, twoFingerStartTime := 1000, twoFingerTapDetected := True, scrollAnchor := Some \<lparr> pos_x = 50, pos_y = 0 \<rparr>, touchStartTime := 5000, touchStartPos := Some \<lparr> pos_x = 10, pos_y = 10 \<rparr>, relTouchStart := Some \<lparr> pos_x = 10, pos_y = 10 \<rparr>, longPressTimer := Some 1, timers := [(1, 5500, CbLongPress)], nextTimerId := 2 \<rparr>) =
   (mouse_init\<lparr> mode := Relative, twoFingerStartTime := 1000, touchStartTime := 5000, nextTimerId := 2 \<rparr>,
    [])"
  by (simp add: mouse_eval2 zoom_init_def)

lemma stale_quick_tap_down:
  "mouse_handleTouchStart (env_zoom 1100 (zoom_init\<lparr> pinchStartDist := 100, undecidedMidX := 50,
                        pinchFocalX := 50, scale := 13 / 10, zoomed := True,
                        translateX := 105, translateY := 90 \<rparr>)) [touch_at 13 13]
     (mouse_init\<lparr> mode := Relative, twoFingerStartTime := 1000, twoFingerTapDetected := True, scrollAnchor := Some \<lparr> pos_x = 50, pos_y = 0 \<rparr> \<rparr>) =
   Some (mouse_init\<lparr> mode := Relative, twoFingerStartTime := 1000, twoFingerTapDetected := True, scrollAnchor := Some \<lparr> pos_x = 50, pos_y = 0 \<rparr>, touchStartTime := 1100, touchStartPos := Some \<lparr> pos_x = 10, pos_y = 10 \<rparr>, relTouchStart := Some \<lparr> pos_x = 10, pos_y = 10 \<rparr>, longPressTimer := Some 1, timers := [(1, 1600, CbLongPress)], nextTimerId := 2 \<rparr>,
         [])"
  by (simp add: mouse_eval2 zoom_init_def js_div_def)

lemma stale_quick_tap_up:
  "mouse_handleTouchEnd (env_zoom 1150 (zoom_init\<lparr> pinchStartDist := 100, undecidedMidX := 50,
                        pinchFocalX := 50, scale := 13 / 10, zoomed := True,
                        translateX := 105, translateY := 90 \<rparr>)) [] [touch_at 13 13]
     (mouse_init\<lparr> mode := Relative, twoFingerStartTime := 1000, twoFingerTapDetected := True, scrollAnchor := Some \<lparr> pos_x = 50, pos_y = 0 \<rparr>, touchStartTime := 1100, touchStartPos := Some \<lparr> pos_x = 10, pos_y = 10 \<rparr>, relTouchStart := Some \<lparr> pos_x = 10, pos_y = 10 \<rparr>, longPressTimer := Some 1, timers := [(1, 1600, CbLongPress)], nextTimerId := 2 \<rparr>) =
   (mouse_init\<lparr> mode := Relative, twoFingerStartTime := 1000, touchStartTime := 1100, timers := [(2, 1200, CbButtonUp RightButton)], nextTimerId := 3 \<rparr>,
    [MouseButton RightButton True])"
  by (simp add: mouse_eval2 zoom_init_def)

text \<open>
  C6. A standalone single tap in relative mode should be recorded and should schedule one
  deferred left click. After a pinch whose touch end the ZoomController consumed, the
  two-finger tap detection of the mouse handler is still set, and the tap at 5000 ms, lifted
  at 5100 ms, takes the two-finger branch of the touch end: nothing is emitted, no tap is
  recorded and no timer is left pending. When the tap comes at 1100 ms and lifts at
  1150 ms, within 200 ms of the two-finger touch start, it emits the press of the right
  button instead.
\<close>

theorem stale_two_finger_flag_swallows_tap:
  "zoom_moves [(page_4k, touch_at (- 15) 0, touch_at 115 0)] two_fingers_100 =
     Some (zoom_init\<lparr> pinchStartDist := 100, undecidedMidX := 50, isPinching := True,
                        pinchFocalX := 50, scale := 13 / 10, zoomed := True,
                        translateX := 105, translateY := 90 \<rparr>,
           [PreventDefault, StopPropagation, SetTransform (13 / 10) 105 90]) \<and>
   zoom_handleTouchEnd page_4k []
     (zoom_init\<lparr> pinchStartDist := 100, undecidedMidX := 50, isPinching := True,
                        pinchFocalX := 50, scale := 13 / 10, zoomed := True,
                        translateX := 105, translateY := 90 \<rparr>) =
   ((zoom_init\<lparr> pinchStartDist := 100, undecidedMidX := 50,
                        pinchFocalX := 50, scale := 13 / 10, zoomed := True,
                        translateX := 105, translateY := 90 \<rparr>),
    [SetTransform (13 / 10) 105 90, NotifyChange True (13 / 10), PreventDefault, StopPropagation]) \<and>
   mouse_run
     [(env_zoom 1000 two_fingers_100, MTouchStart [touch_at 0 0, touch_at 100 0]),
      (env_zoom 5000 (zoom_init\<lparr> pinchStartDist := 100, undecidedMidX := 50,
                        pinchFocalX := 50, scale := 13 / 10, zoomed := True,
                        translateX := 105, translateY := 90 \<rparr>), MTouchStart [touch_at 13 13]),
      (env_zoom 5100 (zoom_init\<lparr> pinchStartDist := 100, undecidedMidX := 50,
                        pinchFocalX := 50, scale := 13 / 10, zoomed := True,
                        translateX := 105, translateY := 90 \<rparr>), MTouchEnd [] [touch_at 13 13])]
     (mouse_init\<lparr> mode := Relative \<rparr>) =
   Some (mouse_init\<lparr> mode := Relative, twoFingerStartTime := 1000, touchStartTime := 5000, nextTimerId := 2 \<rparr>,
         []) \<and>
   mouse_run
     [(env_zoom 1000 two_fingers_100, MTouchStart [touch_at 0 0, touch_at 100 0]),
      (env_zoom 1100 (zoom_init\<lparr> pinchStartDist := 100, undecidedMidX := 50,
                        pinchFocalX := 50, scale := 13 / 10, zoomed := True,
                        translateX := 105, translateY := 90 \<rparr>), MTouchStart [touch_at 13 13]),
      (env_zoom 1150 (zoom_init\<lparr> pinchStartDist := 100, undecidedMidX := 50,
                        pinchFocalX := 50, scale := 13 / 10, zoomed := True,
                        translateX := 105, translateY := 90 \<rparr>), MTouchEnd [] [touch_at 13 13])]
     (mouse_init\<lparr> mode := Relative \<rparr>) =
   Some (mouse_init\<lparr> mode := Relative, twoFingerStartTime := 1000, touchStartTime := 1100, timers := [(2, 1200, CbButtonUp RightButton)], nextTimerId := 3 \<rparr>,
         [MouseButton RightButton True])"
proof (intro conjI)
  show "zoom_moves [(page_4k, touch_at (- 15) 0, touch_at 115 0)] two_fingers_100 =
     Some (zoom_init\<lparr> pinchStartDist := 100, undecidedMidX := 50, isPinching := True,
                        pinchFocalX := 50, scale := 13 / 10, zoomed := True,
                        translateX := 105, translateY := 90 \<rparr>,
           [PreventDefault, StopPropagation, SetTransform (13 / 10) 105 90])"
    by (rule pinch_run)
  show "zoom_handleTouchEnd page_4k []
     (zoom_init\<lparr> pinchStartDist := 100, undecidedMidX := 50, isPinching := True,
                        pinchFocalX := 50, scale := 13 / 10, zoomed := True,
                        translateX := 105, translateY := 90 \<rparr>) =
   ((zoom_init\<lparr> pinchStartDist := 100, undecidedMidX := 50,
                        pinchFocalX := 50, scale := 13 / 10, zoomed := True,
                        translateX := 105, translateY := 90 \<rparr>),
    [SetTransform (13 / 10) 105 90, NotifyChange True (13 / 10), PreventDefault, StopPropagation])"
    by (rule pinch_lifted)
  show "mouse_run
     [(env_zoom 1000 two_fingers_100, MTouchStart [touch_at 0 0, touch_at 100 0]),
      (env_zoom 5000 (zoom_init\<lparr> pinchStartDist := 100, undecidedMidX := 50,
                        pinchFocalX := 50, scale := 13 / 10, zoomed := True,
                        translateX := 105, translateY := 90 \<rparr>), MTouchStart [touch_at 13 13]),
      (env_zoom 5100 (zoom_init\<lparr> pinchStartDist := 100, undecidedMidX := 50,
                        pinchFocalX := 50, scale := 13 / 10, zoomed := True,
                        translateX := 105, translateY := 90 \<rparr>), MTouchEnd [] [touch_at 13 13])]
     (mouse_init\<lparr> mode := Relative \<rparr>) =
   Some (mouse_init\<lparr> mode := Relative, twoFingerStartTime := 1000, touchStartTime := 5000, nextTimerId := 2 \<rparr>,
         [])"
    by (simp only: mouse_run.simps mouse_step.simps tap_start stale_tap_down stale_tap_up
        option.case prod.case append_Nil)
  show "mouse_run
     [(env_zoom 1000 two_fingers_100, MTouchStart [touch_at 0 0, touch_at 100 0]),
      (env_zoom 1100 (zoom_init\<lparr> pinchStartDist := 100, undecidedMidX := 50,
                        pinchFocalX := 50, scale := 13 / 10, zoomed := True,
                        translateX := 105, translateY := 90 \<rparr>), MTouchStart [touch_at 13 13]),
      (env_zoom 1150 (zoom_init\<lparr> pinchStartDist := 100, undecidedMidX := 50,
                        pinchFocalX := 50, scale := 13 / 10, zoomed := True,
                        translateX := 105, translateY := 90 \<rparr>), MTouchEnd [] [touch_at 13 13])]
     (mouse_init\<lparr> mode := Relative \<rparr>) =
   Some (mouse_init\<lparr> mode := Relative, twoFingerStartTime := 1000, touchStartTime := 1100, timers := [(2, 1200, CbButtonUp RightButton)], nextTimerId := 3 \<rparr>,
         [MouseButton RightButton True])"
    by (simp only: mouse_run.simps mouse_step.simps tap_start stale_quick_tap_down stale_quick_tap_up
        option.case prod.case append_Nil append_Nil2)
qed

end
